theory Spec2Isabelle
  imports Complex_Main "HOL-Library.Sublist"
begin

section \<open>JavaScript values\<close>

text \<open>
  A JavaScript value that is a string or \<open>undefined\<close> is an optional list. Both
  \<open>undefined\<close> and the empty string are falsy, so \<open>if (x)\<close>, \<open>!x\<close> and \<open>x || y\<close> on such a
  value are decided by \<open>truthy\<close>. Identifiers, names, environment values and the fixed
  texts of responses are \<open>string\<close>s, the bytes of their UTF-8 form: the code only
  compares them or searches them for ASCII patterns. The texts that the code trims, cuts
  or measures are lists of UTF-16 code units (type \<open>js_string\<close> below).
\<close>

definition truthy :: "'a list option \<Rightarrow> bool" where
  "truthy v = (case v of None \<Rightarrow> False | Some s \<Rightarrow> s \<noteq> [])"

text \<open>\<open>x || d\<close> for a string default \<open>d\<close>.\<close>

definition or_default :: "'a list option \<Rightarrow> 'a list \<Rightarrow> 'a list" where
  "or_default v d = (case v of None \<Rightarrow> d | Some s \<Rightarrow> if s = [] then d else s)"

text \<open>\<open>s.includes(p)\<close>: \<open>p\<close> occurs in \<open>s\<close> as a contiguous run, case-sensitive.\<close>

definition js_includes :: "string \<Rightarrow> string \<Rightarrow> bool" where
  "js_includes s p = sublist p s"


section \<open>Dashboard: the error text of \<open>sendMessage\<close>\<close>

text \<open>
  \<open>Dashboard.tsx\<close>, the \<open>catch\<close> block of \<open>sendMessage\<close>. The argument is \<open>error.message\<close>.
\<close>

definition default_error_text :: string where
  "default_error_text = ''Sorry, there was an error processing your message. Please try again.''"

definition sendMessage_error_text :: "string option \<Rightarrow> string" where
  "sendMessage_error_text error_message =
     (case error_message of
        None \<Rightarrow> default_error_text
      | Some m \<Rightarrow>
          if m = [] then default_error_text
          else if js_includes m ''timeout'' \<or> js_includes m ''timed out'' then
            ''The AI service is taking too long to respond. Please try again later.''
          else if js_includes m ''overloaded'' \<or> js_includes m ''rate limit'' then
            ''The AI service is currently overloaded. Please wait a moment and try again.''
          else if js_includes m ''authentication'' \<or> js_includes m ''unauthorized'' then
            ''Authentication failed. Please refresh the page and try again.''
          else if js_includes m ''model'' \<or> js_includes m ''configuration'' then
            ''There is an issue with the AI model configuration. Please contact support.''
          else if js_includes m ''workspace'' then
            ''Workspace configuration error. Please refresh the page and try again.''
          else m)"

text \<open>
  The specification's reading: an ordered table of (patterns, text) rows, the first row
  one of whose patterns occurs in the message wins, and the message itself is the result
  when no row matches.
\<close>

definition spec_error_table :: "(string list \<times> string) list" where
  "spec_error_table =
     [([''timeout'', ''timed out''],
         ''The AI service is taking too long to respond. Please try again later.''),
      ([''overloaded'', ''rate limit''],
         ''The AI service is currently overloaded. Please wait a moment and try again.''),
      ([''authentication'', ''unauthorized''],
         ''Authentication failed. Please refresh the page and try again.''),
      ([''model'', ''configuration''],
         ''There is an issue with the AI model configuration. Please contact support.''),
      ([''workspace''],
         ''Workspace configuration error. Please refresh the page and try again.'')]"

definition spec_error_text :: "string \<Rightarrow> string" where
  "spec_error_text m =
     (case find (\<lambda>row. list_ex (js_includes m) (fst row)) spec_error_table of
        None \<Rightarrow> m
      | Some row \<Rightarrow> snd row)"


section \<open>Service initialization\<close>

text \<open>
  \<open>process.env\<close> is a map from names to strings. The SDK constructors and network calls
  are outside the repository; each is a parameter that says whether the call throws
  (\<open>Some e\<close>) or returns (\<open>None\<close>). The four exported clients are module variables, unassigned
  until an initializer assigns them.
\<close>

type_synonym process_env = "string \<Rightarrow> string option"

record sql_config =
  server :: string
  database :: string
  user :: string
  password :: string
  encrypt :: bool
  trustServerCertificate :: bool
  pool_max :: nat
  pool_min :: nat
  idleTimeoutMillis :: nat

datatype sql_pool = ConnectionPool sql_config

datatype blob_client =
    BlobFromConnectionString string
  | BlobWithSharedKey string string string
  | MockBlobClient

datatype app_config_client =
    AppConfigFromConnectionString string
  | AppConfigFromEndpoint string
  | MockAppConfigClient

datatype openai_client = OpenAIClient string string

record azure_services =
  sqlPool :: "sql_pool option"
  blobServiceClient :: "blob_client option"
  appConfigClient :: "app_config_client option"
  openAIClient :: "openai_client option"

record azure_sdk =
  sql_connect :: "sql_config \<Rightarrow> string option"
  sql_createTables :: "sql_config \<Rightarrow> string option"
  blob_fromConnectionString :: "string \<Rightarrow> string option"
  blob_newSharedKey :: "string \<Rightarrow> string \<Rightarrow> string option"
  blob_createIfNotExists :: "blob_client \<Rightarrow> string \<Rightarrow> string option"
  appconfig_new :: "string \<Rightarrow> string option"
  openai_new :: "string \<Rightarrow> string \<Rightarrow> string option"

datatype completion = Returned | Threw string

definition initializeSQLDatabase ::
  "process_env \<Rightarrow> azure_sdk \<Rightarrow> azure_services \<Rightarrow> completion \<times> azure_services" where
  "initializeSQLDatabase env sdk svc =
     (let config = \<lparr>server = or_default (env ''SQL_SERVER'') [],
                     database = or_default (env ''SQL_DATABASE'') [],
                     user = or_default (env ''SQL_USERNAME'') [],
                     password = or_default (env ''SQL_PASSWORD'') [],
                     encrypt = (env ''SQL_ENCRYPT'' = Some ''true''),
                     trustServerCertificate = (env ''SQL_TRUST_SERVER_CERTIFICATE'' = Some ''true''),
                     pool_max = 10, pool_min = 0, idleTimeoutMillis = 30000\<rparr>
      in if server config = [] \<or> database config = [] \<or> user config = [] \<or> password config = []
         then (Threw ''Missing required SQL database configuration in environment variables'', svc)
         else
           (let svc1 = svc\<lparr>sqlPool := Some (ConnectionPool config)\<rparr>
            in case sql_connect sdk config of
                 Some e \<Rightarrow> (Threw e, svc1)
               | None \<Rightarrow>
                   (case sql_createTables sdk config of
                      Some e \<Rightarrow> (Threw e, svc1)
                    | None \<Rightarrow> (Returned, svc1))))"

text \<open>The part of \<open>initializeBlobStorage\<close> after the client is built: create the container.\<close>

definition blob_ensure_container ::
  "process_env \<Rightarrow> azure_sdk \<Rightarrow> blob_client \<Rightarrow> azure_services \<Rightarrow> completion \<times> azure_services" where
  "blob_ensure_container env sdk client svc =
     (let svc1 = svc\<lparr>blobServiceClient := Some client\<rparr>;
          containerName = or_default (env ''AZURE_STORAGE_CONTAINER_NAME'') ''aiva-files''
      in case blob_createIfNotExists sdk client containerName of
           Some e \<Rightarrow> (Threw e, svc1)
         | None \<Rightarrow> (Returned, svc1))"

text \<open>The \<open>try\<close> block of \<open>initializeBlobStorage\<close>.\<close>

definition initializeBlobStorage_try ::
  "process_env \<Rightarrow> azure_sdk \<Rightarrow> azure_services \<Rightarrow> completion \<times> azure_services" where
  "initializeBlobStorage_try env sdk svc =
     (let accountName = env ''AZURE_STORAGE_ACCOUNT_NAME''
      in if \<not> truthy accountName
         then (Returned, svc\<lparr>blobServiceClient := Some MockBlobClient\<rparr>)
         else
           (let connectionString = env ''AZURE_STORAGE_CONNECTION_STRING''
            in if truthy connectionString
               then (case blob_fromConnectionString sdk (or_default connectionString []) of
                       Some e \<Rightarrow> (Threw e, svc)
                     | None \<Rightarrow>
                         blob_ensure_container env sdk
                           (BlobFromConnectionString (or_default connectionString [])) svc)
               else
                 (let accountKey = env ''AZURE_STORAGE_ACCOUNT_KEY''
                  in if truthy accountName \<and> truthy accountKey
                     then (case blob_newSharedKey sdk (or_default accountName [])
                                  (or_default accountKey []) of
                             Some e \<Rightarrow> (Threw e, svc)
                           | None \<Rightarrow>
                               blob_ensure_container env sdk
                                 (BlobWithSharedKey
                                    (''https://'' @ or_default accountName [] @ ''.blob.core.windows.net'')
                                    (or_default accountName []) (or_default accountKey [])) svc)
                     else (Returned, svc\<lparr>blobServiceClient := Some MockBlobClient\<rparr>))))"

text \<open>\<open>initializeBlobStorage\<close>: the \<open>catch\<close> installs the mock client and returns.\<close>

definition initializeBlobStorage ::
  "process_env \<Rightarrow> azure_sdk \<Rightarrow> azure_services \<Rightarrow> completion \<times> azure_services" where
  "initializeBlobStorage env sdk svc =
     (case initializeBlobStorage_try env sdk svc of
        (Threw e, svc1) \<Rightarrow> (Returned, svc1\<lparr>blobServiceClient := Some MockBlobClient\<rparr>)
      | (Returned, svc1) \<Rightarrow> (Returned, svc1))"

definition initializeAppConfiguration_try ::
  "process_env \<Rightarrow> azure_sdk \<Rightarrow> azure_services \<Rightarrow> completion \<times> azure_services" where
  "initializeAppConfiguration_try env sdk svc =
     (let connectionString = env ''AZURE_APP_CONFIG_CONNECTION_STRING'';
          mockAppConfig = (env ''MOCK_APP_CONFIG'' = Some ''true'')
      in if mockAppConfig \<or> \<not> truthy connectionString
         then (Returned, svc\<lparr>appConfigClient := Some MockAppConfigClient\<rparr>)
         else if truthy connectionString
         then (case appconfig_new sdk (or_default connectionString []) of
                 Some e \<Rightarrow> (Threw e, svc)
               | None \<Rightarrow>
                   (Returned, svc\<lparr>appConfigClient :=
                      Some (AppConfigFromConnectionString (or_default connectionString []))\<rparr>))
         else
           (let endpoint = env ''AZURE_APP_CONFIG_ENDPOINT''
            in if truthy endpoint
               then (case appconfig_new sdk (or_default endpoint []) of
                       Some e \<Rightarrow> (Threw e, svc)
                     | None \<Rightarrow>
                         (Returned, svc\<lparr>appConfigClient :=
                            Some (AppConfigFromEndpoint (or_default endpoint []))\<rparr>))
               else (Threw ''Missing App Configuration connection details'', svc)))"

definition initializeAppConfiguration ::
  "process_env \<Rightarrow> azure_sdk \<Rightarrow> azure_services \<Rightarrow> completion \<times> azure_services" where
  "initializeAppConfiguration env sdk svc =
     (case initializeAppConfiguration_try env sdk svc of
        (Threw e, svc1) \<Rightarrow> (Returned, svc1\<lparr>appConfigClient := Some MockAppConfigClient\<rparr>)
      | (Returned, svc1) \<Rightarrow> (Returned, svc1))"

definition initializeOpenAI ::
  "process_env \<Rightarrow> azure_sdk \<Rightarrow> azure_services \<Rightarrow> completion \<times> azure_services" where
  "initializeOpenAI env sdk svc =
     (let endpoint = or_default (env ''AZURE_OPENAI_ENDPOINT'') [];
          apiKey = or_default (env ''AZURE_OPENAI_API_KEY'') []
      in if endpoint = [] \<or> apiKey = []
         then (Threw ''Azure OpenAI configuration missing in environment variables'', svc)
         else
           (let cleanEndpoint = (if last endpoint = CHR ''/'' then butlast endpoint else endpoint)
            in case openai_new sdk cleanEndpoint apiKey of
                 Some e \<Rightarrow> (Threw e, svc)
               | None \<Rightarrow> (Returned, svc\<lparr>openAIClient := Some (OpenAIClient cleanEndpoint apiKey)\<rparr>)))"

text \<open>
  \<open>initializeAzureServices\<close> runs the four initializers in order inside one \<open>try\<close>; the
  first that throws ends the sequence, and the \<open>catch\<close> only logs.
\<close>

definition initializeAzureServices ::
  "process_env \<Rightarrow> azure_sdk \<Rightarrow> azure_services \<Rightarrow> completion \<times> azure_services" where
  "initializeAzureServices env sdk svc =
     (case initializeSQLDatabase env sdk svc of
        (Threw e, svc1) \<Rightarrow> (Returned, svc1)
      | (Returned, svc1) \<Rightarrow>
          (case initializeBlobStorage env sdk svc1 of
             (Threw e, svc2) \<Rightarrow> (Returned, svc2)
           | (Returned, svc2) \<Rightarrow>
               (case initializeAppConfiguration env sdk svc2 of
                  (Threw e, svc3) \<Rightarrow> (Returned, svc3)
                | (Returned, svc3) \<Rightarrow>
                    (case initializeOpenAI env sdk svc3 of
                       (Threw e, svc4) \<Rightarrow> (Returned, svc4)
                     | (Returned, svc4) \<Rightarrow> (Returned, svc4)))))"

text \<open>What "the configuration is absent" means for each adapter.\<close>

definition sql_config_missing :: "process_env \<Rightarrow> bool" where
  "sql_config_missing env =
     (\<not> truthy (env ''SQL_SERVER'') \<or> \<not> truthy (env ''SQL_DATABASE'')
      \<or> \<not> truthy (env ''SQL_USERNAME'') \<or> \<not> truthy (env ''SQL_PASSWORD''))"

definition openai_config_missing :: "process_env \<Rightarrow> bool" where
  "openai_config_missing env =
     (\<not> truthy (env ''AZURE_OPENAI_ENDPOINT'') \<or> \<not> truthy (env ''AZURE_OPENAI_API_KEY''))"

definition blob_config_absent :: "process_env \<Rightarrow> bool" where
  "blob_config_absent env =
     (\<not> truthy (env ''AZURE_STORAGE_ACCOUNT_NAME'')
      \<or> (\<not> truthy (env ''AZURE_STORAGE_CONNECTION_STRING'')
          \<and> \<not> truthy (env ''AZURE_STORAGE_ACCOUNT_KEY'')))"

definition app_config_absent :: "process_env \<Rightarrow> bool" where
  "app_config_absent env = (\<not> truthy (env ''AZURE_APP_CONFIG_CONNECTION_STRING''))"

text \<open>Sample values used to instantiate the theorems below.\<close>

definition sdk_ok :: azure_sdk where
  "sdk_ok = \<lparr>sql_connect = (\<lambda>c. None), sql_createTables = (\<lambda>c. None),
             blob_fromConnectionString = (\<lambda>s. None), blob_newSharedKey = (\<lambda>a k. None),
             blob_createIfNotExists = (\<lambda>c n. None), appconfig_new = (\<lambda>s. None),
             openai_new = (\<lambda>e k. None)\<rparr>"

definition no_services :: azure_services where
  "no_services = \<lparr>sqlPool = None, blobServiceClient = None, appConfigClient = None,
                  openAIClient = None\<rparr>"


section \<open>JavaScript string helpers\<close>

text \<open>
  A \<open>js_string\<close> is the list of the UTF-16 code units of a JavaScript string, each an
  integer from 0 to 0xFFFF; this is what \<open>length\<close>, \<open>substring\<close> and \<open>trim\<close> work on, and
  it is the type of the strings the handler trims, cuts or measures. \<open>text_of\<close> gives
  the code units of an ASCII literal of the source.
\<close>

type_synonym code_unit = int

type_synonym js_string = "code_unit list"

definition text_of :: "string \<Rightarrow> js_string" where
  "text_of s = map of_char s"

definition nl :: js_string where
  "nl = [0x0A]"

text \<open>
  \<open>String.prototype.trim\<close> removes the leading and trailing code units that are
  WhiteSpace or LineTerminator of ECMAScript: tab, line feed, vertical tab, form feed,
  carriage return, space, no-break space, the other space separators of Unicode
  (U+1680, U+2000 to U+200A, U+202F, U+205F, U+3000), the line and paragraph separators
  and the byte order mark.
\<close>

definition is_space :: "code_unit \<Rightarrow> bool" where
  "is_space c =
     ((0x09 \<le> c \<and> c \<le> 0x0D) \<or> c = 0x20 \<or> c = 0xA0 \<or> c = 0x1680
      \<or> (0x2000 \<le> c \<and> c \<le> 0x200A) \<or> c = 0x2028 \<or> c = 0x2029 \<or> c = 0x202F
      \<or> c = 0x205F \<or> c = 0x3000 \<or> c = 0xFEFF)"

definition trim :: "js_string \<Rightarrow> js_string" where
  "trim s = rev (dropWhile is_space (rev (dropWhile is_space s)))"

text \<open>\<open>xs.join(sep)\<close>.\<close>

fun join :: "'a list \<Rightarrow> 'a list list \<Rightarrow> 'a list" where
  "join sep [] = []"
| "join sep [x] = x"
| "join sep (x # y # ys) = x @ sep @ join sep (y # ys)"

text \<open>A number inside a template literal: its decimal digits.\<close>

fun show_nat :: "nat \<Rightarrow> string" where
  "show_nat n =
     (if n < 10 then [''0123456789'' ! n]
      else show_nat (n div 10) @ [''0123456789'' ! (n mod 10)])"

declare show_nat.simps [simp del]

text \<open>
  The test \<open>/^[0-9a-f]{8}-[0-9a-f]{4}-[0-9a-f]{4}-[0-9a-f]{4}-[0-9a-f]{12}$/i\<close>: in the shape,
  \<open>True\<close> marks a hyphen and \<open>False\<close> a hexadecimal digit of either case.
\<close>

definition is_hex :: "char \<Rightarrow> bool" where
  "is_hex c = (c \<in> set ''0123456789abcdefABCDEF'')"

definition uuid_shape :: "bool list" where
  "uuid_shape = replicate 8 False @ [True] @ replicate 4 False @ [True] @ replicate 4 False
                @ [True] @ replicate 4 False @ [True] @ replicate 12 False"

definition is_uuid :: "string \<Rightarrow> bool" where
  "is_uuid s = list_all2 (\<lambda>c hyphen. if hyphen then c = CHR ''-'' else is_hex c) s uuid_shape"


section \<open>The database\<close>

text \<open>
  The tables of \<open>createTables\<close>, with the columns the two handlers read or write. A table
  is the list of its rows in the order the server returns them. \<open>trace\<close> is ghost state:
  the write statements that were executed and the chat-completion calls that were made,
  in order.
\<close>

record user_row =
  u_id :: string
  u_firstName :: string
  u_lastName :: string
  u_email :: string
  u_role :: string
  u_isActive :: bool
  u_createdAt :: nat
  u_updatedAt :: nat

record workspace_row =
  w_id :: string
  w_name :: string
  w_description :: string
  w_color :: string
  w_ownerId :: string
  w_createdAt :: nat
  w_updatedAt :: nat

record chat_row =
  c_id :: string
  c_title :: js_string
  c_description :: string
  c_userId :: string
  c_workspaceId :: "string option"
  c_messageCount :: int
  c_lastMessageAt :: "nat option"
  c_createdAt :: nat
  c_updatedAt :: nat

record message_row =
  m_id :: string
  m_chatId :: string
  m_userId :: string
  m_content :: js_string
  m_role :: string
  m_createdAt :: nat

record action_row =
  a_id :: string
  a_messageId :: string
  a_userId :: string
  a_actionType :: string
  a_createdAt :: nat

record chat_message =
  cm_role :: string
  cm_content :: js_string

record completion_options =
  maxTokens :: nat
  temperature :: rat

datatype event =
    InsertUser user_row
  | UpdateUserId string string
  | InsertWorkspace workspace_row
  | InsertChat chat_row
  | InsertMessage message_row
  | UpdateChatCounters string nat
  | InsertAction action_row
  | DeleteAction string string string
  | ChatCompletion "chat_message list" completion_options

record world =
  Users :: "user_row list"
  Workspaces :: "workspace_row list"
  Chats :: "chat_row list"
  Messages :: "message_row list"
  MessageActions :: "action_row list"
  trace :: "event list"

datatype db_error =
    PrimaryKeyViolation string
  | UniqueViolation string
  | ForeignKeyViolation string string
  | CheckViolation string string

datatype thrown = SqlError db_error | Error string

text \<open>
  A JSON response. \<open>details\<close> of an error body stands for \<open>error.message\<close> of the value
  that was caught. The \<open>timestamp\<close> fields of the success body are left out.
\<close>

record message_view =
  mv_id :: string
  mv_content :: js_string
  mv_role :: string

datatype response_body =
    ErrorBody string "string option" "thrown option"
  | MessageProcessed string message_view message_view
  | ActionToggled string string bool

record response =
  status :: nat
  body :: response_body

text \<open>
  A step of a handler runs in a world and either continues with a value, or stops the
  handler: with a response (\<open>return res.status(...)\<close>) or with a thrown error, which the
  handler's outer \<open>catch\<close> receives. The world is the one reached when the step stopped:
  statements are not grouped in a transaction.
\<close>

datatype abort = Respond response | Raise thrown

type_synonym 'a io = "world \<Rightarrow> (abort + 'a) \<times> world"

definition io_return :: "'a \<Rightarrow> 'a io" where
  "io_return x w = (Inr x, w)"

definition io_respond :: "response \<Rightarrow> 'a io" where
  "io_respond r w = (Inl (Respond r), w)"

definition io_raise :: "thrown \<Rightarrow> 'a io" where
  "io_raise e w = (Inl (Raise e), w)"

definition io_bind :: "'a io \<Rightarrow> ('a \<Rightarrow> 'b io) \<Rightarrow> 'b io" where
  "io_bind m f w = (case m w of (Inl a, w1) \<Rightarrow> (Inl a, w1) | (Inr x, w1) \<Rightarrow> f x w1)"

subsection \<open>Statements\<close>

text \<open>
  Each write statement checks the constraints \<open>createTables\<close> declares for its table
  (PRIMARY KEY, UNIQUE, FOREIGN KEY, CHECK) and throws when one is violated; otherwise it
  changes the table and is recorded in the trace. Column lengths and the range of INT are
  not modelled, and string comparison is exact.
\<close>

definition sql_insert_user :: "user_row \<Rightarrow> unit io" where
  "sql_insert_user row w =
     (if u_id row \<in> set (map u_id (Users w))
        then io_raise (SqlError (PrimaryKeyViolation ''Users'')) w
      else if u_email row \<in> set (map u_email (Users w))
        then io_raise (SqlError (UniqueViolation ''Users.email'')) w
      else if u_role row \<notin> set [''admin'', ''user'']
        then io_raise (SqlError (CheckViolation ''Users'' ''role'')) w
      else (Inr (), w\<lparr>Users := Users w @ [row], trace := trace w @ [InsertUser row]\<rparr>))"

definition user_referenced :: "world \<Rightarrow> string \<Rightarrow> bool" where
  "user_referenced w uid =
     (uid \<in> set (map w_ownerId (Workspaces w)) \<or> uid \<in> set (map c_userId (Chats w))
      \<or> uid \<in> set (map m_userId (Messages w)) \<or> uid \<in> set (map a_userId (MessageActions w)))"

text \<open>\<open>UPDATE Users SET id = @id WHERE email = @email\<close>.\<close>

definition sql_update_user_id :: "string \<Rightarrow> string \<Rightarrow> unit io" where
  "sql_update_user_id new_id email w =
     (let targets = filter (\<lambda>u. u_email u = email \<and> u_id u \<noteq> new_id) (Users w);
          users1 = map (\<lambda>u. if u_email u = email then u\<lparr>u_id := new_id\<rparr> else u) (Users w)
      in if list_ex (\<lambda>u. user_referenced w (u_id u)) targets
           then io_raise (SqlError (ForeignKeyViolation ''Users'' ''id'')) w
         else if targets \<noteq> [] \<and> \<not> distinct (map u_id users1)
           then io_raise (SqlError (PrimaryKeyViolation ''Users'')) w
         else (Inr (), w\<lparr>Users := users1, trace := trace w @ [UpdateUserId new_id email]\<rparr>))"

definition sql_insert_workspace :: "workspace_row \<Rightarrow> unit io" where
  "sql_insert_workspace row w =
     (if w_id row \<in> set (map w_id (Workspaces w))
        then io_raise (SqlError (PrimaryKeyViolation ''Workspaces'')) w
      else if w_ownerId row \<notin> set (map u_id (Users w))
        then io_raise (SqlError (ForeignKeyViolation ''Workspaces'' ''ownerId'')) w
      else (Inr (), w\<lparr>Workspaces := Workspaces w @ [row],
                        trace := trace w @ [InsertWorkspace row]\<rparr>))"

definition sql_insert_chat :: "chat_row \<Rightarrow> unit io" where
  "sql_insert_chat row w =
     (if c_id row \<in> set (map c_id (Chats w))
        then io_raise (SqlError (PrimaryKeyViolation ''Chats'')) w
      else if c_userId row \<notin> set (map u_id (Users w))
        then io_raise (SqlError (ForeignKeyViolation ''Chats'' ''userId'')) w
      else if (case c_workspaceId row of None \<Rightarrow> False
               | Some ws \<Rightarrow> ws \<notin> set (map w_id (Workspaces w)))
        then io_raise (SqlError (ForeignKeyViolation ''Chats'' ''workspaceId'')) w
      else (Inr (), w\<lparr>Chats := Chats w @ [row], trace := trace w @ [InsertChat row]\<rparr>))"

definition sql_insert_message :: "message_row \<Rightarrow> unit io" where
  "sql_insert_message row w =
     (if m_id row \<in> set (map m_id (Messages w))
        then io_raise (SqlError (PrimaryKeyViolation ''Messages'')) w
      else if m_chatId row \<notin> set (map c_id (Chats w))
        then io_raise (SqlError (ForeignKeyViolation ''Messages'' ''chatId'')) w
      else if m_userId row \<notin> set (map u_id (Users w))
        then io_raise (SqlError (ForeignKeyViolation ''Messages'' ''userId'')) w
      else if m_role row \<notin> set [''user'', ''assistant'', ''system'']
        then io_raise (SqlError (CheckViolation ''Messages'' ''role'')) w
      else (Inr (), w\<lparr>Messages := Messages w @ [row], trace := trace w @ [InsertMessage row]\<rparr>))"

text \<open>
  \<open>UPDATE Chats SET messageCount = messageCount + 2, lastMessageAt = GETUTCDATE(),
  updatedAt = GETUTCDATE() WHERE id = @chatId\<close>.
\<close>

definition bump_chat :: "string \<Rightarrow> nat \<Rightarrow> chat_row \<Rightarrow> chat_row" where
  "bump_chat chat_id t c =
     (if c_id c = chat_id
      then c\<lparr>c_messageCount := c_messageCount c + 2, c_lastMessageAt := Some t, c_updatedAt := t\<rparr>
      else c)"

definition sql_update_chat_counters :: "string \<Rightarrow> nat \<Rightarrow> unit io" where
  "sql_update_chat_counters chat_id t w =
     (Inr (), w\<lparr>Chats := map (bump_chat chat_id t) (Chats w),
                  trace := trace w @ [UpdateChatCounters chat_id t]\<rparr>)"

definition action_key :: "action_row \<Rightarrow> string \<times> string \<times> string" where
  "action_key a = (a_messageId a, a_userId a, a_actionType a)"

definition sql_insert_action :: "action_row \<Rightarrow> unit io" where
  "sql_insert_action row w =
     (if a_id row \<in> set (map a_id (MessageActions w))
        then io_raise (SqlError (PrimaryKeyViolation ''MessageActions'')) w
      else if a_messageId row \<notin> set (map m_id (Messages w))
        then io_raise (SqlError (ForeignKeyViolation ''MessageActions'' ''messageId'')) w
      else if a_userId row \<notin> set (map u_id (Users w))
        then io_raise (SqlError (ForeignKeyViolation ''MessageActions'' ''userId'')) w
      else if a_actionType row \<notin> set [''like'', ''dislike'', ''bookmark'', ''star'']
        then io_raise (SqlError (CheckViolation ''MessageActions'' ''actionType'')) w
      else if action_key row \<in> set (map action_key (MessageActions w))
        then io_raise (SqlError (UniqueViolation ''MessageActions'')) w
      else (Inr (), w\<lparr>MessageActions := MessageActions w @ [row],
                        trace := trace w @ [InsertAction row]\<rparr>))"

definition sql_delete_action :: "string \<Rightarrow> string \<Rightarrow> string \<Rightarrow> unit io" where
  "sql_delete_action message_id user_id action_type w =
     (Inr (), w\<lparr>MessageActions :=
                    filter (\<lambda>a. action_key a \<noteq> (message_id, user_id, action_type))
                      (MessageActions w),
                  trace := trace w @ [DeleteAction message_id user_id action_type]\<rparr>)"


section \<open>The message-action endpoint\<close>

text \<open>
  \<open>router.post('/:chatId/messages/:messageId/actions')\<close>. \<open>actionId\<close> is the value of
  \<open>uuidv4()\<close> and \<open>t\<close> the server's \<open>GETUTCDATE()\<close> (the default of \<open>createdAt\<close>).
\<close>

record action_request =
  ar_userId :: string
  ar_chatId :: string
  ar_messageId :: string
  ar_actionType :: "string option"

definition valid_action_types :: "string list" where
  "valid_action_types = [''like'', ''dislike'', ''bookmark'', ''star'']"

text \<open>
  \<open>SELECT m.id FROM Messages m JOIN Chats c ON m.chatId = c.id WHERE m.id = @messageId AND
  m.chatId = @chatId AND c.userId = @userId\<close>.
\<close>

definition messageCheck :: "action_request \<Rightarrow> world \<Rightarrow> string list" where
  "messageCheck req w =
     concat (map (\<lambda>m. map (\<lambda>c. m_id m)
                          (filter (\<lambda>c. m_chatId m = c_id c \<and> m_id m = ar_messageId req
                                        \<and> m_chatId m = ar_chatId req \<and> c_userId c = ar_userId req)
                             (Chats w)))
                 (Messages w))"

definition existingAction :: "string \<Rightarrow> string \<Rightarrow> string \<Rightarrow> world \<Rightarrow> action_row list" where
  "existingAction message_id user_id action_type w =
     filter (\<lambda>a. action_key a = (message_id, user_id, action_type)) (MessageActions w)"

definition toggle_action :: "string \<Rightarrow> nat \<Rightarrow> action_request \<Rightarrow> string \<Rightarrow> response io" where
  "toggle_action actionId t req actionType w =
     (if existingAction (ar_messageId req) (ar_userId req) actionType w \<noteq> []
      then io_bind (sql_delete_action (ar_messageId req) (ar_userId req) actionType)
             (\<lambda>_. io_return \<lparr>status = 200,
                               body = ActionToggled ''Action removed'' actionType False\<rparr>) w
      else io_bind (sql_insert_action \<lparr>a_id = actionId, a_messageId = ar_messageId req,
                                        a_userId = ar_userId req, a_actionType = actionType,
                                        a_createdAt = t\<rparr>)
             (\<lambda>_. io_return \<lparr>status = 200,
                               body = ActionToggled ''Action added'' actionType True\<rparr>) w)"

definition post_message_action ::
  "string \<Rightarrow> nat \<Rightarrow> action_request \<Rightarrow> world \<Rightarrow> response \<times> world" where
  "post_message_action actionId t req w =
     (case ar_actionType req of
        None \<Rightarrow>
          (\<lparr>status = 400,
            body = ErrorBody ''Invalid action type''
                     (Some ''Action type must be one of: like, dislike, bookmark, star'') None\<rparr>, w)
      | Some actionType \<Rightarrow>
          if actionType \<notin> set valid_action_types
          then (\<lparr>status = 400,
                 body = ErrorBody ''Invalid action type''
                          (Some ''Action type must be one of: like, dislike, bookmark, star'') None\<rparr>,
                w)
          else if messageCheck req w = []
          then (\<lparr>status = 404,
                 body = ErrorBody ''Message not found''
                          (Some ''Message not found or access denied'') None\<rparr>, w)
          else (case toggle_action actionId t req actionType w of
                  (Inr r, w1) \<Rightarrow> (r, w1)
                | (Inl (Respond r), w1) \<Rightarrow> (r, w1)
                | (Inl (Raise e), w1) \<Rightarrow>
                    (\<lparr>status = 500,
                      body = ErrorBody ''Failed to process message action'' None None\<rparr>, w1)))"

text \<open>The state the toggle is about: which (messageId, userId, actionType) keys have a row.\<close>

definition action_keys :: "world \<Rightarrow> (string \<times> string \<times> string) set" where
  "action_keys w = set (map action_key (MessageActions w))"

definition response_active :: "response \<Rightarrow> bool option" where
  "response_active r = (case body r of ActionToggled m a b \<Rightarrow> Some b | _ \<Rightarrow> None)"


section \<open>Dashboard: \<open>handleMessageAction\<close>\<close>

text \<open>
  The guard of \<open>handleMessageAction\<close> and the request it sends. The result is the call
  made on \<open>messageActionAPI\<close>, or \<open>None\<close> when the function returns without a call; the
  updates of the component's local state after the call are left out.
\<close>

record ui_message =
  msg_id :: string
  isUser :: bool

datatype ui_action = liked | disliked | starred | bookmarked

datatype api_call = AddMessageAction string string | RemoveMessageAction string string

definition actionMap :: "ui_action \<Rightarrow> string" where
  "actionMap a = (case a of liked \<Rightarrow> ''like'' | disliked \<Rightarrow> ''dislike''
                  | starred \<Rightarrow> ''star'' | bookmarked \<Rightarrow> ''bookmark'')"

definition handleMessageAction ::
  "ui_message list \<Rightarrow> (string \<Rightarrow> (ui_action \<Rightarrow> bool) option) \<Rightarrow> string \<Rightarrow> ui_action
     \<Rightarrow> api_call option" where
  "handleMessageAction messages messageActions messageId action =
     (if prefix ''temp-'' messageId \<or> prefix ''error-'' messageId then None
      else case find (\<lambda>msg. msg_id msg = messageId) messages of
             None \<Rightarrow> None
           | Some message \<Rightarrow>
               if isUser message then None
               else
                 (let isCurrentlyActive =
                        (case messageActions messageId of None \<Rightarrow> False | Some flags \<Rightarrow> flags action)
                  in if isCurrentlyActive
                     then Some (RemoveMessageAction messageId (actionMap action))
                     else Some (AddMessageAction messageId (actionMap action))))"


text \<open>The key a toggle request is about.\<close>

definition toggle_key :: "action_request \<Rightarrow> string \<Rightarrow> string \<times> string \<times> string" where
  "toggle_key req actionType = (ar_messageId req, ar_userId req, actionType)"

text \<open>The same world with the \<open>role\<close> column of \<open>Messages\<close> rewritten by \<open>f\<close>.\<close>

definition relabel_roles :: "(message_row \<Rightarrow> string) \<Rightarrow> world \<Rightarrow> world" where
  "relabel_roles f w = w\<lparr>Messages := map (\<lambda>m. m\<lparr>m_role := f m\<rparr>) (Messages w)\<rparr>"


section \<open>The chat-message endpoint\<close>

text \<open>
  \<open>router.post('/message')\<close>. The request is the validated body together with
  \<open>req.user\<close>; an absent \<open>files\<close> is the empty list, and \<open>files\<close> is an array of objects.
  What the handler obtains from outside is in \<open>request_env\<close>: the two environment
  variables, the server's \<open>GETUTCDATE()\<close> (one instant for the request), the results
  of the \<open>uuidv4()\<close> calls by the variable they are assigned to, the system prompt, the
  chat-completion call (\<open>Inl e\<close>: it throws an error with message \<open>e\<close>), the file analysis
  service (\<open>None\<close>: obtaining the instance throws; otherwise the storage read
  \<open>getFileContent\<close>, where \<open>Inl e\<close> is a throw), and the last path segment of a URL
  (\<open>None\<close>: \<open>new URL\<close> throws).
\<close>

record chat_file =
  originalName :: "js_string option"
  url :: "js_string option"
  fileName :: "js_string option"
  name :: "js_string option"
  blobName :: "js_string option"

record uuids =
  defaultWorkspaceId :: string
  newChatId :: string
  userMessageId :: string
  aiMessageId :: string

record request_env =
  NODE_ENV :: "string option"
  BYPASS_AUTH :: "string option"
  now :: nat
  uuid :: uuids
  systemPrompt :: js_string
  getChatCompletion :: "chat_message list \<Rightarrow> completion_options \<Rightarrow> string + js_string"
  fileAnalysisService :: "(js_string \<Rightarrow> string + js_string) option"
  url_last_part :: "js_string \<Rightarrow> js_string option"

record message_request =
  userId :: string
  user_role :: "string option"
  message :: "js_string option"
  chatId :: "string option"
  workspaceId :: "string option"
  files :: "chat_file list"

subsection \<open>Validation\<close>

text \<open>\<open>!message || message.trim().length === 0\<close>.\<close>

definition message_blank :: "js_string option \<Rightarrow> bool" where
  "message_blank m = (case m of None \<Rightarrow> True | Some s \<Rightarrow> s = [] \<or> length (trim s) = 0)"

definition required_response :: response where
  "required_response =
     \<lparr>status = 400,
      body = ErrorBody ''Message content or files are required''
               (Some ''Please provide a message or attach files to send'') None\<rparr>"

definition invalid_file_response :: "nat \<Rightarrow> string \<Rightarrow> response" where
  "invalid_file_response index property =
     \<lparr>status = 400,
      body = ErrorBody ''Invalid file format''
               (Some (''File at index '' @ show_nat index @ '' missing '' @ property @ '' property''))
               None\<rparr>"

fun validate_files :: "nat \<Rightarrow> chat_file list \<Rightarrow> response option" where
  "validate_files index [] = None"
| "validate_files index (file # rest) =
     (if \<not> truthy (originalName file) then Some (invalid_file_response index ''originalName'')
      else if \<not> truthy (url file) then Some (invalid_file_response index ''url'')
      else validate_files (Suc index) rest)"

definition validate_request :: "message_request \<Rightarrow> response option" where
  "validate_request req =
     (if message_blank (message req) \<and> files req = [] then Some required_response
      else validate_files 0 (files req))"

definition defaultTitle :: "message_request \<Rightarrow> js_string" where
  "defaultTitle req =
     (if message_blank (message req)
      then (case files req of
              [] \<Rightarrow> text_of ''New Chat''
            | file # rest \<Rightarrow>
                text_of ''File: '' @ or_default (originalName file) []
                @ (if length (files req) > 1
                   then text_of ('' and '' @ show_nat (length (files req) - 1) @ '' more'')
                   else []))
      else text_of ''New Chat'')"

subsection \<open>Ensure the user exists\<close>

definition mock_email :: "message_request \<Rightarrow> string" where
  "mock_email req = userId req @ ''@example.com''"

definition mock_user_row :: "request_env \<Rightarrow> message_request \<Rightarrow> user_row" where
  "mock_user_row env req =
     \<lparr>u_id = userId req, u_firstName = ''Test'', u_lastName = ''User'', u_email = mock_email req,
      u_role = or_default (user_role req) ''user'', u_isActive = True,
      u_createdAt = now env, u_updatedAt = now env\<rparr>"

definition user_not_found_response :: response where
  "user_not_found_response =
     \<lparr>status = 404,
      body = ErrorBody ''User not found'' (Some ''User account not found. Please log in again.'')
               None\<rparr>"

definition bypass_mode :: "request_env \<Rightarrow> bool" where
  "bypass_mode env = (NODE_ENV env = Some ''development'' \<and> BYPASS_AUTH env = Some ''true'')"

definition ensure_user :: "request_env \<Rightarrow> message_request \<Rightarrow> unit io" where
  "ensure_user env req w =
     (if filter (\<lambda>u. u_id u = userId req) (Users w) = []
      then (if bypass_mode env
            then (if filter (\<lambda>u. u_email u = mock_email req) (Users w) = []
                  then sql_insert_user (mock_user_row env req) w
                  else sql_update_user_id (userId req) (mock_email req) w)
            else io_respond user_not_found_response w)
      else io_return () w)"

subsection \<open>Get or create the workspace\<close>

text \<open>The \<open>workspaceId\<close> that survives the format check; \<open>None\<close> stands for a falsy value.\<close>

definition checked_workspaceId :: "string option \<Rightarrow> string option" where
  "checked_workspaceId v = (if truthy v \<and> is_uuid (or_default v []) then v else None)"

definition default_workspace_row :: "request_env \<Rightarrow> message_request \<Rightarrow> workspace_row" where
  "default_workspace_row env req =
     \<lparr>w_id = defaultWorkspaceId (uuid env), w_name = ''Default Workspace'',
      w_description = ''Auto-created default workspace'', w_color = ''#3B82F6'',
      w_ownerId = userId req, w_createdAt = now env, w_updatedAt = now env\<rparr>"

definition create_default_workspace :: "request_env \<Rightarrow> message_request \<Rightarrow> string io" where
  "create_default_workspace env req =
     io_bind (sql_insert_workspace (default_workspace_row env req))
       (\<lambda>_. io_return (defaultWorkspaceId (uuid env)))"

definition resolve_workspace :: "request_env \<Rightarrow> message_request \<Rightarrow> string io" where
  "resolve_workspace env req w =
     (case checked_workspaceId (workspaceId req) of
        None \<Rightarrow>
          (case filter (\<lambda>x. w_ownerId x = userId req) (Workspaces w) of
             first # others \<Rightarrow> io_return (w_id first) w
           | [] \<Rightarrow> create_default_workspace env req w)
      | Some actualWorkspaceId \<Rightarrow>
          if filter (\<lambda>x. w_id x = actualWorkspaceId \<and> w_ownerId x = userId req) (Workspaces w) = []
          then create_default_workspace env req w
          else io_return actualWorkspaceId w)"

subsection \<open>Get or create the chat\<close>

text \<open>
  For a supplied \<open>chatId\<close> the handler only reads the chat's title, which it does not use
  afterwards; the identifier is taken as it is.
\<close>

definition new_chat_row :: "request_env \<Rightarrow> message_request \<Rightarrow> string \<Rightarrow> chat_row" where
  "new_chat_row env req actualWorkspaceId =
     \<lparr>c_id = newChatId (uuid env),
      c_title = (if truthy (message req) then take 100 (or_default (message req) [])
                 else defaultTitle req),
      c_description = ''Auto-generated chat'', c_userId = userId req,
      c_workspaceId = Some actualWorkspaceId, c_messageCount = 0, c_lastMessageAt = None,
      c_createdAt = now env, c_updatedAt = now env\<rparr>"

definition resolve_chat :: "request_env \<Rightarrow> message_request \<Rightarrow> string \<Rightarrow> string io" where
  "resolve_chat env req actualWorkspaceId =
     (if \<not> truthy (chatId req)
      then io_bind (sql_insert_chat (new_chat_row env req actualWorkspaceId))
             (\<lambda>_. io_return (newChatId (uuid env)))
      else io_return (or_default (chatId req) []))"

subsection \<open>The user message content\<close>

text \<open>\<open>FileAnalysisService\<close>: \<open>truncateContentForTokens\<close> and the content of \<open>extractFileContent\<close>.\<close>

definition truncateContentForTokens :: "js_string \<Rightarrow> nat \<Rightarrow> js_string" where
  "truncateContentForTokens content max_tokens =
     (let maxChars = max_tokens * 4
      in if length content \<le> maxChars then content else take maxChars content)"

definition extractFileContent :: "(js_string \<Rightarrow> string + js_string) \<Rightarrow> js_string \<Rightarrow> js_string \<Rightarrow> js_string" where
  "extractFileContent getFileContent file_name original_name =
     (case getFileContent file_name of
        Inr fileContent \<Rightarrow> truncateContentForTokens fileContent 2000
      | Inl e \<Rightarrow> text_of ''[Content not available for file: '' @ original_name @ text_of '']'')"

record file_content =
  fc_name :: js_string
  fc_content :: js_string

text \<open>\<open>file.fileName || file.name || file.blobName\<close>, then the last segment of the URL.\<close>

definition resolve_blobName :: "request_env \<Rightarrow> chat_file \<Rightarrow> js_string option" where
  "resolve_blobName env file =
     (let first_choice = (if truthy (fileName file) then fileName file
                          else if truthy (name file) then name file else blobName file)
      in if \<not> truthy first_choice \<and> truthy (url file)
         then (case url_last_part env (or_default (url file) []) of
                 Some part \<Rightarrow> Some part
               | None \<Rightarrow> first_choice)
         else first_choice)"

text \<open>The body of the loop over \<open>files\<close>, with its \<open>try\<close> and \<open>catch\<close>.\<close>

definition read_file :: "request_env \<Rightarrow> (js_string \<Rightarrow> string + js_string) \<Rightarrow> chat_file \<Rightarrow> file_content" where
  "read_file env getFileContent file =
     (if \<not> truthy (originalName file)
      then \<lparr>fc_name = text_of ''Unknown File'',
            fc_content = text_of ''[Content not available: File originalName is missing]''\<rparr>
      else if \<not> truthy (resolve_blobName env file)
      then \<lparr>fc_name = or_default (originalName file) [],
            fc_content = extractFileContent getFileContent (or_default (originalName file) [])
                           (or_default (originalName file) [])\<rparr>
      else \<lparr>fc_name = or_default (originalName file) [],
            fc_content = extractFileContent getFileContent
                           (or_default (resolve_blobName env file) [])
                           (or_default (originalName file) [])\<rparr>)"

fun read_files ::
  "request_env \<Rightarrow> (js_string \<Rightarrow> string + js_string) \<Rightarrow> chat_file list \<Rightarrow> file_content list
     \<Rightarrow> file_content list" where
  "read_files env getFileContent [] fileContents = fileContents"
| "read_files env getFileContent (file # rest) fileContents =
     read_files env getFileContent rest (fileContents @ [read_file env getFileContent file])"

definition format_file :: "file_content \<Rightarrow> js_string" where
  "format_file f =
     text_of ''File: '' @ fc_name f @ nl @ text_of ''Content:'' @ nl @ fc_content f @ nl
     @ text_of ''---'' @ nl"

definition fileContentSection :: "file_content list \<Rightarrow> js_string" where
  "fileContentSection fileContents = join nl (map format_file fileContents)"

definition build_user_content :: "request_env \<Rightarrow> message_request \<Rightarrow> js_string" where
  "build_user_content env req =
     (let userMessageContent =
            (if truthy (message req) then trim (or_default (message req) []) else [])
      in if files req \<noteq> []
         then (case fileAnalysisService env of
                 None \<Rightarrow>
                   if userMessageContent = []
                   then text_of ''User sent files but there was an error processing them.''
                   else userMessageContent
               | Some getFileContent \<Rightarrow>
                   if userMessageContent \<noteq> []
                   then userMessageContent @ nl @ nl @ text_of ''Attached Files:'' @ nl
                        @ fileContentSection (read_files env getFileContent (files req) [])
                   else text_of ''Analyze the following files:'' @ nl @ nl
                        @ fileContentSection (read_files env getFileContent (files req) []))
         else userMessageContent)"

text \<open>
  The specification's reading of the content when files accompany the request, written
  without the functions above. The white space is listed code unit by code unit; the
  trimmed message is what is left of the message when its leading and its trailing run
  of white space are cut off; the sections are joined by putting a line feed before
  every section but the first. A section names the file by its \<open>originalName\<close> and carries
  the content \<open>extractFileContent\<close> returned for it.
\<close>

definition spec_white_space :: "code_unit list" where
  "spec_white_space =
     [0x0009, 0x000A, 0x000B, 0x000C, 0x000D, 0x0020, 0x00A0, 0x1680, 0x2000, 0x2001, 0x2002,
      0x2003, 0x2004, 0x2005, 0x2006, 0x2007, 0x2008, 0x2009, 0x200A, 0x2028, 0x2029, 0x202F,
      0x205F, 0x3000, 0xFEFF]"

definition spec_trimmed :: "js_string \<Rightarrow> js_string" where
  "spec_trimmed s =
     (let leading = length (takeWhile (\<lambda>c. c \<in> set spec_white_space) s);
          trailing = length (takeWhile (\<lambda>c. c \<in> set spec_white_space) (rev s))
      in take (length s - leading - trailing) (drop leading s))"

fun spec_joined :: "js_string list \<Rightarrow> js_string" where
  "spec_joined [] = []"
| "spec_joined (section # others) = section @ concat (map (\<lambda>s. 0x0A # s) others)"

definition spec_message :: "message_request \<Rightarrow> js_string" where
  "spec_message req = (case message req of None \<Rightarrow> [] | Some m \<Rightarrow> spec_trimmed m)"

definition extracted_content ::
  "request_env \<Rightarrow> (js_string \<Rightarrow> string + js_string) \<Rightarrow> chat_file \<Rightarrow> js_string" where
  "extracted_content env getFileContent file =
     extractFileContent getFileContent
       (if truthy (resolve_blobName env file) then or_default (resolve_blobName env file) []
        else or_default (originalName file) [])
       (or_default (originalName file) [])"

definition spec_file_section ::
  "request_env \<Rightarrow> (js_string \<Rightarrow> string + js_string) \<Rightarrow> chat_file \<Rightarrow> js_string" where
  "spec_file_section env getFileContent file =
     text_of ''File: '' @ (case originalName file of None \<Rightarrow> [] | Some n \<Rightarrow> n) @ [0x0A]
     @ text_of ''Content:'' @ [0x0A] @ extracted_content env getFileContent file @ [0x0A]
     @ text_of ''---'' @ [0x0A]"

definition spec_user_content ::
  "request_env \<Rightarrow> (js_string \<Rightarrow> string + js_string) \<Rightarrow> message_request \<Rightarrow> js_string" where
  "spec_user_content env getFileContent req =
     (if spec_message req \<noteq> []
      then spec_message req @ [0x0A, 0x0A] @ text_of ''Attached Files:'' @ [0x0A]
           @ spec_joined (map (spec_file_section env getFileContent) (files req))
      else text_of ''Analyze the following files:'' @ [0x0A, 0x0A]
           @ spec_joined (map (spec_file_section env getFileContent) (files req)))"

text \<open>
  What is stored instead when the file analysis service cannot be obtained: the trimmed
  message, or a fixed text when that is empty.
\<close>

definition spec_fallback_content :: "message_request \<Rightarrow> js_string" where
  "spec_fallback_content req =
     (if spec_message req \<noteq> [] then spec_message req
      else text_of ''User sent files but there was an error processing them.'')"

subsection \<open>Persist, complete, persist\<close>

definition fixed_options :: completion_options where
  "fixed_options = \<lparr>maxTokens = 1000, temperature = 7 / 10\<rparr>"

definition placeholder_text :: js_string where
  "placeholder_text =
     text_of ''Sorry, I encountered an issue processing your request. Please try again.''"

text \<open>\<open>SELECT content, role FROM Messages WHERE chatId = @chatId ORDER BY createdAt ASC\<close>.\<close>

definition chat_history :: "string \<Rightarrow> world \<Rightarrow> chat_message list" where
  "chat_history chat_id w =
     map (\<lambda>m. \<lparr>cm_role = m_role m, cm_content = m_content m\<rparr>)
       (sort_key m_createdAt (filter (\<lambda>m. m_chatId m = chat_id) (Messages w)))"

definition call_chat_completion ::
  "request_env \<Rightarrow> chat_message list \<Rightarrow> completion_options \<Rightarrow> (string + js_string) io" where
  "call_chat_completion env messages options w =
     (Inr (getChatCompletion env messages options),
      w\<lparr>trace := trace w @ [ChatCompletion messages options]\<rparr>)"

definition user_message_row ::
  "request_env \<Rightarrow> message_request \<Rightarrow> string \<Rightarrow> js_string \<Rightarrow> message_row" where
  "user_message_row env req chat_id content =
     \<lparr>m_id = userMessageId (uuid env), m_chatId = chat_id, m_userId = userId req,
      m_content = content, m_role = ''user'', m_createdAt = now env\<rparr>"

definition ai_message_row ::
  "request_env \<Rightarrow> message_request \<Rightarrow> string \<Rightarrow> js_string \<Rightarrow> message_row" where
  "ai_message_row env req chat_id content =
     \<lparr>m_id = aiMessageId (uuid env), m_chatId = chat_id, m_userId = userId req,
      m_content = content, m_role = ''assistant'', m_createdAt = now env\<rparr>"

definition completion_messages ::
  "request_env \<Rightarrow> string \<Rightarrow> js_string \<Rightarrow> world \<Rightarrow> chat_message list" where
  "completion_messages env chat_id userMessageContent w =
     [\<lparr>cm_role = ''system'', cm_content = systemPrompt env\<rparr>] @ chat_history chat_id w
     @ [\<lparr>cm_role = ''user'', cm_content = userMessageContent\<rparr>]"

definition ai_failed_response :: "string \<Rightarrow> response" where
  "ai_failed_response e =
     \<lparr>status = 500,
      body = ErrorBody ''Failed to get AI response''
               (Some ''Sorry, there was an error processing your message. Please try again.'')
               (Some (Error e))\<rparr>"

definition processed_response :: "request_env \<Rightarrow> string \<Rightarrow> js_string \<Rightarrow> js_string \<Rightarrow> response" where
  "processed_response env chat_id userMessageContent aiResponseContent =
     \<lparr>status = 200,
      body = MessageProcessed chat_id
               \<lparr>mv_id = userMessageId (uuid env), mv_content = userMessageContent,
                mv_role = ''user''\<rparr>
               \<lparr>mv_id = aiMessageId (uuid env), mv_content = aiResponseContent,
                mv_role = ''assistant''\<rparr>\<rparr>"

text \<open>What follows the chat-completion call, for each of its two outcomes.\<close>

definition after_completion ::
  "request_env \<Rightarrow> message_request \<Rightarrow> string \<Rightarrow> js_string \<Rightarrow> string + js_string \<Rightarrow> response io" where
  "after_completion env req actualChatId userMessageContent result =
     (case result of
        Inl openAIError \<Rightarrow>
          io_bind (sql_insert_message (ai_message_row env req actualChatId placeholder_text))
            (\<lambda>_. io_bind (sql_update_chat_counters actualChatId (now env))
                    (\<lambda>_. io_respond (ai_failed_response openAIError)))
      | Inr aiResponseContent \<Rightarrow>
          io_bind (sql_insert_message (ai_message_row env req actualChatId aiResponseContent))
            (\<lambda>_. io_bind (sql_update_chat_counters actualChatId (now env))
                    (\<lambda>_. io_return
                            (processed_response env actualChatId userMessageContent
                               aiResponseContent))))"

definition converse :: "request_env \<Rightarrow> message_request \<Rightarrow> string \<Rightarrow> js_string \<Rightarrow> response io" where
  "converse env req actualChatId userMessageContent =
     io_bind (sql_insert_message (user_message_row env req actualChatId userMessageContent))
       (\<lambda>_ w. io_bind (call_chat_completion env
                          (completion_messages env actualChatId userMessageContent w)
                          fixed_options)
                 (after_completion env req actualChatId userMessageContent) w)"

subsection \<open>The handler\<close>

definition failed_response :: "thrown \<Rightarrow> response" where
  "failed_response e =
     \<lparr>status = 500,
      body = ErrorBody ''Failed to process message''
               (Some ''Sorry, there was an error processing your message. Please try again.'')
               (Some e)\<rparr>"

definition message_steps :: "request_env \<Rightarrow> message_request \<Rightarrow> response io" where
  "message_steps env req =
     io_bind (ensure_user env req)
       (\<lambda>_. io_bind (resolve_workspace env req)
          (\<lambda>actualWorkspaceId. io_bind (resolve_chat env req actualWorkspaceId)
             (\<lambda>actualChatId.
                if build_user_content env req = [] then io_respond required_response
                else converse env req actualChatId (build_user_content env req))))"

definition post_message :: "request_env \<Rightarrow> message_request \<Rightarrow> world \<Rightarrow> response \<times> world" where
  "post_message env req w =
     (case validate_request req of
        Some r \<Rightarrow> (r, w)
      | None \<Rightarrow>
          (case message_steps env req w of
             (Inr r, w1) \<Rightarrow> (r, w1)
           | (Inl (Respond r), w1) \<Rightarrow> (r, w1)
           | (Inl (Raise e), w1) \<Rightarrow> (failed_response e, w1)))"


subsection \<open>Reading the trace\<close>

text \<open>
  The events a handler added to the trace, and the rows inserted into \<open>Messages\<close>, the
  updates of the chat counters and the chat-completion calls among a list of events.
\<close>

definition new_events :: "world \<Rightarrow> world \<Rightarrow> event list" where
  "new_events w w1 = drop (length (trace w)) (trace w1)"

definition message_inserts :: "event list \<Rightarrow> message_row list" where
  "message_inserts es = concat (map (\<lambda>e. case e of InsertMessage row \<Rightarrow> [row] | _ \<Rightarrow> []) es)"

definition chat_updates :: "event list \<Rightarrow> (string \<times> nat) list" where
  "chat_updates es =
     concat (map (\<lambda>e. case e of UpdateChatCounters c t \<Rightarrow> [(c, t)] | _ \<Rightarrow> []) es)"

definition completion_calls :: "event list \<Rightarrow> (chat_message list \<times> completion_options) list" where
  "completion_calls es =
     concat (map (\<lambda>e. case e of ChatCompletion ms opts \<Rightarrow> [(ms, opts)] | _ \<Rightarrow> []) es)"

text \<open>Events that are neither a message insert, a counter update nor a completion call.\<close>

definition quiet :: "event list \<Rightarrow> bool" where
  "quiet es = (message_inserts es = [] \<and> chat_updates es = [] \<and> completion_calls es = [])"

text \<open>
  The property of the specification: the chat is in a workspace that the user owns.
\<close>

definition chat_in_owned_workspace :: "world \<Rightarrow> string \<Rightarrow> string \<Rightarrow> bool" where
  "chat_in_owned_workspace w user_id chat_id =
     list_ex (\<lambda>c. c_id c = chat_id
                   \<and> list_ex (\<lambda>x. c_workspaceId c = Some (w_id x) \<and> w_ownerId x = user_id)
                         (Workspaces w))
       (Chats w)"

text \<open>
  The workspace a new chat is put in, in the words of the specification: a well-formed
  \<open>workspaceId\<close> of a workspace the user owns is kept; an absent, empty or ill-formed one
  gives way to the first workspace the user owns, or to a new default workspace when
  there is none; any other gives way to a new default workspace.
\<close>

definition spec_workspace_choice :: "request_env \<Rightarrow> message_request \<Rightarrow> world \<Rightarrow> string" where
  "spec_workspace_choice env req w =
     (case workspaceId req of
        None \<Rightarrow>
          (case find (\<lambda>x. w_ownerId x = userId req) (Workspaces w) of
             Some x \<Rightarrow> w_id x
           | None \<Rightarrow> defaultWorkspaceId (uuid env))
      | Some given \<Rightarrow>
          if given = [] \<or> \<not> is_uuid given
          then (case find (\<lambda>x. w_ownerId x = userId req) (Workspaces w) of
                  Some x \<Rightarrow> w_id x
                | None \<Rightarrow> defaultWorkspaceId (uuid env))
          else if list_ex (\<lambda>x. w_id x = given \<and> w_ownerId x = userId req) (Workspaces w)
          then given
          else defaultWorkspaceId (uuid env))"

text \<open>The response the handler sends when a step stopped it.\<close>

definition abort_response :: "abort \<Rightarrow> response" where
  "abort_response a = (case a of Respond r \<Rightarrow> r | Raise e \<Rightarrow> failed_response e)"


section \<open>Sample data\<close>

text \<open>
  Two users, each with a workspace and a chat; the first chat holds a question and its
  answer. The first user has a second chat that is in no workspace (the column is
  nullable, and \<open>createChat\<close> stores \<open>null\<close> when it is given none). Every key and
  reference of the sample satisfies the schema's constraints.
\<close>

definition alice :: user_row where
  "alice = \<lparr>u_id = ''u1'', u_firstName = ''Alice'', u_lastName = ''A'',
             u_email = ''alice@aiva.test'', u_role = ''user'', u_isActive = True,
             u_createdAt = 1, u_updatedAt = 1\<rparr>"

definition bob :: user_row where
  "bob = \<lparr>u_id = ''u2'', u_firstName = ''Bob'', u_lastName = ''B'',
           u_email = ''bob@aiva.test'', u_role = ''user'', u_isActive = True,
           u_createdAt = 1, u_updatedAt = 1\<rparr>"

definition ws_alice :: workspace_row where
  "ws_alice = \<lparr>w_id = ''11111111-1111-4111-8111-111111111111'', w_name = ''Alice space'',
                w_description = [], w_color = ''#3B82F6'', w_ownerId = ''u1'',
                w_createdAt = 2, w_updatedAt = 2\<rparr>"

definition ws_bob :: workspace_row where
  "ws_bob = \<lparr>w_id = ''22222222-2222-4222-8222-222222222222'', w_name = ''Bob space'',
              w_description = [], w_color = ''#3B82F6'', w_ownerId = ''u2'',
              w_createdAt = 2, w_updatedAt = 2\<rparr>"

definition chat_alice :: chat_row where
  "chat_alice = \<lparr>c_id = ''c0000000-0000-4000-8000-000000000001'', c_title = text_of ''Greetings'',
                  c_description = [], c_userId = ''u1'',
                  c_workspaceId = Some ''11111111-1111-4111-8111-111111111111'',
                  c_messageCount = 2, c_lastMessageAt = Some 4, c_createdAt = 3,
                  c_updatedAt = 4\<rparr>"

definition chat_bob :: chat_row where
  "chat_bob = \<lparr>c_id = ''c0000000-0000-4000-8000-000000000002'', c_title = text_of ''Plans'',
                c_description = [], c_userId = ''u2'',
                c_workspaceId = Some ''22222222-2222-4222-8222-222222222222'',
                c_messageCount = 0, c_lastMessageAt = None, c_createdAt = 3, c_updatedAt = 3\<rparr>"

definition chat_unfiled :: chat_row where
  "chat_unfiled = \<lparr>c_id = ''c0000000-0000-4000-8000-000000000004'', c_title = text_of ''Notes'',
                    c_description = [], c_userId = ''u1'', c_workspaceId = None,
                    c_messageCount = 0, c_lastMessageAt = None, c_createdAt = 3,
                    c_updatedAt = 3\<rparr>"

definition msg_question :: message_row where
  "msg_question = \<lparr>m_id = ''d0000000-0000-4000-8000-000000000001'',
                    m_chatId = ''c0000000-0000-4000-8000-000000000001'',
                    m_userId = ''u1'', m_content = text_of ''Hello'',
                    m_role = ''user'', m_createdAt = 4\<rparr>"

definition msg_answer :: message_row where
  "msg_answer = \<lparr>m_id = ''d0000000-0000-4000-8000-000000000002'',
                  m_chatId = ''c0000000-0000-4000-8000-000000000001'',
                  m_userId = ''u1'', m_content = text_of ''Hi Alice'',
                  m_role = ''assistant'', m_createdAt = 4\<rparr>"

definition sample_world :: world where
  "sample_world = \<lparr>Users = [alice, bob], Workspaces = [ws_alice, ws_bob],
                    Chats = [chat_alice, chat_bob, chat_unfiled],
                    Messages = [msg_question, msg_answer],
                    MessageActions = [], trace = []\<rparr>"

text \<open>The question as the dashboard shows it, and two fresh identifiers for actions.\<close>

definition shown_question :: ui_message where
  "shown_question = \<lparr>msg_id = ''d0000000-0000-4000-8000-000000000001'', isUser = True\<rparr>"

definition action_id1 :: string where
  "action_id1 = ''a0000000-0000-4000-8000-000000000001''"

definition action_id2 :: string where
  "action_id2 = ''a0000000-0000-4000-8000-000000000002''"

definition like_answer :: action_request where
  "like_answer = \<lparr>ar_userId = ''u1'', ar_chatId = ''c0000000-0000-4000-8000-000000000001'',
                   ar_messageId = ''d0000000-0000-4000-8000-000000000002'',
                   ar_actionType = Some ''like''\<rparr>"

definition like_question :: action_request where
  "like_question = \<lparr>ar_userId = ''u1'', ar_chatId = ''c0000000-0000-4000-8000-000000000001'',
                     ar_messageId = ''d0000000-0000-4000-8000-000000000001'',
                     ar_actionType = Some ''like''\<rparr>"


text \<open>The sample after the first user liked her own question.\<close>

definition liked_world :: world where
  "liked_world =
     sample_world\<lparr>MessageActions :=
         [\<lparr>a_id = action_id1, a_messageId = m_id msg_question, a_userId = ''u1'',
           a_actionType = ''like'', a_createdAt = 5\<rparr>],
       trace :=
         [InsertAction \<lparr>a_id = action_id1, a_messageId = m_id msg_question,
            a_userId = ''u1'', a_actionType = ''like'', a_createdAt = 5\<rparr>]\<rparr>"

text \<open>
  A production environment whose chat completion answers, the same with a completion that
  throws, and a request of the first user for a new chat. The storage of the sample holds
  two blobs. The URL reader of the sample accepts the \<open>https\<close> URLs that have neither query
  nor fragment: the last segment of the path is what follows the last slash after the
  host, and it is empty when there is no such slash. It rejects every other string.
\<close>

definition sample_uuids :: uuids where
  "sample_uuids = \<lparr>defaultWorkspaceId = ''33333333-3333-4333-8333-333333333333'',
                    newChatId = ''c0000000-0000-4000-8000-000000000003'',
                    userMessageId = ''d0000000-0000-4000-8000-000000000003'',
                    aiMessageId = ''d0000000-0000-4000-8000-000000000004''\<rparr>"

definition sample_storage :: "js_string \<Rightarrow> string + js_string" where
  "sample_storage blob =
     (if blob = text_of ''blob-a'' then Inr (text_of ''Alpha'')
      else if blob = text_of ''blob-b'' then Inr (text_of ''Beta'')
      else Inl ''BlobNotFound'')"

definition sample_last_part :: "js_string \<Rightarrow> js_string option" where
  "sample_last_part u =
     (if take 8 u = text_of ''https://'' \<and> drop 8 u \<noteq> []
      then Some (if of_char CHR ''/'' \<in> set (drop 8 u)
                 then rev (takeWhile (\<lambda>c. c \<noteq> of_char CHR ''/'') (rev u))
                 else [])
      else None)"

definition prod_env :: request_env where
  "prod_env = \<lparr>NODE_ENV = Some ''production'', BYPASS_AUTH = None, now = 10,
                uuid = sample_uuids, systemPrompt = text_of ''You are AIVA.'',
                getChatCompletion = (\<lambda>ms opts. Inr (text_of ''Hello!'')),
                fileAnalysisService = Some sample_storage,
                url_last_part = sample_last_part\<rparr>"

definition hi_request :: message_request where
  "hi_request = \<lparr>userId = ''u1'', user_role = None, message = Some (text_of '' Hi ''), chatId = None,
                  workspaceId = None, files = []\<rparr>"

definition files_request :: message_request where
  "files_request =
     \<lparr>userId = ''u1'', user_role = None, message = Some (text_of ''Summarise ''), chatId = None,
      workspaceId = None,
      files = [\<lparr>originalName = Some (text_of ''a.txt''),
                url = Some (text_of ''https://files.test/box/blob-a''),
                fileName = None, name = None, blobName = None\<rparr>,
               \<lparr>originalName = Some (text_of ''b.txt''),
                url = Some (text_of ''https://files.test/box/blob-b''),
                fileName = Some (text_of ''blob-b''), name = None, blobName = None\<rparr>]\<rparr>"

definition dev_env :: request_env where
  "dev_env = prod_env\<lparr>NODE_ENV := Some ''development'', BYPASS_AUTH := Some ''true''\<rparr>"

text \<open>A request of a user who has no row, and a request into the chat that is in no workspace.\<close>

definition ghost_request :: message_request where
  "ghost_request = hi_request\<lparr>userId := ''u9''\<rparr>"

definition unfiled_request :: message_request where
  "unfiled_request = hi_request\<lparr>chatId := Some ''c0000000-0000-4000-8000-000000000004''\<rparr>"

text \<open>A request for a new chat that names the workspace of the other user.\<close>

definition foreign_workspace_request :: message_request where
  "foreign_workspace_request =
     hi_request\<lparr>workspaceId := Some ''22222222-2222-4222-8222-222222222222''\<rparr>"

definition failing_env :: request_env where
  "failing_env = prod_env\<lparr>getChatCompletion := (\<lambda>ms opts. Inl ''timeout'')\<rparr>"

text \<open>The production environment when obtaining the file analysis service throws.\<close>

definition no_service_env :: request_env where
  "no_service_env = prod_env\<lparr>fileAnalysisService := None\<rparr>"


section \<open>Theorems: the dashboard's error text\<close>

lemma or_default_empty_iff: "or_default v [] = [] \<longleftrightarrow> \<not> truthy v"
  by (simp add: or_default_def truthy_def split: option.splits)

text \<open>
  C9. When sending a message fails with an error that carries a message, the text shown
  is chosen by the ordered pattern table: timeout / timed out, then overloaded / rate
  limit, then authentication / unauthorized, then model / configuration, then workspace;
  the first row with a pattern occurring in the message wins, and the raw message is
  shown when no row matches.
\<close>

theorem sendMessage_error_text_first_match:
  "m \<noteq> [] \<Longrightarrow> sendMessage_error_text (Some m) = spec_error_text m"
  by (simp add: sendMessage_error_text_def spec_error_text_def spec_error_table_def)

theorem sendMessage_error_text_first_match_witness:
  "''Request timed out: model overloaded'' \<noteq> []
   \<and> sendMessage_error_text (Some ''Request timed out: model overloaded'')
       = spec_error_text ''Request timed out: model overloaded''
   \<and> spec_error_text ''Request timed out: model overloaded''
       = ''The AI service is taking too long to respond. Please try again later.''"
proof -
  have ne: "''Request timed out: model overloaded'' \<noteq> []" by simp
  have val: "spec_error_text ''Request timed out: model overloaded''
       = ''The AI service is taking too long to respond. Please try again later.''"
    by code_simp
  show ?thesis
    using ne sendMessage_error_text_first_match [OF ne] val by simp
qed


section \<open>Theorems: service initialization\<close>

lemma initializeBlobStorage_returns: "fst (initializeBlobStorage env sdk svc) = Returned"
  by (simp add: initializeBlobStorage_def split: prod.splits completion.splits)

lemma initializeAppConfiguration_returns:
  "fst (initializeAppConfiguration env sdk svc) = Returned"
  by (simp add: initializeAppConfiguration_def split: prod.splits completion.splits)

lemma initializeBlobStorage_mock:
  "blob_config_absent env \<Longrightarrow>
   initializeBlobStorage env sdk svc = (Returned, svc\<lparr>blobServiceClient := Some MockBlobClient\<rparr>)"
  by (auto simp: blob_config_absent_def initializeBlobStorage_def initializeBlobStorage_try_def
        Let_def)

lemma initializeAppConfiguration_mock:
  "app_config_absent env \<Longrightarrow>
   initializeAppConfiguration env sdk svc
     = (Returned, svc\<lparr>appConfigClient := Some MockAppConfigClient\<rparr>)"
  by (simp add: app_config_absent_def initializeAppConfiguration_def
        initializeAppConfiguration_try_def Let_def)

lemma initializeSQLDatabase_fail_fast:
  "sql_config_missing env \<Longrightarrow>
   initializeSQLDatabase env sdk svc
     = (Threw ''Missing required SQL database configuration in environment variables'', svc)"
  by (auto simp: sql_config_missing_def initializeSQLDatabase_def Let_def or_default_empty_iff)

lemma initializeOpenAI_fail_fast:
  "openai_config_missing env \<Longrightarrow>
   initializeOpenAI env sdk svc
     = (Threw ''Azure OpenAI configuration missing in environment variables'', svc)"
  by (auto simp: openai_config_missing_def initializeOpenAI_def Let_def or_default_empty_iff)

text \<open>
  C8. The Blob Storage and App Configuration initializers never throw, and with their
  configuration absent they install the in-memory mock client; the SQL and OpenAI
  initializers throw, leaving the module's clients as they were, when a required
  environment variable is missing.
\<close>

theorem adapters_mock_or_fail_fast:
  "fst (initializeBlobStorage env sdk svc) = Returned
   \<and> fst (initializeAppConfiguration env sdk svc) = Returned
   \<and> (blob_config_absent env \<longrightarrow>
        initializeBlobStorage env sdk svc
          = (Returned, svc\<lparr>blobServiceClient := Some MockBlobClient\<rparr>))
   \<and> (app_config_absent env \<longrightarrow>
        initializeAppConfiguration env sdk svc
          = (Returned, svc\<lparr>appConfigClient := Some MockAppConfigClient\<rparr>))
   \<and> (sql_config_missing env \<longrightarrow>
        initializeSQLDatabase env sdk svc
          = (Threw ''Missing required SQL database configuration in environment variables'', svc))
   \<and> (openai_config_missing env \<longrightarrow>
        initializeOpenAI env sdk svc
          = (Threw ''Azure OpenAI configuration missing in environment variables'', svc))"
  using initializeBlobStorage_returns initializeAppConfiguration_returns
    initializeBlobStorage_mock initializeAppConfiguration_mock
    initializeSQLDatabase_fail_fast initializeOpenAI_fail_fast
  by blast

theorem adapters_mock_or_fail_fast_witness:
  "blob_config_absent Map.empty \<and> app_config_absent Map.empty
   \<and> sql_config_missing Map.empty \<and> openai_config_missing Map.empty
   \<and> initializeBlobStorage Map.empty sdk_ok no_services
       = (Returned, no_services\<lparr>blobServiceClient := Some MockBlobClient\<rparr>)
   \<and> initializeAppConfiguration Map.empty sdk_ok no_services
       = (Returned, no_services\<lparr>appConfigClient := Some MockAppConfigClient\<rparr>)
   \<and> initializeSQLDatabase Map.empty sdk_ok no_services
       = (Threw ''Missing required SQL database configuration in environment variables'',
          no_services)
   \<and> initializeOpenAI Map.empty sdk_ok no_services
       = (Threw ''Azure OpenAI configuration missing in environment variables'', no_services)"
proof -
  have b: "blob_config_absent Map.empty" and a: "app_config_absent Map.empty"
    and s: "sql_config_missing Map.empty" and o: "openai_config_missing Map.empty"
    by (simp_all add: blob_config_absent_def app_config_absent_def sql_config_missing_def
          openai_config_missing_def truthy_def)
  show ?thesis
    using adapters_mock_or_fail_fast [of Map.empty sdk_ok no_services] b a s o by blast
qed

section \<open>Theorems: the message-action endpoint\<close>

lemmas sample_defs = sample_world_def alice_def bob_def ws_alice_def ws_bob_def chat_alice_def
  chat_bob_def chat_unfiled_def msg_question_def msg_answer_def

lemmas action_defs = post_message_action_def toggle_action_def existingAction_def
  messageCheck_def valid_action_types_def io_bind_def io_return_def io_raise_def
  sql_insert_action_def sql_delete_action_def action_key_def

lemma existingAction_empty_iff:
  "existingAction m u a w = [] \<longleftrightarrow> (m, u, a) \<notin> action_keys w"
  by (force simp: existingAction_def action_keys_def filter_empty_conv)

lemma post_message_action_present:
  assumes "actionType \<in> set valid_action_types" "ar_actionType req = Some actionType"
    "messageCheck req w \<noteq> []"
    "(ar_messageId req, ar_userId req, actionType) \<in> action_keys w"
  shows "post_message_action actionId t req w =
     (\<lparr>status = 200, body = ActionToggled ''Action removed'' actionType False\<rparr>,
      w\<lparr>MessageActions :=
           filter (\<lambda>a. action_key a \<noteq> (ar_messageId req, ar_userId req, actionType))
             (MessageActions w),
         trace := trace w @ [DeleteAction (ar_messageId req) (ar_userId req) actionType]\<rparr>)"
  using assms
  by (simp add: post_message_action_def toggle_action_def existingAction_empty_iff io_bind_def
        sql_delete_action_def io_return_def)

lemma messageCheck_message:
  "messageCheck req w \<noteq> [] \<Longrightarrow> ar_messageId req \<in> set (map m_id (Messages w))"
  by (force simp: messageCheck_def filter_empty_conv)

lemma post_message_action_absent:
  assumes "actionType \<in> set valid_action_types" "ar_actionType req = Some actionType"
    "messageCheck req w \<noteq> []"
    "(ar_messageId req, ar_userId req, actionType) \<notin> action_keys w"
    "ar_userId req \<in> set (map u_id (Users w))"
    "actionId \<notin> set (map a_id (MessageActions w))"
  shows "post_message_action actionId t req w =
     (\<lparr>status = 200, body = ActionToggled ''Action added'' actionType True\<rparr>,
      w\<lparr>MessageActions := MessageActions w @
           [\<lparr>a_id = actionId, a_messageId = ar_messageId req, a_userId = ar_userId req,
             a_actionType = actionType, a_createdAt = t\<rparr>],
         trace := trace w @
           [InsertAction \<lparr>a_id = actionId, a_messageId = ar_messageId req,
              a_userId = ar_userId req, a_actionType = actionType, a_createdAt = t\<rparr>]\<rparr>)"
proof -
  have m: "ar_messageId req \<in> set (map m_id (Messages w))"
    using assms(3) by (rule messageCheck_message)
  have k: "(ar_messageId req, ar_userId req, actionType) \<notin> action_key ` set (MessageActions w)"
    using assms(4) by (simp add: action_keys_def)
  have v: "actionType = ''like'' \<or> actionType = ''dislike'' \<or> actionType = ''bookmark''
      \<or> actionType = ''star''"
    using assms(1) by (simp add: valid_action_types_def)
  show ?thesis
    using assms(1,2,3,4,5,6) m k v
    by (simp add: post_message_action_def toggle_action_def existingAction_empty_iff io_bind_def
        sql_insert_action_def io_return_def action_key_def valid_action_types_def)
qed

lemma messageCheck_cong:
  "Messages w1 = Messages w \<Longrightarrow> Chats w1 = Chats w \<Longrightarrow> messageCheck req w1 = messageCheck req w"
  by (simp add: messageCheck_def)

lemma action_keys_filter:
  "set (map action_key (filter (\<lambda>a. action_key a \<noteq> k) xs)) = set (map action_key xs) - {k}"
  by auto

lemma filter_absent_key:
  "k \<notin> set (map action_key xs) \<Longrightarrow> filter (\<lambda>a. action_key a \<noteq> k) xs = xs"
  by (induction xs) auto

text \<open>
  C10. The endpoint is a toggle. For a valid action type and a message in a chat of the
  requesting user (who has a row in \<open>Users\<close>, as the foreign key of \<open>Chats\<close> demands),
  with fresh identifiers from \<open>uuidv4\<close>: a call answers \<open>active: true\<close> exactly when the
  key (messageId, userId, actionType) had no row, and flips the presence of that key
  only; a second call answers the opposite and restores the set of keys that have a
  row. When the key had no row at first, the table itself is restored.
\<close>

theorem message_action_toggle_involution:
  assumes valid: "actionType \<in> set valid_action_types"
    and at: "ar_actionType req = Some actionType"
    and acc: "messageCheck req w \<noteq> []"
    and usr: "ar_userId req \<in> set (map u_id (Users w))"
    and f1: "id1 \<notin> set (map a_id (MessageActions w))"
    and f2: "id2 \<notin> set (map a_id (MessageActions w))"
    and ne: "id1 \<noteq> id2"
    and c1: "post_message_action id1 t1 req w = (r1, w1)"
    and c2: "post_message_action id2 t2 req w1 = (r2, w2)"
  shows "status r1 = 200 \<and> status r2 = 200
    \<and> response_active r1 = Some (toggle_key req actionType \<notin> action_keys w)
    \<and> (toggle_key req actionType \<in> action_keys w1) = (toggle_key req actionType \<notin> action_keys w)
    \<and> action_keys w1 - {toggle_key req actionType} = action_keys w - {toggle_key req actionType}
    \<and> response_active r2 = Some (toggle_key req actionType \<in> action_keys w)
    \<and> action_keys w2 = action_keys w
    \<and> (toggle_key req actionType \<notin> action_keys w \<longrightarrow> MessageActions w2 = MessageActions w)"
proof (cases "toggle_key req actionType \<in> action_keys w")
  case True
  then have k: "(ar_messageId req, ar_userId req, actionType) \<in> action_keys w"
    by (simp add: toggle_key_def)
  let ?k = "(ar_messageId req, ar_userId req, actionType)"
  let ?w1 = "w\<lparr>MessageActions := filter (\<lambda>a. action_key a \<noteq> ?k) (MessageActions w),
         trace := trace w @ [DeleteAction (ar_messageId req) (ar_userId req) actionType]\<rparr>"
  from post_message_action_present [OF valid at acc k, of id1 t1] c1
  have r1: "r1 = \<lparr>status = 200, body = ActionToggled ''Action removed'' actionType False\<rparr>"
    and w1: "w1 = ?w1" by simp_all
  have k1: "?k \<notin> action_keys w1"
    by (auto simp: w1 action_keys_def)
  have acc1: "messageCheck req w1 \<noteq> []"
    using acc by (simp add: w1 messageCheck_def)
  have usr1: "ar_userId req \<in> set (map u_id (Users w1))"
    using usr by (simp add: w1)
  have f21: "id2 \<notin> set (map a_id (MessageActions w1))"
    using f2 by (auto simp: w1)
  from post_message_action_absent [OF valid at acc1 k1 usr1 f21, of t2] c2
  have r2: "r2 = \<lparr>status = 200, body = ActionToggled ''Action added'' actionType True\<rparr>"
    and w2: "MessageActions w2 = MessageActions w1 @
           [\<lparr>a_id = id2, a_messageId = ar_messageId req, a_userId = ar_userId req,
             a_actionType = actionType, a_createdAt = t2\<rparr>]" by auto
  have keys1: "action_keys w1 = action_keys w - {?k}"
    unfolding action_keys_def w1 by auto
  have keys2: "action_keys w2 = insert ?k (action_keys w1)"
    by (simp add: action_keys_def w2 action_key_def)
  show ?thesis
    using True k k1 keys1 keys2
    by (auto simp: r1 r2 response_active_def toggle_key_def)
next
  case False
  let ?k = "(ar_messageId req, ar_userId req, actionType)"
  from False have k: "?k \<notin> action_keys w"
    by (simp add: toggle_key_def)
  let ?row = "\<lparr>a_id = id1, a_messageId = ar_messageId req, a_userId = ar_userId req,
             a_actionType = actionType, a_createdAt = t1\<rparr>"
  from post_message_action_absent [OF valid at acc k usr f1, of t1] c1
  have r1: "r1 = \<lparr>status = 200, body = ActionToggled ''Action added'' actionType True\<rparr>"
    and w1: "w1 = w\<lparr>MessageActions := MessageActions w @ [?row],
         trace := trace w @ [InsertAction ?row]\<rparr>" by simp_all
  have k1: "?k \<in> action_keys w1"
    by (simp add: w1 action_keys_def action_key_def)
  have acc1: "messageCheck req w1 \<noteq> []"
    using acc by (simp add: w1 messageCheck_def)
  from post_message_action_present [OF valid at acc1 k1, of id2 t2] c2
  have r2: "r2 = \<lparr>status = 200, body = ActionToggled ''Action removed'' actionType False\<rparr>"
    and w2: "MessageActions w2 = filter (\<lambda>a. action_key a \<noteq> ?k) (MessageActions w1)"
    by auto
  have ma1: "MessageActions w1 = MessageActions w @ [?row]"
    by (simp add: w1)
  have kk: "?k \<notin> set (map action_key (MessageActions w))"
    using k by (simp add: action_keys_def)
  have restore: "MessageActions w2 = MessageActions w"
    using filter_absent_key [OF kk] by (simp add: w2 ma1 action_key_def)
  have keys1: "action_keys w1 = insert ?k (action_keys w)"
    by (simp add: action_keys_def ma1 action_key_def)
  have keys2: "action_keys w2 = action_keys w"
    by (simp add: action_keys_def restore)
  show ?thesis
    using False k k1 keys1 keys2 restore
    by (auto simp: r1 r2 response_active_def toggle_key_def)
qed

theorem message_action_toggle_involution_witness:
  "response_active (fst (post_message_action action_id1 5 like_answer sample_world)) = Some True
   \<and> response_active (fst (post_message_action action_id2 6 like_answer
        (snd (post_message_action action_id1 5 like_answer sample_world)))) = Some False
   \<and> toggle_key like_answer ''like''
       \<in> action_keys (snd (post_message_action action_id1 5 like_answer sample_world))
   \<and> MessageActions (snd (post_message_action action_id2 6 like_answer
        (snd (post_message_action action_id1 5 like_answer sample_world)))) = MessageActions sample_world"
proof -
  have v: "''like'' \<in> set valid_action_types" by (simp add: valid_action_types_def)
  have at: "ar_actionType like_answer = Some ''like''" by (simp add: like_answer_def)
  have acc: "messageCheck like_answer sample_world \<noteq> []"
    by (simp add: messageCheck_def like_answer_def sample_defs)
  have usr: "ar_userId like_answer \<in> set (map u_id (Users sample_world))"
    by (simp add: like_answer_def sample_defs)
  have f1: "action_id1 \<notin> set (map a_id (MessageActions sample_world))"
    and f2: "action_id2 \<notin> set (map a_id (MessageActions sample_world))"
    by (simp_all add: sample_defs)
  have ne: "action_id1 \<noteq> action_id2" by (simp add: action_id1_def action_id2_def)
  have k: "toggle_key like_answer ''like'' \<notin> action_keys sample_world"
    by (simp add: action_keys_def sample_defs)
  show ?thesis
    using message_action_toggle_involution [OF v at acc usr f1 f2 ne prod.collapse [symmetric]
        prod.collapse [symmetric], of 5 6] k
    by simp
qed

text \<open>
  C7, as stated, fails: the endpoint does not look at the role of the message. A like
  on the question of the sample, whose role is \<open>user\<close>, creates a row.
\<close>

theorem action_on_user_message_counterexample:
  "m_role msg_question = ''user'' \<and> Messages sample_world = [msg_question, msg_answer]
   \<and> ar_messageId like_question = m_id msg_question
   \<and> MessageActions sample_world = []
   \<and> post_message_action action_id1 5 like_question sample_world
       = (\<lparr>status = 200, body = ActionToggled ''Action added'' ''like'' True\<rparr>,
          sample_world\<lparr>MessageActions :=
              [\<lparr>a_id = action_id1, a_messageId = m_id msg_question, a_userId = ''u1'',
                a_actionType = ''like'', a_createdAt = 5\<rparr>],
            trace :=
              [InsertAction \<lparr>a_id = action_id1, a_messageId = m_id msg_question,
                 a_userId = ''u1'', a_actionType = ''like'', a_createdAt = 5\<rparr>]\<rparr>)"
  by (simp add: action_defs like_question_def sample_defs)

lemma messageCheck_relabel: "messageCheck req (relabel_roles f w) = messageCheck req w"
  by (simp add: messageCheck_def relabel_roles_def comp_def)

lemma existingAction_relabel:
  "existingAction m u a (relabel_roles f w) = existingAction m u a w"
  by (simp add: existingAction_def relabel_roles_def)

lemma sql_insert_action_relabel:
  "sql_insert_action row (relabel_roles f w)
     = (fst (sql_insert_action row w), relabel_roles f (snd (sql_insert_action row w)))"
  by (simp add: sql_insert_action_def relabel_roles_def io_raise_def comp_def)

lemma sql_delete_action_relabel:
  "sql_delete_action m u a (relabel_roles f w)
     = (fst (sql_delete_action m u a w), relabel_roles f (snd (sql_delete_action m u a w)))"
  by (simp add: sql_delete_action_def relabel_roles_def)

lemma toggle_action_relabel:
  "toggle_action actionId t req a (relabel_roles f w)
     = (fst (toggle_action actionId t req a w),
        relabel_roles f (snd (toggle_action actionId t req a w)))"
  by (simp add: toggle_action_def existingAction_relabel io_bind_def io_return_def
        sql_insert_action_relabel sql_delete_action_relabel
      split: prod.splits sum.splits)

lemma post_message_action_relabel:
  "post_message_action actionId t req (relabel_roles f w)
     = (fst (post_message_action actionId t req w),
        relabel_roles f (snd (post_message_action actionId t req w)))"
  by (simp add: post_message_action_def messageCheck_relabel toggle_action_relabel
      split: option.splits prod.splits sum.splits abort.splits)

lemma handleMessageAction_user:
  "find (\<lambda>msg. msg_id msg = messageId) messages = Some found \<Longrightarrow> isUser found \<Longrightarrow>
   handleMessageAction messages messageActions messageId action = None"
  by (simp add: handleMessageAction_def)

lemma messageCheck_found:
  assumes "m \<in> set (Messages w)" "c \<in> set (Chats w)" "m_id m = ar_messageId req"
    "m_chatId m = ar_chatId req" "c_id c = ar_chatId req" "c_userId c = ar_userId req"
  shows "messageCheck req w \<noteq> []"
proof -
  from assms(2,3,4,5,6)
  have "filter (\<lambda>c. m_chatId m = c_id c \<and> m_id m = ar_messageId req
                      \<and> m_chatId m = ar_chatId req \<and> c_userId c = ar_userId req) (Chats w) \<noteq> []"
    by (auto simp: filter_empty_conv intro!: bexI [of _ c])
  with assms(1) show ?thesis
    unfolding messageCheck_def by force
qed

text \<open>
  C7, amended. The restriction to assistant messages is made by the dashboard:
  \<open>handleMessageAction\<close> sends no request for a message with \<open>isUser\<close> set. The endpoint
  does not look at the role. Rewriting the roles of the stored messages changes neither
  its response nor its effect; and for a valid action type and a stored message \<open>m\<close>,
  whatever its role, in a chat \<open>c\<close> of the requesting user, it toggles the row: if the key
  (messageId, userId, actionType) has a row, the rows with that key are deleted and the
  answer is 200 with \<open>active: false\<close>; if it has none, then, the user having a row in
  \<open>Users\<close> and the identifier drawn for the action being unused, the row is inserted and
  the answer is 200 with \<open>active: true\<close>.
\<close>

theorem message_action_role_guard_in_dashboard:
  "(find (\<lambda>msg. msg_id msg = messageId) messages = Some found \<and> isUser found \<longrightarrow>
      handleMessageAction messages messageActions messageId action = None)
   \<and> post_message_action actionId t req (relabel_roles f w)
       = (fst (post_message_action actionId t req w),
          relabel_roles f (snd (post_message_action actionId t req w)))
   \<and> (m \<in> set (Messages w) \<and> c \<in> set (Chats w) \<and> m_id m = ar_messageId req
        \<and> m_chatId m = ar_chatId req \<and> c_id c = ar_chatId req \<and> c_userId c = ar_userId req
        \<and> ar_actionType req = Some actionType \<and> actionType \<in> set valid_action_types \<longrightarrow>
      (toggle_key req actionType \<in> action_keys w \<longrightarrow>
         post_message_action actionId t req w =
           (\<lparr>status = 200, body = ActionToggled ''Action removed'' actionType False\<rparr>,
            w\<lparr>MessageActions :=
                 filter (\<lambda>a. action_key a \<noteq> (ar_messageId req, ar_userId req, actionType))
                   (MessageActions w),
               trace := trace w @ [DeleteAction (ar_messageId req) (ar_userId req) actionType]\<rparr>))
      \<and> (toggle_key req actionType \<notin> action_keys w
           \<and> ar_userId req \<in> set (map u_id (Users w))
           \<and> actionId \<notin> set (map a_id (MessageActions w)) \<longrightarrow>
         post_message_action actionId t req w =
           (\<lparr>status = 200, body = ActionToggled ''Action added'' actionType True\<rparr>,
            w\<lparr>MessageActions := MessageActions w @
                 [\<lparr>a_id = actionId, a_messageId = ar_messageId req, a_userId = ar_userId req,
                   a_actionType = actionType, a_createdAt = t\<rparr>],
               trace := trace w @
                 [InsertAction \<lparr>a_id = actionId, a_messageId = ar_messageId req,
                    a_userId = ar_userId req, a_actionType = actionType, a_createdAt = t\<rparr>]\<rparr>)))"
proof (intro conjI impI)
  assume "find (\<lambda>msg. msg_id msg = messageId) messages = Some found \<and> isUser found"
  then show "handleMessageAction messages messageActions messageId action = None"
    using handleMessageAction_user by blast
next
  show "post_message_action actionId t req (relabel_roles f w)
       = (fst (post_message_action actionId t req w),
          relabel_roles f (snd (post_message_action actionId t req w)))"
    by (rule post_message_action_relabel)
next
  assume a: "m \<in> set (Messages w) \<and> c \<in> set (Chats w) \<and> m_id m = ar_messageId req
        \<and> m_chatId m = ar_chatId req \<and> c_id c = ar_chatId req \<and> c_userId c = ar_userId req
        \<and> ar_actionType req = Some actionType \<and> actionType \<in> set valid_action_types"
    and k: "toggle_key req actionType \<in> action_keys w"
  from a have acc: "messageCheck req w \<noteq> []" by (intro messageCheck_found [of m w c]) simp_all
  from a k acc show "post_message_action actionId t req w =
           (\<lparr>status = 200, body = ActionToggled ''Action removed'' actionType False\<rparr>,
            w\<lparr>MessageActions :=
                 filter (\<lambda>a. action_key a \<noteq> (ar_messageId req, ar_userId req, actionType))
                   (MessageActions w),
               trace := trace w @ [DeleteAction (ar_messageId req) (ar_userId req) actionType]\<rparr>)"
    by (intro post_message_action_present) (simp_all add: toggle_key_def)
next
  assume a: "m \<in> set (Messages w) \<and> c \<in> set (Chats w) \<and> m_id m = ar_messageId req
        \<and> m_chatId m = ar_chatId req \<and> c_id c = ar_chatId req \<and> c_userId c = ar_userId req
        \<and> ar_actionType req = Some actionType \<and> actionType \<in> set valid_action_types"
    and k: "toggle_key req actionType \<notin> action_keys w
           \<and> ar_userId req \<in> set (map u_id (Users w))
           \<and> actionId \<notin> set (map a_id (MessageActions w))"
  from a have acc: "messageCheck req w \<noteq> []" by (intro messageCheck_found [of m w c]) simp_all
  from a k acc show "post_message_action actionId t req w =
           (\<lparr>status = 200, body = ActionToggled ''Action added'' actionType True\<rparr>,
            w\<lparr>MessageActions := MessageActions w @
                 [\<lparr>a_id = actionId, a_messageId = ar_messageId req, a_userId = ar_userId req,
                   a_actionType = actionType, a_createdAt = t\<rparr>],
               trace := trace w @
                 [InsertAction \<lparr>a_id = actionId, a_messageId = ar_messageId req,
                    a_userId = ar_userId req, a_actionType = actionType, a_createdAt = t\<rparr>]\<rparr>)"
    by (intro post_message_action_absent) (simp_all add: toggle_key_def)
qed

theorem message_action_role_guard_in_dashboard_witness:
  "find (\<lambda>msg. msg_id msg = m_id msg_question) [shown_question] = Some shown_question
   \<and> isUser shown_question
   \<and> handleMessageAction [shown_question] Map.empty (m_id msg_question) liked = None
   \<and> fst (post_message_action action_id1 5 like_question
             (relabel_roles (\<lambda>m. ''assistant'') sample_world))
       = \<lparr>status = 200, body = ActionToggled ''Action added'' ''like'' True\<rparr>
   \<and> m_role msg_question = ''user''
   \<and> msg_question \<in> set (Messages sample_world)
   \<and> toggle_key like_question ''like'' \<notin> action_keys sample_world
   \<and> post_message_action action_id1 5 like_question sample_world
       = (\<lparr>status = 200, body = ActionToggled ''Action added'' ''like'' True\<rparr>, liked_world)
   \<and> toggle_key like_question ''like'' \<in> action_keys liked_world
   \<and> fst (post_message_action action_id2 6 like_question liked_world)
       = \<lparr>status = 200, body = ActionToggled ''Action removed'' ''like'' False\<rparr>
   \<and> MessageActions (snd (post_message_action action_id2 6 like_question liked_world)) = []"
proof -
  have a: "find (\<lambda>msg. msg_id msg = m_id msg_question) [shown_question] = Some shown_question"
    by (simp add: shown_question_def msg_question_def)
  have b: "isUser shown_question" by (simp add: shown_question_def)
  have role: "m_role msg_question = ''user''" by (simp add: msg_question_def)
  have target: "msg_question \<in> set (Messages sample_world)"
    "chat_alice \<in> set (Chats sample_world)"
    "msg_question \<in> set (Messages liked_world)"
    "chat_alice \<in> set (Chats liked_world)"
    "m_id msg_question = ar_messageId like_question"
    "m_chatId msg_question = ar_chatId like_question"
    "c_id chat_alice = ar_chatId like_question"
    "c_userId chat_alice = ar_userId like_question"
    "ar_actionType like_question = Some ''like''"
    "''like'' \<in> set valid_action_types"
    by (simp_all add: like_question_def sample_world_def liked_world_def msg_question_def
          chat_alice_def valid_action_types_def)
  have absent: "toggle_key like_question ''like'' \<notin> action_keys sample_world"
    "ar_userId like_question \<in> set (map u_id (Users sample_world))"
    "action_id1 \<notin> set (map a_id (MessageActions sample_world))"
    by (simp_all add: action_keys_def like_question_def sample_defs)
  have present: "toggle_key like_question ''like'' \<in> action_keys liked_world"
    by (simp add: action_keys_def action_key_def toggle_key_def like_question_def
          liked_world_def msg_question_def)
  have after: "sample_world\<lparr>MessageActions := MessageActions sample_world @
                 [\<lparr>a_id = action_id1, a_messageId = ar_messageId like_question,
                   a_userId = ar_userId like_question, a_actionType = ''like'',
                   a_createdAt = 5\<rparr>],
               trace := trace sample_world @
                 [InsertAction \<lparr>a_id = action_id1, a_messageId = ar_messageId like_question,
                    a_userId = ar_userId like_question, a_actionType = ''like'',
                    a_createdAt = 5\<rparr>]\<rparr> = liked_world"
    by (simp add: liked_world_def like_question_def sample_world_def msg_question_def)
  have removed: "filter (\<lambda>a. action_key a
                     \<noteq> (ar_messageId like_question, ar_userId like_question, ''like''))
                   (MessageActions liked_world) = []"
    by (simp add: liked_world_def like_question_def action_key_def msg_question_def)
  show ?thesis
    using message_action_role_guard_in_dashboard
      [where messageId = "m_id msg_question" and messages = "[shown_question]"
         and found = shown_question and messageActions = Map.empty and action = liked
         and actionId = action_id1 and t = 5 and req = like_question
         and f = "\<lambda>m. ''assistant''" and w = sample_world and m = msg_question
         and c = chat_alice and actionType = "''like''"]
      message_action_role_guard_in_dashboard
      [where messageId = "m_id msg_question" and messages = "[shown_question]"
         and found = shown_question and messageActions = Map.empty and action = liked
         and actionId = action_id2 and t = 6 and req = like_question
         and f = "\<lambda>m. ''assistant''" and w = liked_world and m = msg_question
         and c = chat_alice and actionType = "''like''"]
      a b role target absent present after removed
    by simp
qed


section \<open>Theorems: the chat-message endpoint\<close>

subsection \<open>What each step can do\<close>

lemma new_events_append: "trace w1 = trace w @ es \<Longrightarrow> new_events w w1 = es"
  by (simp add: new_events_def)

lemma io_bindE:
  assumes "io_bind m f w = (res, w2)"
  obtains (stop) a where "m w = (Inl a, w2)" "res = Inl a"
        | (continue) x w1 where "m w = (Inr x, w1)" "f x w1 = (res, w2)"
  using assms by (auto simp: io_bind_def split: prod.splits sum.splits)

lemma sql_insert_user_cases:
  assumes "sql_insert_user row w = (res, w1)"
  obtains (raise) e where "res = Inl (Raise e)" "w1 = w"
    | (ok) "res = Inr ()" "w1 = w\<lparr>Users := Users w @ [row], trace := trace w @ [InsertUser row]\<rparr>"
  using assms by (auto simp: sql_insert_user_def io_raise_def split: if_splits)

lemma sql_update_user_id_cases:
  assumes "sql_update_user_id new_id email w = (res, w1)"
  obtains (raise) e where "res = Inl (Raise e)" "w1 = w"
    | (ok) "res = Inr ()"
        "w1 = w\<lparr>Users := map (\<lambda>u. if u_email u = email then u\<lparr>u_id := new_id\<rparr> else u) (Users w),
                trace := trace w @ [UpdateUserId new_id email]\<rparr>"
  using assms by (auto simp: sql_update_user_id_def io_raise_def Let_def split: if_splits)

lemma sql_insert_workspace_cases:
  assumes "sql_insert_workspace row w = (res, w1)"
  obtains (raise) e where "res = Inl (Raise e)" "w1 = w"
    | (ok) "res = Inr ()"
        "w1 = w\<lparr>Workspaces := Workspaces w @ [row], trace := trace w @ [InsertWorkspace row]\<rparr>"
  using assms by (auto simp: sql_insert_workspace_def io_raise_def split: if_splits)

lemma sql_insert_chat_cases:
  assumes "sql_insert_chat row w = (res, w1)"
  obtains (raise) e where "res = Inl (Raise e)" "w1 = w"
    | (ok) "res = Inr ()"
        "w1 = w\<lparr>Chats := Chats w @ [row], trace := trace w @ [InsertChat row]\<rparr>"
  using assms by (auto simp: sql_insert_chat_def io_raise_def split: if_splits)

lemma sql_insert_message_cases:
  assumes "sql_insert_message row w = (res, w1)"
  obtains (raise) e where "res = Inl (Raise e)" "w1 = w"
    | (ok) "res = Inr ()"
        "w1 = w\<lparr>Messages := Messages w @ [row], trace := trace w @ [InsertMessage row]\<rparr>"
        "m_id row \<notin> set (map m_id (Messages w))" "m_chatId row \<in> set (map c_id (Chats w))"
        "m_userId row \<in> set (map u_id (Users w))"
  using assms by (auto simp: sql_insert_message_def io_raise_def split: if_splits)

lemma sql_insert_message_ok:
  assumes "m_id row \<notin> set (map m_id (Messages w))" "m_chatId row \<in> set (map c_id (Chats w))"
    "m_userId row \<in> set (map u_id (Users w))" "m_role row \<in> set [''user'', ''assistant'', ''system'']"
  shows "sql_insert_message row w
    = (Inr (), w\<lparr>Messages := Messages w @ [row], trace := trace w @ [InsertMessage row]\<rparr>)"
  using assms by (simp add: sql_insert_message_def)

lemma no_user_iff:
  "filter (\<lambda>u. u_id u = uid) us = [] \<longleftrightarrow> uid \<notin> set (map u_id us)"
  by (auto simp: filter_empty_conv)

lemma no_email_iff:
  "filter (\<lambda>u. u_email u = e) us = [] \<longleftrightarrow> e \<notin> set (map u_email us)"
  by (auto simp: filter_empty_conv)

lemma ensure_user_cases:
  assumes "ensure_user env req w = (res, w1)"
  obtains (present) "userId req \<in> set (map u_id (Users w))" "res = Inr ()" "w1 = w"
    | (not_found) "userId req \<notin> set (map u_id (Users w))" "\<not> bypass_mode env"
        "res = Inl (Respond user_not_found_response)" "w1 = w"
    | (raise) e where "userId req \<notin> set (map u_id (Users w))" "bypass_mode env"
        "res = Inl (Raise e)" "w1 = w"
    | (inserted) "userId req \<notin> set (map u_id (Users w))" "bypass_mode env"
        "mock_email req \<notin> set (map u_email (Users w))" "res = Inr ()"
        "w1 = w\<lparr>Users := Users w @ [mock_user_row env req],
                trace := trace w @ [InsertUser (mock_user_row env req)]\<rparr>"
    | (repointed) "userId req \<notin> set (map u_id (Users w))" "bypass_mode env"
        "mock_email req \<in> set (map u_email (Users w))" "res = Inr ()"
        "w1 = w\<lparr>Users := map (\<lambda>u. if u_email u = mock_email req then u\<lparr>u_id := userId req\<rparr> else u)
                          (Users w),
                trace := trace w @ [UpdateUserId (userId req) (mock_email req)]\<rparr>"
proof (cases "userId req \<in> set (map u_id (Users w))")
  case True
  then have "filter (\<lambda>u. u_id u = userId req) (Users w) \<noteq> []"
    by (simp add: no_user_iff)
  with assms have "res = Inr ()" "w1 = w"
    by (simp_all add: ensure_user_def io_return_def)
  with True show ?thesis by (rule present)
next
  case nouser: False
  then have nofilter: "filter (\<lambda>u. u_id u = userId req) (Users w) = []"
    by (simp add: no_user_iff)
  show ?thesis
  proof (cases "bypass_mode env")
    case False
    with assms nofilter have "res = Inl (Respond user_not_found_response)" "w1 = w"
      by (simp_all add: ensure_user_def io_respond_def)
    with nouser False show ?thesis by (rule not_found)
  next
    case bp: True
    show ?thesis
    proof (cases "mock_email req \<in> set (map u_email (Users w))")
      case True
      then have "filter (\<lambda>u. u_email u = mock_email req) (Users w) \<noteq> []"
        by (simp add: no_email_iff)
      with assms nofilter bp have "sql_update_user_id (userId req) (mock_email req) w = (res, w1)"
        by (simp add: ensure_user_def)
      then show ?thesis
        using nouser bp True raise repointed by (cases rule: sql_update_user_id_cases) auto
    next
      case False
      then have "filter (\<lambda>u. u_email u = mock_email req) (Users w) = []"
        by (simp add: no_email_iff)
      with assms nofilter bp have "sql_insert_user (mock_user_row env req) w = (res, w1)"
        by (simp add: ensure_user_def)
      then show ?thesis
        using nouser bp False raise inserted by (cases rule: sql_insert_user_cases) auto
    qed
  qed
qed

lemma create_default_workspace_cases:
  assumes "create_default_workspace env req w = (res, w1)"
  obtains (raise) e where "res = Inl (Raise e)" "w1 = w"
    | (created) "res = Inr (defaultWorkspaceId (uuid env))"
        "w1 = w\<lparr>Workspaces := Workspaces w @ [default_workspace_row env req],
                trace := trace w @ [InsertWorkspace (default_workspace_row env req)]\<rparr>"
proof -
  from assms have "io_bind (sql_insert_workspace (default_workspace_row env req))
       (\<lambda>_. io_return (defaultWorkspaceId (uuid env))) w = (res, w1)"
    by (simp add: create_default_workspace_def)
  then show ?thesis
  proof (cases rule: io_bindE)
    case (stop a)
    from stop(1) show ?thesis
      using stop(2) raise by (cases rule: sql_insert_workspace_cases) auto
  next
    case (continue x w0)
    from continue(1) show ?thesis
      using continue(2) created by (cases rule: sql_insert_workspace_cases) (auto simp: io_return_def)
  qed
qed

lemma resolve_workspace_cases:
  assumes "resolve_workspace env req w = (res, w1)"
  obtains (raise) e where "res = Inl (Raise e)" "w1 = w"
    | (existing) ws where "ws \<in> set (Workspaces w)" "w_ownerId ws = userId req"
        "res = Inr (w_id ws)" "w1 = w"
    | (created) "res = Inr (defaultWorkspaceId (uuid env))"
        "w1 = w\<lparr>Workspaces := Workspaces w @ [default_workspace_row env req],
                trace := trace w @ [InsertWorkspace (default_workspace_row env req)]\<rparr>"
proof (cases "checked_workspaceId (workspaceId req)")
  case None
  show ?thesis
  proof (cases "filter (\<lambda>x. w_ownerId x = userId req) (Workspaces w)")
    case Nil
    with assms None have "create_default_workspace env req w = (res, w1)"
      by (simp add: resolve_workspace_def)
    then show ?thesis using raise created by (cases rule: create_default_workspace_cases) auto
  next
    case (Cons first others)
    then have "first \<in> set (filter (\<lambda>x. w_ownerId x = userId req) (Workspaces w))" by simp
    then have "first \<in> set (Workspaces w)" "w_ownerId first = userId req" by auto
    moreover from assms None Cons have "res = Inr (w_id first)" "w1 = w"
      by (simp_all add: resolve_workspace_def io_return_def)
    ultimately show ?thesis using existing by blast
  qed
next
  case (Some x)
  show ?thesis
  proof (cases "filter (\<lambda>y. w_id y = x \<and> w_ownerId y = userId req) (Workspaces w) = []")
    case True
    with assms Some have "create_default_workspace env req w = (res, w1)"
      by (simp add: resolve_workspace_def)
    then show ?thesis using raise created by (cases rule: create_default_workspace_cases) auto
  next
    case False
    then obtain ws where "ws \<in> set (Workspaces w)" "w_id ws = x" "w_ownerId ws = userId req"
      by (auto simp: filter_empty_conv)
    moreover from assms Some False have "res = Inr x" "w1 = w"
      by (simp_all add: resolve_workspace_def io_return_def)
    ultimately show ?thesis using existing by blast
  qed
qed

lemma resolve_chat_cases:
  assumes "resolve_chat env req ws w = (res, w1)"
  obtains (raise) e where "\<not> truthy (chatId req)" "res = Inl (Raise e)" "w1 = w"
    | (supplied) "truthy (chatId req)" "res = Inr (or_default (chatId req) [])" "w1 = w"
    | (created) "\<not> truthy (chatId req)" "res = Inr (newChatId (uuid env))"
        "w1 = w\<lparr>Chats := Chats w @ [new_chat_row env req ws],
                trace := trace w @ [InsertChat (new_chat_row env req ws)]\<rparr>"
proof (cases "truthy (chatId req)")
  case True
  with assms supplied show ?thesis by (simp add: resolve_chat_def io_return_def)
next
  case False
  with assms have "io_bind (sql_insert_chat (new_chat_row env req ws))
             (\<lambda>_. io_return (newChatId (uuid env))) w = (res, w1)"
    by (simp add: resolve_chat_def)
  then show ?thesis
  proof (cases rule: io_bindE)
    case (stop a)
    from stop(1) show ?thesis
      using stop(2) False raise by (cases rule: sql_insert_chat_cases) auto
  next
    case (continue x w0)
    from continue(1) show ?thesis
      using continue(2) False created by (cases rule: sql_insert_chat_cases) (auto simp: io_return_def)
  qed
qed

lemma completion_messages_trace [simp]:
  "completion_messages env cid content (w\<lparr>trace := t\<rparr>) = completion_messages env cid content w"
  by (simp add: completion_messages_def chat_history_def)

lemma after_completion_cases:
  assumes "after_completion env req cid content result w = (res, w2)"
    and chat: "cid \<in> set (map c_id (Chats w))"
    and usr: "userId req \<in> set (map u_id (Users w))"
  obtains (ai_raise) e where "res = Inl (Raise e)" "w2 = w"
        "aiMessageId (uuid env) \<in> set (map m_id (Messages w))"
    | (failed) e where "result = Inl e" "res = Inl (Respond (ai_failed_response e))"
        "w2 = w\<lparr>Chats := map (bump_chat cid (now env)) (Chats w),
                Messages := Messages w @ [ai_message_row env req cid placeholder_text],
                trace := trace w @ [InsertMessage (ai_message_row env req cid placeholder_text),
                                    UpdateChatCounters cid (now env)]\<rparr>"
    | (ok) reply where "result = Inr reply"
        "res = Inr (processed_response env cid content reply)"
        "w2 = w\<lparr>Chats := map (bump_chat cid (now env)) (Chats w),
                Messages := Messages w @ [ai_message_row env req cid reply],
                trace := trace w @ [InsertMessage (ai_message_row env req cid reply),
                                    UpdateChatCounters cid (now env)]\<rparr>"
proof (cases "aiMessageId (uuid env) \<in> set (map m_id (Messages w))")
  case True
  then have "\<And>text. sql_insert_message (ai_message_row env req cid text) w
      = (Inl (Raise (SqlError (PrimaryKeyViolation ''Messages''))), w)"
    by (simp add: sql_insert_message_def ai_message_row_def io_raise_def)
  with assms(1) have "res = Inl (Raise (SqlError (PrimaryKeyViolation ''Messages'')))" "w2 = w"
    by (auto simp: after_completion_def io_bind_def split: sum.splits)
  then show ?thesis using True ai_raise by blast
next
  case False
  have ins: "\<And>text. sql_insert_message (ai_message_row env req cid text) w
      = (Inr (), w\<lparr>Messages := Messages w @ [ai_message_row env req cid text],
                     trace := trace w @ [InsertMessage (ai_message_row env req cid text)]\<rparr>)"
    using False chat usr by (simp add: sql_insert_message_def ai_message_row_def)
  show ?thesis
  proof (cases result)
    case (Inl e)
    with assms(1) ins have "res = Inl (Respond (ai_failed_response e))"
      "w2 = w\<lparr>Chats := map (bump_chat cid (now env)) (Chats w),
                Messages := Messages w @ [ai_message_row env req cid placeholder_text],
                trace := trace w @ [InsertMessage (ai_message_row env req cid placeholder_text),
                                    UpdateChatCounters cid (now env)]\<rparr>"
      by (auto simp: after_completion_def io_bind_def sql_update_chat_counters_def io_respond_def)
    with Inl show ?thesis using failed by blast
  next
    case (Inr reply)
    with assms(1) ins have "res = Inr (processed_response env cid content reply)"
      "w2 = w\<lparr>Chats := map (bump_chat cid (now env)) (Chats w),
                Messages := Messages w @ [ai_message_row env req cid reply],
                trace := trace w @ [InsertMessage (ai_message_row env req cid reply),
                                    UpdateChatCounters cid (now env)]\<rparr>"
      by (auto simp: after_completion_def io_bind_def sql_update_chat_counters_def io_return_def)
    with Inr show ?thesis using ok by blast
  qed
qed

lemma converse_cases:
  assumes "converse env req cid content w = (res, w2)"
  obtains (user_raise) e where "res = Inl (Raise e)" "w2 = w"
    | (ai_raise) e where "res = Inl (Raise e)"
        "w2 = w\<lparr>Messages := Messages w @ [user_message_row env req cid content],
                trace := trace w @
                  [InsertMessage (user_message_row env req cid content),
                   ChatCompletion
                     (completion_messages env cid content
                        (w\<lparr>Messages := Messages w @ [user_message_row env req cid content]\<rparr>))
                     fixed_options]\<rparr>"
        "aiMessageId (uuid env) \<in> set (map m_id (Messages w))
         \<or> aiMessageId (uuid env) = userMessageId (uuid env)"
    | (failed) e where
        "getChatCompletion env
           (completion_messages env cid content
              (w\<lparr>Messages := Messages w @ [user_message_row env req cid content]\<rparr>))
           fixed_options = Inl e"
        "res = Inl (Respond (ai_failed_response e))"
        "w2 = w\<lparr>Chats := map (bump_chat cid (now env)) (Chats w),
                Messages := Messages w @ [user_message_row env req cid content,
                                          ai_message_row env req cid placeholder_text],
                trace := trace w @
                  [InsertMessage (user_message_row env req cid content),
                   ChatCompletion
                     (completion_messages env cid content
                        (w\<lparr>Messages := Messages w @ [user_message_row env req cid content]\<rparr>))
                     fixed_options,
                   InsertMessage (ai_message_row env req cid placeholder_text),
                   UpdateChatCounters cid (now env)]\<rparr>"
        "cid \<in> set (map c_id (Chats w))"
    | (ok) reply where
        "getChatCompletion env
           (completion_messages env cid content
              (w\<lparr>Messages := Messages w @ [user_message_row env req cid content]\<rparr>))
           fixed_options = Inr reply"
        "res = Inr (processed_response env cid content reply)"
        "w2 = w\<lparr>Chats := map (bump_chat cid (now env)) (Chats w),
                Messages := Messages w @ [user_message_row env req cid content,
                                          ai_message_row env req cid reply],
                trace := trace w @
                  [InsertMessage (user_message_row env req cid content),
                   ChatCompletion
                     (completion_messages env cid content
                        (w\<lparr>Messages := Messages w @ [user_message_row env req cid content]\<rparr>))
                     fixed_options,
                   InsertMessage (ai_message_row env req cid reply),
                   UpdateChatCounters cid (now env)]\<rparr>"
        "cid \<in> set (map c_id (Chats w))"
proof -
  note out_ai_raise = ai_raise and out_failed = failed and out_ok = ok
  let ?um = "user_message_row env req cid content"
  let ?msgs = "completion_messages env cid content (w\<lparr>Messages := Messages w @ [?um]\<rparr>)"
  from assms have "io_bind (sql_insert_message ?um)
       (\<lambda>_ w. io_bind (call_chat_completion env (completion_messages env cid content w)
                          fixed_options)
                 (after_completion env req cid content) w) w = (res, w2)"
    by (simp add: converse_def)
  then show ?thesis
  proof (cases rule: io_bindE)
    case (stop a)
    from stop(1) show ?thesis
      using stop(2) user_raise by (cases rule: sql_insert_message_cases) auto
  next
    case (continue x wa)
    from continue(1) have wa: "wa = w\<lparr>Messages := Messages w @ [?um],
          trace := trace w @ [InsertMessage ?um]\<rparr>"
      and chat: "cid \<in> set (map c_id (Chats w))"
      and usr: "userId req \<in> set (map u_id (Users w))"
      by (cases rule: sql_insert_message_cases; simp add: user_message_row_def)+
    let ?wb = "wa\<lparr>trace := trace wa @ [ChatCompletion ?msgs fixed_options]\<rparr>"
    have msgs: "completion_messages env cid content wa = ?msgs"
      by (simp add: wa completion_messages_def chat_history_def)
    from continue(2) have ac: "after_completion env req cid content
        (getChatCompletion env ?msgs fixed_options) ?wb = (res, w2)"
      by (simp add: io_bind_def call_chat_completion_def msgs)
    have chat_b: "cid \<in> set (map c_id (Chats ?wb))" using chat by (simp add: wa)
    have usr_b: "userId req \<in> set (map u_id (Users ?wb))" using usr by (simp add: wa)
    from ac chat_b usr_b show ?thesis
    proof (cases rule: after_completion_cases)
      case (ai_raise e)
      then show ?thesis
        using out_ai_raise [of e] by (auto simp: wa user_message_row_def)
    next
      case (failed e)
      then show ?thesis
        using out_failed [of e] chat by (simp add: wa)
    next
      case (ok reply)
      then show ?thesis
        using out_ok [of reply] chat by (simp add: wa)
    qed
  qed
qed

lemma quiet_simps [simp]:
  "quiet []" "quiet [InsertUser u]" "quiet [UpdateUserId i e]" "quiet [InsertWorkspace x]"
  "quiet [InsertChat c]"
  by (simp_all add: quiet_def message_inserts_def chat_updates_def completion_calls_def)

lemma quiet_append [simp]: "quiet (xs @ ys) \<longleftrightarrow> quiet xs \<and> quiet ys"
  by (auto simp: quiet_def message_inserts_def chat_updates_def completion_calls_def)

lemma post_message_run:
  assumes "post_message env req w = (r, w3)"
  obtains (invalid) "validate_request req = Some r" "w3 = w"
    | (user_stop) a where "validate_request req = None"
        "ensure_user env req w = (Inl a, w3)" "r = abort_response a"
    | (workspace_stop) a wa where "validate_request req = None"
        "ensure_user env req w = (Inr (), wa)"
        "resolve_workspace env req wa = (Inl a, w3)" "r = abort_response a"
    | (chat_stop) a wa wb ws where "validate_request req = None"
        "ensure_user env req w = (Inr (), wa)"
        "resolve_workspace env req wa = (Inr ws, wb)"
        "resolve_chat env req ws wb = (Inl a, w3)" "r = abort_response a"
    | (empty) wa wb ws cid where "validate_request req = None"
        "ensure_user env req w = (Inr (), wa)"
        "resolve_workspace env req wa = (Inr ws, wb)"
        "resolve_chat env req ws wb = (Inr cid, w3)"
        "build_user_content env req = []" "r = required_response"
    | (conversed) wa wb wc ws cid res where "validate_request req = None"
        "ensure_user env req w = (Inr (), wa)"
        "resolve_workspace env req wa = (Inr ws, wb)"
        "resolve_chat env req ws wb = (Inr cid, wc)"
        "build_user_content env req \<noteq> []"
        "converse env req cid (build_user_content env req) wc = (res, w3)"
        "r = (case res of Inl a \<Rightarrow> abort_response a | Inr r1 \<Rightarrow> r1)"
proof (cases "validate_request req")
  case (Some r0)
  with assms have "r = r0" "w3 = w" by (simp_all add: post_message_def)
  with Some invalid show ?thesis by simp
next
  case None
  obtain res0 where steps: "message_steps env req w = (res0, w3)"
    and r: "r = (case res0 of Inl a \<Rightarrow> abort_response a | Inr r1 \<Rightarrow> r1)"
    using assms None
    by (auto simp: post_message_def abort_response_def split: prod.splits sum.splits abort.splits)
  from steps have "io_bind (ensure_user env req)
       (\<lambda>_. io_bind (resolve_workspace env req)
          (\<lambda>actualWorkspaceId. io_bind (resolve_chat env req actualWorkspaceId)
             (\<lambda>actualChatId.
                if build_user_content env req = [] then io_respond required_response
                else converse env req actualChatId (build_user_content env req)))) w = (res0, w3)"
    by (simp add: message_steps_def)
  then show ?thesis
  proof (cases rule: io_bindE)
    case (stop a)
    with None r user_stop show ?thesis by simp
  next
    case u: (continue x wa)
    from u(2) show ?thesis
    proof (cases rule: io_bindE)
      case (stop a)
      with None r u(1) workspace_stop show ?thesis by simp
    next
      case ws: (continue ws wb)
      from ws(2) show ?thesis
      proof (cases rule: io_bindE)
        case (stop a)
        with None r u(1) ws(1) chat_stop show ?thesis by simp
      next
        case c: (continue cid wc)
        show ?thesis
        proof (cases "build_user_content env req = []")
          case True
          with c(2) have "res0 = Inl (Respond required_response)" "w3 = wc"
            by (simp_all add: io_respond_def)
          with None r u(1) ws(1) c(1) True empty show ?thesis
            by (simp add: abort_response_def)
        next
          case False
          with c(2) have "converse env req cid (build_user_content env req) wc = (res0, w3)"
            by simp
          with None r u(1) ws(1) c(1) False conversed show ?thesis by simp
        qed
      qed
    qed
  qed
qed

lemma ensure_user_frame:
  assumes "ensure_user env req w = (res, wa)"
  obtains es where "trace wa = trace w @ es" "quiet es" "Messages wa = Messages w"
    "Chats wa = Chats w" "Workspaces wa = Workspaces w" "MessageActions wa = MessageActions w"
  using assms by (cases rule: ensure_user_cases) auto

lemma ensure_user_exists:
  assumes "ensure_user env req w = (Inr x, wa)"
  shows "userId req \<in> set (map u_id (Users wa))"
  using assms
proof (cases rule: ensure_user_cases)
  case repointed
  then obtain u where "u \<in> set (Users w)" "u_email u = mock_email req" by auto
  then have "u\<lparr>u_id := userId req\<rparr> \<in> set (Users wa)"
    using repointed(5) by force
  then show ?thesis by force
qed (auto simp: mock_user_row_def)

lemma resolve_workspace_frame:
  assumes "resolve_workspace env req w = (res, wb)"
  obtains es where "trace wb = trace w @ es" "quiet es" "Messages wb = Messages w"
    "Chats wb = Chats w" "Users wb = Users w" "MessageActions wb = MessageActions w"
  using assms by (cases rule: resolve_workspace_cases) auto

lemma resolve_workspace_owned:
  assumes "resolve_workspace env req w = (Inr ws, wb)"
  shows "\<exists>x \<in> set (Workspaces wb). w_id x = ws \<and> w_ownerId x = userId req"
  using assms by (cases rule: resolve_workspace_cases) (auto simp: default_workspace_row_def)

lemma resolve_chat_frame:
  assumes "resolve_chat env req ws w = (res, wc)"
  obtains es where "trace wc = trace w @ es" "quiet es" "Messages wc = Messages w"
    "Workspaces wc = Workspaces w" "Users wc = Users w" "MessageActions wc = MessageActions w"
  using assms by (cases rule: resolve_chat_cases) auto

subsection \<open>The shape of a run\<close>

lemma prelude:
  assumes u: "ensure_user env req w = (Inr x, wa)"
    and ws: "resolve_workspace env req wa = (Inr ws, wb)"
    and c: "resolve_chat env req ws wb = (Inr cid, wc)"
  obtains es where "trace wc = trace w @ es" "quiet es" "Messages wc = Messages w"
    "MessageActions wc = MessageActions w" "Workspaces wc = Workspaces wb"
    "Workspaces wa = Workspaces w" "Users wc = Users wa"
    "userId req \<in> set (map u_id (Users wc))"
    "\<exists>x \<in> set (Workspaces wc). w_id x = ws \<and> w_ownerId x = userId req"
    "if truthy (chatId req) then cid = or_default (chatId req) [] \<and> Chats wc = Chats w
     else cid = newChatId (uuid env) \<and> Chats wc = Chats w @ [new_chat_row env req ws]"
proof -
  from u obtain es1 where 1: "trace wa = trace w @ es1" "quiet es1" "Messages wa = Messages w"
    "Chats wa = Chats w" "Workspaces wa = Workspaces w" "MessageActions wa = MessageActions w"
    by (rule ensure_user_frame)
  from ws obtain es2 where 2: "trace wb = trace wa @ es2" "quiet es2" "Messages wb = Messages wa"
    "Chats wb = Chats wa" "Users wb = Users wa" "MessageActions wb = MessageActions wa"
    by (rule resolve_workspace_frame)
  from c obtain es3 where 3: "trace wc = trace wb @ es3" "quiet es3" "Messages wc = Messages wb"
    "Workspaces wc = Workspaces wb" "Users wc = Users wb" "MessageActions wc = MessageActions wb"
    by (rule resolve_chat_frame)
  have ex: "userId req \<in> set (map u_id (Users wc))"
    using ensure_user_exists [OF u] 2(5) 3(5) by simp
  have own: "\<exists>x \<in> set (Workspaces wc). w_id x = ws \<and> w_ownerId x = userId req"
    using resolve_workspace_owned [OF ws] 3(4) by simp
  have chat: "if truthy (chatId req) then cid = or_default (chatId req) [] \<and> Chats wc = Chats w
     else cid = newChatId (uuid env) \<and> Chats wc = Chats w @ [new_chat_row env req ws]"
    using c 1(4) 2(4) by (cases rule: resolve_chat_cases) auto
  show ?thesis
    using that [of "es1 @ es2 @ es3"] 1 2 3 ex own chat by simp
qed

lemma completion_calls_quiet: "quiet es \<Longrightarrow> completion_calls (es @ xs) = completion_calls xs"
  by (simp add: quiet_def completion_calls_def)

lemma message_inserts_quiet: "quiet es \<Longrightarrow> message_inserts (es @ xs) = message_inserts xs"
  by (simp add: quiet_def message_inserts_def)

lemma chat_updates_quiet: "quiet es \<Longrightarrow> chat_updates (es @ xs) = chat_updates xs"
  by (simp add: quiet_def chat_updates_def)

text \<open>Every run: the new events are quiet ones followed by the events of converse.\<close>

lemma post_message_events:
  assumes "post_message env req w = (r, w3)"
  obtains es tail where "new_events w w3 = es @ tail" "quiet es"
    "tail = [] \<or> (\<exists>um msgs. tail = [InsertMessage um, ChatCompletion msgs fixed_options])
     \<or> (\<exists>um msgs am c t. tail = [InsertMessage um, ChatCompletion msgs fixed_options,
            InsertMessage am, UpdateChatCounters c t])"
  using assms
proof (cases rule: post_message_run)
  case invalid
  then show ?thesis using that [of "[]" "[]"] by (simp add: new_events_def)
next
  case (user_stop a)
  from user_stop(2) obtain es where "trace w3 = trace w @ es" "quiet es"
    by (rule ensure_user_frame)
  then show ?thesis using that [of es "[]"] by (simp add: new_events_def)
next
  case (workspace_stop a wa)
  from workspace_stop(2) obtain es1 where 1: "trace wa = trace w @ es1" "quiet es1"
    by (rule ensure_user_frame)
  from workspace_stop(3) obtain es2 where 2: "trace w3 = trace wa @ es2" "quiet es2"
    by (rule resolve_workspace_frame)
  show ?thesis using that [of "es1 @ es2" "[]"] 1 2 by (simp add: new_events_def)
next
  case (chat_stop a wa wb ws)
  from chat_stop(2) obtain es1 where 1: "trace wa = trace w @ es1" "quiet es1"
    by (rule ensure_user_frame)
  from chat_stop(3) obtain es2 where 2: "trace wb = trace wa @ es2" "quiet es2"
    by (rule resolve_workspace_frame)
  from chat_stop(4) obtain es3 where 3: "trace w3 = trace wb @ es3" "quiet es3"
    by (rule resolve_chat_frame)
  show ?thesis using that [of "es1 @ es2 @ es3" "[]"] 1 2 3 by (simp add: new_events_def)
next
  case (empty wa wb ws cid)
  from empty(2,3,4) obtain es where "trace w3 = trace w @ es" "quiet es"
    by (rule prelude)
  then show ?thesis using that [of es "[]"] by (simp add: new_events_def)
next
  case (conversed wa wb wc ws cid res)
  from conversed(2,3,4) obtain es where es: "trace wc = trace w @ es" "quiet es"
    by (rule prelude)
  from conversed(6) show ?thesis
  proof (cases rule: converse_cases)
    case (user_raise e)
    then show ?thesis using that [of es "[]"] es by (simp add: new_events_def)
  next
    case (ai_raise e)
    then show ?thesis
      using that [of es "[InsertMessage (user_message_row env req cid (build_user_content env req)),
         ChatCompletion (completion_messages env cid (build_user_content env req)
            (wc\<lparr>Messages := Messages wc @ [user_message_row env req cid (build_user_content env req)]\<rparr>))
           fixed_options]"] es
      by (simp add: new_events_def)
  next
    case (failed e)
    then show ?thesis
      using that [of es "[InsertMessage (user_message_row env req cid (build_user_content env req)),
         ChatCompletion (completion_messages env cid (build_user_content env req)
            (wc\<lparr>Messages := Messages wc @ [user_message_row env req cid (build_user_content env req)]\<rparr>))
           fixed_options,
         InsertMessage (ai_message_row env req cid placeholder_text),
         UpdateChatCounters cid (now env)]"] es
      by (simp add: new_events_def)
  next
    case (ok reply)
    then show ?thesis
      using that [of es "[InsertMessage (user_message_row env req cid (build_user_content env req)),
         ChatCompletion (completion_messages env cid (build_user_content env req)
            (wc\<lparr>Messages := Messages wc @ [user_message_row env req cid (build_user_content env req)]\<rparr>))
           fixed_options,
         InsertMessage (ai_message_row env req cid reply),
         UpdateChatCounters cid (now env)]"] es
      by (simp add: new_events_def)
  qed
qed

lemma validate_files_status: "validate_files i fs = Some r \<Longrightarrow> status r = 400"
  by (induction fs arbitrary: i) (auto simp: invalid_file_response_def split: if_splits)

lemma validate_request_status: "validate_request req = Some r \<Longrightarrow> status r = 400"
  by (auto simp: validate_request_def required_response_def validate_files_status
      split: if_splits)

lemma ensure_user_stop_status:
  "ensure_user env req w = (Inl a, w1) \<Longrightarrow>
   status (abort_response a) = 404 \<or> status (abort_response a) = 500"
  by (cases rule: ensure_user_cases)
     (auto simp: abort_response_def user_not_found_response_def failed_response_def)

lemma resolve_workspace_stop_status:
  "resolve_workspace env req w = (Inl a, w1) \<Longrightarrow> status (abort_response a) = 500"
  by (cases rule: resolve_workspace_cases) (auto simp: abort_response_def failed_response_def)

lemma resolve_chat_stop_status:
  "resolve_chat env req ws w = (Inl a, w1) \<Longrightarrow> status (abort_response a) = 500"
  by (cases rule: resolve_chat_cases) (auto simp: abort_response_def failed_response_def)

lemma post_message_ok_run:
  assumes run: "post_message env req w = (r, w3)" and ok: "status r = 200"
  obtains wa wb wc ws cid reply where "validate_request req = None"
    "ensure_user env req w = (Inr (), wa)"
    "resolve_workspace env req wa = (Inr ws, wb)"
    "resolve_chat env req ws wb = (Inr cid, wc)"
    "build_user_content env req \<noteq> []"
    "getChatCompletion env
       (completion_messages env cid (build_user_content env req)
          (wc\<lparr>Messages := Messages wc
                @ [user_message_row env req cid (build_user_content env req)]\<rparr>))
       fixed_options = Inr reply"
    "r = processed_response env cid (build_user_content env req) reply"
    "w3 = wc\<lparr>Chats := map (bump_chat cid (now env)) (Chats wc),
            Messages := Messages wc @ [user_message_row env req cid (build_user_content env req),
                                       ai_message_row env req cid reply],
            trace := trace wc @
              [InsertMessage (user_message_row env req cid (build_user_content env req)),
               ChatCompletion
                 (completion_messages env cid (build_user_content env req)
                    (wc\<lparr>Messages := Messages wc
                          @ [user_message_row env req cid (build_user_content env req)]\<rparr>))
                 fixed_options,
               InsertMessage (ai_message_row env req cid reply),
               UpdateChatCounters cid (now env)]\<rparr>"
    "cid \<in> set (map c_id (Chats wc))"
  using run
proof (cases rule: post_message_run)
  case invalid
  with ok validate_request_status show ?thesis by fastforce
next
  case (user_stop a)
  with ok ensure_user_stop_status show ?thesis by fastforce
next
  case (workspace_stop a wa)
  with ok resolve_workspace_stop_status show ?thesis by fastforce
next
  case (chat_stop a wa wb ws)
  with ok resolve_chat_stop_status show ?thesis by fastforce
next
  case (empty wa wb ws cid)
  with ok show ?thesis by (simp add: required_response_def)
next
  case (conversed wa wb wc ws cid res)
  from conversed(6) show ?thesis
  proof (cases rule: converse_cases)
    case (user_raise e)
    with ok conversed(7) show ?thesis by (simp add: abort_response_def failed_response_def)
  next
    case (ai_raise e)
    with ok conversed(7) show ?thesis by (simp add: abort_response_def failed_response_def)
  next
    case (failed e)
    with ok conversed(7) show ?thesis by (simp add: abort_response_def ai_failed_response_def)
  next
    case (ok reply)
    with conversed that show ?thesis by simp
  qed
qed

lemma bump_chat_explicit:
  "bump_chat cid t = (\<lambda>c. if c_id c = cid
      then c\<lparr>c_messageCount := c_messageCount c + 2, c_lastMessageAt := Some t, c_updatedAt := t\<rparr>
      else c)"
  by (rule ext) (simp add: bump_chat_def)

lemma quiet_no_calls: "quiet es \<Longrightarrow> completion_calls es = []"
  by (simp add: quiet_def)

lemma post_message_conversed:
  assumes run: "post_message env req w = (r, w3)"
    and loud: "\<not> quiet (new_events w w3)"
  obtains wa wb wc ws cid res where "validate_request req = None"
    "ensure_user env req w = (Inr (), wa)"
    "resolve_workspace env req wa = (Inr ws, wb)"
    "resolve_chat env req ws wb = (Inr cid, wc)"
    "build_user_content env req \<noteq> []"
    "converse env req cid (build_user_content env req) wc = (res, w3)"
    "r = (case res of Inl a \<Rightarrow> abort_response a | Inr r1 \<Rightarrow> r1)"
  using run
proof (cases rule: post_message_run)
  case invalid
  with loud show ?thesis by (simp add: new_events_def)
next
  case (user_stop a)
  from user_stop(2) obtain es where "trace w3 = trace w @ es" "quiet es"
    by (rule ensure_user_frame)
  with loud show ?thesis by (simp add: new_events_def)
next
  case (workspace_stop a wa)
  from workspace_stop(2) obtain es1 where 1: "trace wa = trace w @ es1" "quiet es1"
    by (rule ensure_user_frame)
  from workspace_stop(3) obtain es2 where 2: "trace w3 = trace wa @ es2" "quiet es2"
    by (rule resolve_workspace_frame)
  from 1 2 have "new_events w w3 = es1 @ es2" "quiet (es1 @ es2)"
    by (simp_all add: new_events_def)
  with loud show ?thesis by simp
next
  case (chat_stop a wa wb ws)
  from chat_stop(2) obtain es1 where 1: "trace wa = trace w @ es1" "quiet es1"
    by (rule ensure_user_frame)
  from chat_stop(3) obtain es2 where 2: "trace wb = trace wa @ es2" "quiet es2"
    by (rule resolve_workspace_frame)
  from chat_stop(4) obtain es3 where 3: "trace w3 = trace wb @ es3" "quiet es3"
    by (rule resolve_chat_frame)
  from 1 2 3 have "new_events w w3 = es1 @ es2 @ es3" "quiet (es1 @ es2 @ es3)"
    by (simp_all add: new_events_def)
  with loud show ?thesis by simp
next
  case (empty wa wb ws cid)
  from empty(2,3,4) obtain es where "trace w3 = trace w @ es" "quiet es"
    by (rule prelude)
  with loud show ?thesis by (simp add: new_events_def)
next
  case (conversed wa wb wc ws cid res)
  then show ?thesis using that by blast
qed

lemma post_message_called:
  assumes run: "post_message env req w = (r, w3)"
    and called: "completion_calls (new_events w w3) \<noteq> []"
  obtains wa wb wc ws cid res where "validate_request req = None"
    "ensure_user env req w = (Inr (), wa)"
    "resolve_workspace env req wa = (Inr ws, wb)"
    "resolve_chat env req ws wb = (Inr cid, wc)"
    "build_user_content env req \<noteq> []"
    "converse env req cid (build_user_content env req) wc = (res, w3)"
    "r = (case res of Inl a \<Rightarrow> abort_response a | Inr r1 \<Rightarrow> r1)"
proof -
  from called have "\<not> quiet (new_events w w3)" by (auto simp: quiet_def)
  with run show ?thesis by (cases rule: post_message_conversed) (rule that)
qed

lemma run_hi_status: "status (fst (post_message prod_env hi_request sample_world)) = 200"
  by code_simp

lemma run_hi_calls:
  "completion_calls (new_events sample_world (snd (post_message prod_env hi_request sample_world)))
     = [([\<lparr>cm_role = ''system'', cm_content = text_of ''You are AIVA.''\<rparr>,
          \<lparr>cm_role = ''user'', cm_content = text_of ''Hi''\<rparr>,
          \<lparr>cm_role = ''user'', cm_content = text_of ''Hi''\<rparr>], fixed_options)]"
  by code_simp

lemma run_failing_calls:
  "completion_calls (new_events sample_world (snd (post_message failing_env hi_request sample_world)))
     = [([\<lparr>cm_role = ''system'', cm_content = text_of ''You are AIVA.''\<rparr>,
          \<lparr>cm_role = ''user'', cm_content = text_of ''Hi''\<rparr>,
          \<lparr>cm_role = ''user'', cm_content = text_of ''Hi''\<rparr>], fixed_options)]"
  by code_simp


subsection \<open>The claims about persistence and the completion call\<close>

text \<open>
  C1. On the success path of \<open>POST /chat/message\<close> (the response has status 200) the
  handler executed exactly two inserts into \<open>Messages\<close>: first the row with role \<open>user\<close>
  that carries the assembled user content, then the row with role \<open>assistant\<close> that
  carries the reply of the chat-completion call; the table grew by these two rows. It
  executed exactly one update of the chat counters, on a chat row that exists (the
  supplied chat, or the row just created with count 0), and that update adds 2 to
  \<open>messageCount\<close> and sets \<open>lastMessageAt\<close> and \<open>updatedAt\<close> to the server time.
\<close>

theorem post_message_success_writes:
  assumes run: "post_message env req w = (r, w1)" and ok: "status r = 200"
  shows "\<exists>cid reply chats0.
      r = \<lparr>status = 200,
           body = MessageProcessed cid
                    \<lparr>mv_id = userMessageId (uuid env), mv_content = build_user_content env req,
                     mv_role = ''user''\<rparr>
                    \<lparr>mv_id = aiMessageId (uuid env), mv_content = reply,
                     mv_role = ''assistant''\<rparr>\<rparr>
    \<and> (\<exists>msgs. getChatCompletion env msgs \<lparr>maxTokens = 1000, temperature = 7 / 10\<rparr> = Inr reply)
    \<and> message_inserts (new_events w w1)
        = [\<lparr>m_id = userMessageId (uuid env), m_chatId = cid, m_userId = userId req,
            m_content = build_user_content env req, m_role = ''user'', m_createdAt = now env\<rparr>,
           \<lparr>m_id = aiMessageId (uuid env), m_chatId = cid, m_userId = userId req,
            m_content = reply, m_role = ''assistant'', m_createdAt = now env\<rparr>]
    \<and> Messages w1 = Messages w @ message_inserts (new_events w w1)
    \<and> chat_updates (new_events w w1) = [(cid, now env)]
    \<and> cid \<in> set (map c_id chats0)
    \<and> (chats0 = Chats w \<or> (\<exists>row. c_id row = cid \<and> c_messageCount row = 0
                                  \<and> chats0 = Chats w @ [row]))
    \<and> Chats w1 = map (\<lambda>c. if c_id c = cid
                           then c\<lparr>c_messageCount := c_messageCount c + 2,
                                  c_lastMessageAt := Some (now env), c_updatedAt := now env\<rparr>
                           else c) chats0"
  using run ok
proof (cases rule: post_message_ok_run)
  case (1 wa wb wc ws cid reply)
  from 1(2,3,4) obtain es where es: "trace wc = trace w @ es" "quiet es"
    "Messages wc = Messages w"
    "if truthy (chatId req) then cid = or_default (chatId req) [] \<and> Chats wc = Chats w
     else cid = newChatId (uuid env) \<and> Chats wc = Chats w @ [new_chat_row env req ws]"
    by (rule prelude)
  let ?um = "user_message_row env req cid (build_user_content env req)"
  let ?am = "ai_message_row env req cid reply"
  let ?msgs = "completion_messages env cid (build_user_content env req)
                    (wc\<lparr>Messages := Messages wc @ [?um]\<rparr>)"
  have ne: "new_events w w1 = es @ [InsertMessage ?um, ChatCompletion ?msgs fixed_options,
      InsertMessage ?am, UpdateChatCounters cid (now env)]"
    by (simp add: 1(8) es(1) new_events_def)
  have mi: "message_inserts (new_events w w1) = [?um, ?am]"
    by (simp add: ne message_inserts_quiet [OF es(2)]) (simp add: message_inserts_def)
  have cu: "chat_updates (new_events w w1) = [(cid, now env)]"
    by (simp add: ne chat_updates_quiet [OF es(2)]) (simp add: chat_updates_def)
  have msgs: "Messages w1 = Messages w @ [?um, ?am]"
    by (simp add: 1(8) es(3))
  have chats: "Chats wc = Chats w \<or> (\<exists>row. c_id row = cid \<and> c_messageCount row = 0
                                  \<and> Chats wc = Chats w @ [row])"
    using es(4) by (auto simp: new_chat_row_def split: if_splits)
  have upd: "Chats w1 = map (\<lambda>c. if c_id c = cid
                           then c\<lparr>c_messageCount := c_messageCount c + 2,
                                  c_lastMessageAt := Some (now env), c_updatedAt := now env\<rparr>
                           else c) (Chats wc)"
    by (simp add: 1(8) bump_chat_explicit)
  have llm: "\<exists>msgs. getChatCompletion env msgs \<lparr>maxTokens = 1000, temperature = 7 / 10\<rparr> = Inr reply"
    using 1(6) by (auto simp: fixed_options_def)
  have r: "r = \<lparr>status = 200,
           body = MessageProcessed cid
                    \<lparr>mv_id = userMessageId (uuid env), mv_content = build_user_content env req,
                     mv_role = ''user''\<rparr>
                    \<lparr>mv_id = aiMessageId (uuid env), mv_content = reply,
                     mv_role = ''assistant''\<rparr>\<rparr>"
    by (simp add: 1(7) processed_response_def)
  have rows: "[?um, ?am] = [\<lparr>m_id = userMessageId (uuid env), m_chatId = cid, m_userId = userId req,
            m_content = build_user_content env req, m_role = ''user'', m_createdAt = now env\<rparr>,
           \<lparr>m_id = aiMessageId (uuid env), m_chatId = cid, m_userId = userId req,
            m_content = reply, m_role = ''assistant'', m_createdAt = now env\<rparr>]"
    by (simp add: user_message_row_def ai_message_row_def)
  show ?thesis
    apply (rule exI [of _ cid], rule exI [of _ reply], rule exI [of _ "Chats wc"])
    using r llm mi cu msgs chats upd 1(9) rows by simp
qed

theorem post_message_success_writes_witness:
  "status (fst (post_message prod_env hi_request sample_world)) = 200
   \<and> map m_role (message_inserts (new_events sample_world
         (snd (post_message prod_env hi_request sample_world)))) = [''user'', ''assistant'']
   \<and> length (chat_updates (new_events sample_world
         (snd (post_message prod_env hi_request sample_world)))) = 1"
  using post_message_success_writes [OF prod.collapse [symmetric] run_hi_status] run_hi_status
  by auto

text \<open>
  C2. If the chat-completion call of the handler throws, then, the identifier drawn for
  the assistant message being fresh, the handler inserts the placeholder assistant
  message after the user message (both stay in \<open>Messages\<close>), adds 2 to the chat's
  \<open>messageCount\<close> with one update, and responds with status 500.
\<close>

theorem post_message_completion_failure:
  assumes run: "post_message env req w = (r, w1)"
    and call: "(msgs, opts) \<in> set (completion_calls (new_events w w1))"
    and throws: "getChatCompletion env msgs opts = Inl e"
    and fresh: "aiMessageId (uuid env) \<notin> set (map m_id (Messages w))"
    and distinct_ids: "aiMessageId (uuid env) \<noteq> userMessageId (uuid env)"
  shows "\<exists>cid chats0.
      r = \<lparr>status = 500,
           body = ErrorBody ''Failed to get AI response''
                    (Some ''Sorry, there was an error processing your message. Please try again.'')
                    (Some (Error e))\<rparr>
    \<and> message_inserts (new_events w w1)
        = [\<lparr>m_id = userMessageId (uuid env), m_chatId = cid, m_userId = userId req,
            m_content = build_user_content env req, m_role = ''user'', m_createdAt = now env\<rparr>,
           \<lparr>m_id = aiMessageId (uuid env), m_chatId = cid, m_userId = userId req,
            m_content =
              text_of ''Sorry, I encountered an issue processing your request. Please try again.'',
            m_role = ''assistant'', m_createdAt = now env\<rparr>]
    \<and> Messages w1 = Messages w @ message_inserts (new_events w w1)
    \<and> chat_updates (new_events w w1) = [(cid, now env)]
    \<and> cid \<in> set (map c_id chats0)
    \<and> (chats0 = Chats w \<or> (\<exists>row. c_id row = cid \<and> c_messageCount row = 0
                                  \<and> chats0 = Chats w @ [row]))
    \<and> Chats w1 = map (\<lambda>c. if c_id c = cid
                           then c\<lparr>c_messageCount := c_messageCount c + 2,
                                  c_lastMessageAt := Some (now env), c_updatedAt := now env\<rparr>
                           else c) chats0"
proof -
  from call have called: "completion_calls (new_events w w1) \<noteq> []" by auto
  from run called show ?thesis
  proof (cases rule: post_message_called)
    case (1 wa wb wc ws cid res)
    from 1(2,3,4) obtain es where es: "trace wc = trace w @ es" "quiet es"
      "Messages wc = Messages w"
      "if truthy (chatId req) then cid = or_default (chatId req) [] \<and> Chats wc = Chats w
       else cid = newChatId (uuid env) \<and> Chats wc = Chats w @ [new_chat_row env req ws]"
      by (rule prelude)
    let ?um = "user_message_row env req cid (build_user_content env req)"
    let ?ph = "ai_message_row env req cid placeholder_text"
    let ?msgs = "completion_messages env cid (build_user_content env req)
                      (wc\<lparr>Messages := Messages wc @ [?um]\<rparr>)"
    have chats: "Chats wc = Chats w \<or> (\<exists>row. c_id row = cid \<and> c_messageCount row = 0
                                    \<and> Chats wc = Chats w @ [row])"
      using es(4) by (auto simp: new_chat_row_def split: if_splits)
    from 1(6) show ?thesis
    proof (cases rule: converse_cases)
      case (user_raise e1)
      with es have "new_events w w1 = es" by (simp add: new_events_def)
      with called es(2) show ?thesis by (simp add: quiet_no_calls)
    next
      case (ai_raise e1)
      with fresh distinct_ids es(3) show ?thesis by simp
    next
      case (ok reply)
      have ne: "new_events w w1 = es @ [InsertMessage ?um, ChatCompletion ?msgs fixed_options,
          InsertMessage (ai_message_row env req cid reply), UpdateChatCounters cid (now env)]"
        by (simp add: ok(3) es(1) new_events_def)
      have "completion_calls (new_events w w1) = [(?msgs, fixed_options)]"
        by (simp add: ne completion_calls_quiet [OF es(2)]) (simp add: completion_calls_def)
      with call have "msgs = ?msgs" "opts = fixed_options" by simp_all
      with throws ok(1) show ?thesis by simp
    next
      case (failed e1)
      have ne: "new_events w w1 = es @ [InsertMessage ?um, ChatCompletion ?msgs fixed_options,
          InsertMessage ?ph, UpdateChatCounters cid (now env)]"
        by (simp add: failed(3) es(1) new_events_def)
      have "completion_calls (new_events w w1) = [(?msgs, fixed_options)]"
        by (simp add: ne completion_calls_quiet [OF es(2)]) (simp add: completion_calls_def)
      with call have "msgs = ?msgs" "opts = fixed_options" by simp_all
      with throws failed(1) have e1: "e1 = e" by simp
      have mi: "message_inserts (new_events w w1) = [?um, ?ph]"
        by (simp add: ne message_inserts_quiet [OF es(2)]) (simp add: message_inserts_def)
      have cu: "chat_updates (new_events w w1) = [(cid, now env)]"
        by (simp add: ne chat_updates_quiet [OF es(2)]) (simp add: chat_updates_def)
      have msgs: "Messages w1 = Messages w @ [?um, ?ph]"
        by (simp add: failed(3) es(3))
      have upd: "Chats w1 = map (\<lambda>c. if c_id c = cid
                             then c\<lparr>c_messageCount := c_messageCount c + 2,
                                    c_lastMessageAt := Some (now env), c_updatedAt := now env\<rparr>
                             else c) (Chats wc)"
        by (simp add: failed(3) bump_chat_explicit)
      have r: "r = \<lparr>status = 500,
           body = ErrorBody ''Failed to get AI response''
                    (Some ''Sorry, there was an error processing your message. Please try again.'')
                    (Some (Error e))\<rparr>"
        by (simp add: 1(7) failed(2) e1 abort_response_def ai_failed_response_def)
      have rows: "[?um, ?ph] = [\<lparr>m_id = userMessageId (uuid env), m_chatId = cid, m_userId = userId req,
            m_content = build_user_content env req, m_role = ''user'', m_createdAt = now env\<rparr>,
           \<lparr>m_id = aiMessageId (uuid env), m_chatId = cid, m_userId = userId req,
            m_content =
              text_of ''Sorry, I encountered an issue processing your request. Please try again.'',
            m_role = ''assistant'', m_createdAt = now env\<rparr>]"
        by (simp add: user_message_row_def ai_message_row_def placeholder_text_def)
      show ?thesis
        apply (rule exI [of _ cid], rule exI [of _ "Chats wc"])
        using r mi cu msgs chats upd failed(4) rows by simp
    qed
  qed
qed

theorem post_message_completion_failure_witness:
  "status (fst (post_message failing_env hi_request sample_world)) = 500
   \<and> map m_content (message_inserts (new_events sample_world
         (snd (post_message failing_env hi_request sample_world))))
       = [text_of ''Hi'',
          text_of ''Sorry, I encountered an issue processing your request. Please try again.'']
   \<and> length (chat_updates (new_events sample_world
         (snd (post_message failing_env hi_request sample_world)))) = 1"
proof -
  let ?msgs = "[\<lparr>cm_role = ''system'', cm_content = text_of ''You are AIVA.''\<rparr>,
          \<lparr>cm_role = ''user'', cm_content = text_of ''Hi''\<rparr>,
          \<lparr>cm_role = ''user'', cm_content = text_of ''Hi''\<rparr>]"
  have call: "(?msgs, fixed_options)
      \<in> set (completion_calls (new_events sample_world
                 (snd (post_message failing_env hi_request sample_world))))"
    by (simp add: run_failing_calls)
  have throws: "getChatCompletion failing_env ?msgs fixed_options = Inl ''timeout''"
    by (simp add: failing_env_def)
  have fresh: "aiMessageId (uuid failing_env) \<notin> set (map m_id (Messages sample_world))"
    by (simp add: failing_env_def prod_env_def sample_uuids_def sample_defs)
  have ne: "aiMessageId (uuid failing_env) \<noteq> userMessageId (uuid failing_env)"
    by (simp add: failing_env_def prod_env_def sample_uuids_def)
  have content: "build_user_content failing_env hi_request = text_of ''Hi''"
    by code_simp
  show ?thesis
    using post_message_completion_failure [OF prod.collapse [symmetric] call throws fresh ne]
      content
    by auto
qed

text \<open>
  C6. Whatever the request, the environment and the database, the handler makes at most
  one chat-completion call, and the call is made with \<open>maxTokens = 1000\<close> and
  \<open>temperature = 0.7\<close>.
\<close>

theorem completion_options_fixed:
  "map snd (completion_calls (new_events w (snd (post_message env req w)))) = []
   \<or> map snd (completion_calls (new_events w (snd (post_message env req w))))
       = [\<lparr>maxTokens = 1000, temperature = 7 / 10\<rparr>]"
proof -
  obtain r w3 where run: "post_message env req w = (r, w3)" by force
  from run obtain es tail where "new_events w w3 = es @ tail" "quiet es"
    "tail = [] \<or> (\<exists>um msgs. tail = [InsertMessage um, ChatCompletion msgs fixed_options])
     \<or> (\<exists>um msgs am c t. tail = [InsertMessage um, ChatCompletion msgs fixed_options,
            InsertMessage am, UpdateChatCounters c t])"
    by (rule post_message_events)
  then have "map snd (completion_calls (new_events w w3)) = []
    \<or> map snd (completion_calls (new_events w w3)) = [fixed_options]"
    by (auto simp: completion_calls_quiet) (auto simp: completion_calls_def)
  then show ?thesis by (simp add: run fixed_options_def)
qed

theorem completion_options_fixed_witness:
  "map snd (completion_calls (new_events sample_world
       (snd (post_message prod_env hi_request sample_world))))
     = [\<lparr>maxTokens = 1000, temperature = 7 / 10\<rparr>]"
  using completion_options_fixed [of sample_world prod_env hi_request] run_hi_calls
  by simp

subsection \<open>The claim about the user message content\<close>

lemma read_files_map:
  "read_files env g fs acc = acc @ map (read_file env g) fs"
  by (induction fs arbitrary: acc) simp_all

lemma validate_files_named:
  "validate_files i fs = None \<Longrightarrow> f \<in> set fs \<Longrightarrow> truthy (originalName f)"
  by (induction fs arbitrary: i) (auto split: if_splits)

lemma is_space_spec: "is_space c \<longleftrightarrow> c \<in> set spec_white_space"
  unfolding is_space_def spec_white_space_def by simp arith

lemma rev_dropWhile_rev:
  "rev (dropWhile P (rev t)) = take (length t - length (takeWhile P (rev t))) t"
  by (simp add: dropWhile_eq_drop rev_drop)

lemma takeWhile_rev_drop:
  assumes "dropWhile P s \<noteq> []"
  shows "takeWhile P (rev s) = takeWhile P (rev (dropWhile P s))"
proof -
  from assms have "\<not> P (hd (dropWhile P s))" by (rule hd_dropWhile)
  moreover from assms have "hd (dropWhile P s) \<in> set (rev (dropWhile P s))" by simp
  ultimately have "takeWhile P (rev (dropWhile P s) @ rev (takeWhile P s))
      = takeWhile P (rev (dropWhile P s))"
    by (intro takeWhile_append1)
  moreover have "rev s = rev (dropWhile P s) @ rev (takeWhile P s)"
    by (simp flip: rev_append)
  ultimately show ?thesis by simp
qed

lemma trim_spec: "trim s = spec_trimmed s"
proof -
  let ?P = "\<lambda>c. c \<in> set spec_white_space"
  have P: "is_space = ?P" by (rule ext) (rule is_space_spec)
  have len: "length (dropWhile ?P s) = length s - length (takeWhile ?P s)"
    by (simp add: dropWhile_eq_drop)
  show ?thesis
  proof (cases "dropWhile ?P s = []")
    case True
    have d: "drop (length (takeWhile ?P s)) s = []"
      unfolding dropWhile_eq_drop [symmetric] by (rule True)
    have "trim s = []" unfolding trim_def P True by simp
    moreover have "spec_trimmed s = []" unfolding spec_trimmed_def Let_def d by simp
    ultimately show ?thesis by simp
  next
    case False
    have "trim s = take (length (dropWhile ?P s) - length (takeWhile ?P (rev (dropWhile ?P s))))
                     (dropWhile ?P s)"
      by (simp only: trim_def P rev_dropWhile_rev)
    also have "\<dots> = take (length s - length (takeWhile ?P s) - length (takeWhile ?P (rev s)))
                     (drop (length (takeWhile ?P s)) s)"
      by (simp only: len takeWhile_rev_drop [OF False] dropWhile_eq_drop [symmetric])
    finally show ?thesis by (simp add: spec_trimmed_def Let_def)
  qed
qed

lemma join_spec: "join nl xs = spec_joined xs"
  by (induction nl xs rule: join.induct) (simp_all add: nl_def)

lemma format_read_file:
  "truthy (originalName f) \<Longrightarrow> format_file (read_file env g f) = spec_file_section env g f"
  by (simp add: format_file_def read_file_def spec_file_section_def extracted_content_def nl_def
      or_default_def split: option.splits)

lemma trim_no_break_space: "trim ([0xA0] @ text_of ''Hi'' @ [0xA0, 0x2003]) = text_of ''Hi''"
  by code_simp

lemma blank_message_rejected:
  "post_message prod_env (hi_request\<lparr>message := Some [0xA0]\<rparr>) sample_world
     = (required_response, sample_world)"
  by code_simp

lemma trimmed_message:
  "(if truthy (message req) then trim (or_default (message req) []) else []) = spec_message req"
  by (auto simp: truthy_def or_default_def spec_message_def trim_spec spec_trimmed_def
      split: option.splits)

lemma build_user_content_spec:
  assumes "validate_request req = None" "files req \<noteq> []"
  shows "build_user_content env req =
     (case fileAnalysisService env of
        Some getFileContent \<Rightarrow> spec_user_content env getFileContent req
      | None \<Rightarrow> spec_fallback_content req)"
proof (cases "fileAnalysisService env")
  case None
  with assms(2) show ?thesis
    by (simp add: build_user_content_def spec_fallback_content_def trimmed_message)
next
  case (Some g)
  from assms(1) have v: "validate_files 0 (files req) = None"
    by (simp add: validate_request_def split: if_splits)
  have sect: "fileContentSection (read_files env g (files req) [])
      = spec_joined (map (spec_file_section env g) (files req))"
    using validate_files_named [OF v]
    by (simp add: fileContentSection_def read_files_map join_spec format_read_file cong: map_cong)
  show ?thesis
    using assms(2) Some sect
    by (simp add: build_user_content_def spec_user_content_def trimmed_message nl_def)
qed

lemma post_message_user_row:
  assumes run: "post_message env req w = (r, w1)"
    and row: "row \<in> set (message_inserts (new_events w w1))"
    and role: "m_role row = ''user''"
  shows "validate_request req = None \<and> m_content row = build_user_content env req"
proof -
  from row have loud: "\<not> quiet (new_events w w1)" by (auto simp: quiet_def)
  from run loud show ?thesis
  proof (cases rule: post_message_conversed)
    case (1 wa wb wc ws cid res)
    from 1(2,3,4) obtain es where es: "trace wc = trace w @ es" "quiet es"
      by (rule prelude)
    let ?um = "user_message_row env req cid (build_user_content env req)"
    from 1(6) have "set (message_inserts (new_events w w1)) \<subseteq> {?um} \<union> {m. m_role m = ''assistant''}"
    proof (cases rule: converse_cases)
      case (user_raise e)
      with es show ?thesis by (simp add: new_events_def quiet_def)
    next
      case (ai_raise e)
      with es show ?thesis
        by (simp add: new_events_def message_inserts_quiet) (simp add: message_inserts_def)
    next
      case (failed e)
      with es show ?thesis
        by (simp add: new_events_def message_inserts_quiet)
           (simp add: message_inserts_def ai_message_row_def)
    next
      case (ok reply)
      with es show ?thesis
        by (simp add: new_events_def message_inserts_quiet)
           (simp add: message_inserts_def ai_message_row_def)
    qed
    with row role have "row = ?um" by auto
    with 1(1) show ?thesis by (simp add: user_message_row_def)
  qed
qed

lemma run_files_inserts:
  "map m_role (message_inserts (new_events sample_world
       (snd (post_message prod_env files_request sample_world)))) = [''user'', ''assistant'']"
  by code_simp

lemma run_files_unread_inserts:
  "map m_role (message_inserts (new_events sample_world
       (snd (post_message no_service_env files_request sample_world))))
     = [''user'', ''assistant'']"
  by code_simp

text \<open>
  C5, as the specification has it, does not hold: when the file analysis service cannot
  be obtained, the handler's \<open>catch\<close> keeps the bare message. The request carries two
  files and the message \<open>Summarise\<close>; the handler answers 200 and the user message it
  persists is \<open>Summarise\<close>, with no \<open>Attached Files:\<close> part and no file section.
\<close>

theorem user_content_without_file_service_counterexample:
  "files files_request \<noteq> []
   \<and> fileAnalysisService no_service_env = None
   \<and> status (fst (post_message no_service_env files_request sample_world)) = 200
   \<and> map (\<lambda>row. (m_role row, m_content row))
        (message_inserts (new_events sample_world
           (snd (post_message no_service_env files_request sample_world))))
       = [(''user'', text_of ''Summarise''), (''assistant'', text_of ''Hello!'')]"
  by code_simp

text \<open>
  C5, amended. When files accompany the request, the content of the user message the
  handler persists is: if the file analysis service is obtained, the concatenation the
  specification describes (the trimmed message, a blank line, \<open>Attached Files:\<close> and the
  file sections joined by a line feed when the trimmed message is not empty;
  \<open>Analyze the following files:\<close>, a blank line and the same sections when it is); if the
  service cannot be obtained, the trimmed message alone, or the text
  \<open>User sent files but there was an error processing them.\<close> when the trimmed message
  is empty.
\<close>

theorem user_content_with_files:
  assumes run: "post_message env req w = (r, w1)"
    and files: "files req \<noteq> []"
    and row: "row \<in> set (message_inserts (new_events w w1))"
    and role: "m_role row = ''user''"
  shows "m_content row =
     (case fileAnalysisService env of
        Some getFileContent \<Rightarrow> spec_user_content env getFileContent req
      | None \<Rightarrow> spec_fallback_content req)"
  using post_message_user_row [OF run row role] build_user_content_spec [OF _ files]
  by simp

theorem user_content_with_files_witness:
  "hd (message_inserts (new_events sample_world
         (snd (post_message prod_env files_request sample_world))))
     \<in> set (message_inserts (new_events sample_world
         (snd (post_message prod_env files_request sample_world))))
   \<and> m_content (hd (message_inserts (new_events sample_world
         (snd (post_message prod_env files_request sample_world)))))
       = text_of ''Summarise'' @ [0x0A, 0x0A] @ text_of ''Attached Files:'' @ [0x0A]
         @ text_of ''File: a.txt'' @ [0x0A] @ text_of ''Content:'' @ [0x0A]
         @ text_of ''Alpha'' @ [0x0A] @ text_of ''---'' @ [0x0A] @ [0x0A]
         @ text_of ''File: b.txt'' @ [0x0A] @ text_of ''Content:'' @ [0x0A]
         @ text_of ''Beta'' @ [0x0A] @ text_of ''---'' @ [0x0A]
   \<and> m_content (hd (message_inserts (new_events sample_world
         (snd (post_message no_service_env files_request sample_world)))))
       = text_of ''Summarise''"
proof -
  let ?rows = "message_inserts (new_events sample_world
         (snd (post_message prod_env files_request sample_world)))"
  let ?bare = "message_inserts (new_events sample_world
         (snd (post_message no_service_env files_request sample_world)))"
  have roles: "map m_role ?rows = [''user'', ''assistant'']" by (rule run_files_inserts)
  then have ne: "?rows \<noteq> []" by auto
  then have row: "hd ?rows \<in> set ?rows" by simp
  have role: "m_role (hd ?rows) = ''user''"
    using roles ne by (cases ?rows) auto
  have roles2: "map m_role ?bare = [''user'', ''assistant'']" by (rule run_files_unread_inserts)
  then have ne2: "?bare \<noteq> []" by auto
  then have row2: "hd ?bare \<in> set ?bare" by simp
  have role2: "m_role (hd ?bare) = ''user''"
    using roles2 ne2 by (cases ?bare) auto
  have files: "files files_request \<noteq> []" by (simp add: files_request_def)
  have spec: "(case fileAnalysisService prod_env of
                 Some getFileContent \<Rightarrow> spec_user_content prod_env getFileContent files_request
               | None \<Rightarrow> spec_fallback_content files_request)
       = text_of ''Summarise'' @ [0x0A, 0x0A] @ text_of ''Attached Files:'' @ [0x0A]
         @ text_of ''File: a.txt'' @ [0x0A] @ text_of ''Content:'' @ [0x0A]
         @ text_of ''Alpha'' @ [0x0A] @ text_of ''---'' @ [0x0A] @ [0x0A]
         @ text_of ''File: b.txt'' @ [0x0A] @ text_of ''Content:'' @ [0x0A]
         @ text_of ''Beta'' @ [0x0A] @ text_of ''---'' @ [0x0A]"
    by code_simp
  have spec2: "(case fileAnalysisService no_service_env of
                 Some getFileContent \<Rightarrow>
                   spec_user_content no_service_env getFileContent files_request
               | None \<Rightarrow> spec_fallback_content files_request)
       = text_of ''Summarise''"
    by code_simp
  show ?thesis
    using user_content_with_files [OF prod.collapse [symmetric] files row role]
      user_content_with_files [OF prod.collapse [symmetric] files row2 role2]
      row spec spec2
    by simp
qed

subsection \<open>The claim about a missing user\<close>

text \<open>
  C4, as stated, fails: outside development mode with \<open>BYPASS_AUTH\<close> a request of a user
  without a row is answered 404 and nothing is written.
\<close>

theorem missing_user_in_production_counterexample:
  "userId ghost_request \<notin> set (map u_id (Users sample_world))
   \<and> post_message prod_env ghost_request sample_world
       = (\<lparr>status = 404,
           body = ErrorBody ''User not found''
                    (Some ''User account not found. Please log in again.'') None\<rparr>,
          sample_world)"
  by code_simp

lemma converse_users:
  assumes "converse env req cid content w = (res, w2)"
  shows "Users w2 = Users w" "Workspaces w2 = Workspaces w"
  using assms by (cases rule: converse_cases; simp)+

lemma converse_status:
  assumes "converse env req cid content w = (res, w2)"
  shows "status (case res of Inl a \<Rightarrow> abort_response a | Inr r1 \<Rightarrow> r1) \<noteq> 404"
  using assms
  by (cases rule: converse_cases)
     (simp_all add: abort_response_def failed_response_def ai_failed_response_def
        processed_response_def)

text \<open>After the user step succeeded, the rest keeps the Users table and never answers 404.\<close>

lemma after_user_step:
  assumes run: "post_message env req w = (r, w3)"
    and valid: "validate_request req = None"
    and u: "ensure_user env req w = (Inr x, wa)"
  shows "Users w3 = Users wa \<and> status r \<noteq> 404 \<and> (\<exists>es. trace w3 = trace wa @ es)"
  using run
proof (cases rule: post_message_run)
  case invalid
  with valid show ?thesis by simp
next
  case (user_stop a)
  with u show ?thesis by simp
next
  case (workspace_stop a wa1)
  with u have wa: "wa1 = wa" by simp
  from workspace_stop(3) obtain es where "trace w3 = trace wa1 @ es" "Users w3 = Users wa1"
    by (rule resolve_workspace_frame)
  with wa resolve_workspace_stop_status [OF workspace_stop(3)] workspace_stop(4)
  show ?thesis by auto
next
  case (chat_stop a wa1 wb ws)
  with u have wa: "wa1 = wa" by simp
  from chat_stop(3) obtain es2 where 2: "trace wb = trace wa1 @ es2" "Users wb = Users wa1"
    by (rule resolve_workspace_frame)
  from chat_stop(4) obtain es3 where 3: "trace w3 = trace wb @ es3" "Users w3 = Users wb"
    by (rule resolve_chat_frame)
  from wa 2 3 resolve_chat_stop_status [OF chat_stop(4)] chat_stop(5)
  show ?thesis by auto
next
  case (empty wa1 wb ws cid)
  with u have wa: "wa1 = wa" by simp
  from empty(3) obtain es2 where 2: "trace wb = trace wa1 @ es2" "Users wb = Users wa1"
    by (rule resolve_workspace_frame)
  from empty(4) obtain es3 where 3: "trace w3 = trace wb @ es3" "Users w3 = Users wb"
    by (rule resolve_chat_frame)
  from wa 2 3 empty(6) show ?thesis by (auto simp: required_response_def)
next
  case (conversed wa1 wb wc ws cid res)
  with u have wa: "wa1 = wa" by simp
  from conversed(3) obtain es2 where 2: "trace wb = trace wa1 @ es2" "Users wb = Users wa1"
    by (rule resolve_workspace_frame)
  from conversed(4) obtain es3 where 3: "trace wc = trace wb @ es3" "Users wc = Users wb"
    by (rule resolve_chat_frame)
  have 4: "\<exists>es. trace w3 = trace wc @ es"
    using conversed(6) by (cases rule: converse_cases) auto
  from wa 2 3 4 converse_users(1) [OF conversed(6)] converse_status [OF conversed(6)] conversed(7)
  show ?thesis by auto
qed

text \<open>
  C4, amended. For a valid request whose \<open>userId\<close> has no row in \<open>Users\<close>: unless
  \<open>NODE_ENV\<close> is \<open>development\<close> and \<open>BYPASS_AUTH\<close> is \<open>true\<close>, the handler answers 404
  \<open>User not found\<close> and changes nothing. In that mode its first statement is the repair,
  the insert of the user with the email \<open>userId@example.com\<close> or, when a row has that
  email, the update that re-points that row to \<open>userId\<close>; either the repair raises
  (status 500, nothing changed) or the user has a row from then on and the answer is
  not 404. The insert succeeds when no row has the email and the role is \<open>admin\<close> or
  \<open>user\<close>.
\<close>

theorem missing_user_repair_in_bypass_mode_only:
  assumes nouser: "userId req \<notin> set (map u_id (Users w))"
    and valid: "validate_request req = None"
    and run: "post_message env req w = (r, w1)"
  shows "(\<not> (NODE_ENV env = Some ''development'' \<and> BYPASS_AUTH env = Some ''true'') \<longrightarrow>
            r = \<lparr>status = 404,
                 body = ErrorBody ''User not found''
                          (Some ''User account not found. Please log in again.'') None\<rparr>
          \<and> w1 = w)
       \<and> (NODE_ENV env = Some ''development'' \<and> BYPASS_AUTH env = Some ''true'' \<longrightarrow>
            (status r = 500 \<and> w1 = w)
          \<or> (userId req \<in> set (map u_id (Users w1)) \<and> status r \<noteq> 404
              \<and> (\<exists>es. new_events w w1
                    = (if userId req @ ''@example.com'' \<in> set (map u_email (Users w))
                       then UpdateUserId (userId req) (userId req @ ''@example.com'')
                       else InsertUser (mock_user_row env req)) # es)))
       \<and> (NODE_ENV env = Some ''development'' \<and> BYPASS_AUTH env = Some ''true''
          \<and> userId req @ ''@example.com'' \<notin> set (map u_email (Users w))
          \<and> or_default (user_role req) ''user'' \<in> set [''admin'', ''user''] \<longrightarrow>
            \<lparr>u_id = userId req, u_firstName = ''Test'', u_lastName = ''User'',
             u_email = userId req @ ''@example.com'', u_role = or_default (user_role req) ''user'',
             u_isActive = True, u_createdAt = now env, u_updatedAt = now env\<rparr> \<in> set (Users w1))"
proof -
  obtain res wa where u: "ensure_user env req w = (res, wa)" by force
  have bp: "bypass_mode env \<longleftrightarrow> NODE_ENV env = Some ''development'' \<and> BYPASS_AUTH env = Some ''true''"
    by (simp add: bypass_mode_def)
  from u show ?thesis
  proof (cases rule: ensure_user_cases)
    case present
    with nouser show ?thesis by simp
  next
    case not_found
    from run valid u not_found have "r = user_not_found_response" "w1 = w"
      by (auto simp: post_message_def message_steps_def io_bind_def)
    with not_found bp show ?thesis by (auto simp: user_not_found_response_def)
  next
    case (raise e)
    from run valid u raise have "r = failed_response e" "w1 = w"
      by (auto simp: post_message_def message_steps_def io_bind_def)
    moreover have "\<not> (userId req @ ''@example.com'' \<notin> set (map u_email (Users w))
          \<and> or_default (user_role req) ''user'' \<in> set [''admin'', ''user''])"
    proof
      assume a: "userId req @ ''@example.com'' \<notin> set (map u_email (Users w))
          \<and> or_default (user_role req) ''user'' \<in> set [''admin'', ''user'']"
      then have "filter (\<lambda>u. u_email u = mock_email req) (Users w) = []"
        by (simp add: no_email_iff mock_email_def)
      moreover have "filter (\<lambda>u. u_id u = userId req) (Users w) = []"
        using nouser by (simp add: no_user_iff)
      ultimately have "ensure_user env req w = sql_insert_user (mock_user_row env req) w"
        using raise(2) by (simp add: ensure_user_def)
      also have "\<dots> = (Inr (), w\<lparr>Users := Users w @ [mock_user_row env req],
             trace := trace w @ [InsertUser (mock_user_row env req)]\<rparr>)"
        using a nouser by (auto simp: sql_insert_user_def mock_user_row_def mock_email_def)
      finally show False using u raise by simp
    qed
    ultimately show ?thesis using raise bp by (auto simp: failed_response_def)
  next
    case inserted
    from u inserted have u1: "ensure_user env req w = (Inr (), wa)" by simp
    from after_user_step [OF run valid u1]
    obtain es where rest: "Users w1 = Users wa" "status r \<noteq> 404" "trace w1 = trace wa @ es"
      by auto
    have ne: "new_events w w1 = InsertUser (mock_user_row env req) # es"
      using rest(3) inserted(5) by (simp add: new_events_def)
    have row: "mock_user_row env req \<in> set (Users w1)"
      using rest(1) inserted(5) by simp
    then have ex: "userId req \<in> set (map u_id (Users w1))"
      by (force simp: mock_user_row_def)
    show ?thesis
      using inserted(2,3) bp ne row ex rest(2)
      by (auto simp: mock_email_def mock_user_row_def)
  next
    case repointed
    from u repointed have u1: "ensure_user env req w = (Inr (), wa)" by simp
    from after_user_step [OF run valid u1]
    obtain es where rest: "Users w1 = Users wa" "status r \<noteq> 404" "trace w1 = trace wa @ es"
      by auto
    have ne: "new_events w w1 = UpdateUserId (userId req) (mock_email req) # es"
      using rest(3) repointed(5) by (simp add: new_events_def)
    have ex: "userId req \<in> set (map u_id (Users w1))"
      using ensure_user_exists [OF u1] rest(1) by simp
    show ?thesis
      using repointed(2,3) bp ne ex rest(2)
      by (auto simp: mock_email_def)
  qed
qed

theorem missing_user_repair_in_bypass_mode_only_witness:
  "userId ghost_request \<notin> set (map u_id (Users sample_world))
   \<and> validate_request ghost_request = None
   \<and> status (fst (post_message prod_env ghost_request sample_world)) = 404
   \<and> snd (post_message prod_env ghost_request sample_world) = sample_world
   \<and> \<lparr>u_id = ''u9'', u_firstName = ''Test'', u_lastName = ''User'',
       u_email = ''u9@example.com'', u_role = ''user'', u_isActive = True,
       u_createdAt = 10, u_updatedAt = 10\<rparr>
       \<in> set (Users (snd (post_message dev_env ghost_request sample_world)))"
proof -
  have nouser: "userId ghost_request \<notin> set (map u_id (Users sample_world))"
    by code_simp
  have valid: "validate_request ghost_request = None"
    by code_simp
  have prod: "\<not> (NODE_ENV prod_env = Some ''development'' \<and> BYPASS_AUTH prod_env = Some ''true'')"
    by (simp add: prod_env_def)
  have dev: "NODE_ENV dev_env = Some ''development'' \<and> BYPASS_AUTH dev_env = Some ''true''
      \<and> userId ghost_request @ ''@example.com'' \<notin> set (map u_email (Users sample_world))
      \<and> or_default (user_role ghost_request) ''user'' \<in> set [''admin'', ''user'']"
    by code_simp
  have vals: "userId ghost_request = ''u9''" "or_default (user_role ghost_request) ''user'' = ''user''"
    "now dev_env = 10"
    by (simp_all add: ghost_request_def hi_request_def dev_env_def prod_env_def or_default_def)
  show ?thesis
    using missing_user_repair_in_bypass_mode_only [OF nouser valid prod.collapse [symmetric],
        of prod_env]
      missing_user_repair_in_bypass_mode_only [OF nouser valid prod.collapse [symmetric],
        of dev_env]
      nouser valid prod dev vals
    by simp
qed

subsection \<open>The claim about the workspace\<close>

text \<open>
  C3, as stated, fails: when the request names a chat, the workspace the handler resolved
  is not applied to it. A message of the first user into her chat that is in no
  workspace is processed with status 200, and that chat is in no workspace she owns.
\<close>

theorem message_into_unfiled_chat_counterexample:
  "status (fst (post_message prod_env unfiled_request sample_world)) = 200
   \<and> chatId unfiled_request = Some (c_id chat_unfiled)
   \<and> map m_chatId (message_inserts (new_events sample_world
         (snd (post_message prod_env unfiled_request sample_world))))
       = [c_id chat_unfiled, c_id chat_unfiled]
   \<and> \<not> chat_in_owned_workspace (snd (post_message prod_env unfiled_request sample_world))
         (userId unfiled_request) (c_id chat_unfiled)"
  by code_simp

lemma find_filter: "find P xs = (case filter P xs of [] \<Rightarrow> None | x # ys \<Rightarrow> Some x)"
  by (induction xs) auto

lemma resolve_workspace_choice:
  assumes "resolve_workspace env req w = (Inr ws, wb)"
  shows "ws = spec_workspace_choice env req w"
proof (cases "checked_workspaceId (workspaceId req)")
  case None
  then have bad: "workspaceId req = None
      \<or> (\<exists>g. workspaceId req = Some g \<and> (g = [] \<or> \<not> is_uuid g))"
    by (auto simp: checked_workspaceId_def truthy_def or_default_def split: option.splits if_splits)
  show ?thesis
  proof (cases "filter (\<lambda>x. w_ownerId x = userId req) (Workspaces w)")
    case Nil
    with assms None have "create_default_workspace env req w = (Inr ws, wb)"
      by (simp add: resolve_workspace_def)
    then have "ws = defaultWorkspaceId (uuid env)"
      by (cases rule: create_default_workspace_cases) auto
    with bad Nil show ?thesis
      by (auto simp: spec_workspace_choice_def find_filter)
  next
    case (Cons first others)
    with assms None have "ws = w_id first"
      by (simp add: resolve_workspace_def io_return_def)
    with bad Cons show ?thesis
      by (auto simp: spec_workspace_choice_def find_filter)
  qed
next
  case (Some g)
  then have good: "workspaceId req = Some g" "g \<noteq> []" "is_uuid g"
    by (auto simp: checked_workspaceId_def truthy_def or_default_def split: option.splits if_splits)
  show ?thesis
  proof (cases "filter (\<lambda>x. w_id x = g \<and> w_ownerId x = userId req) (Workspaces w) = []")
    case True
    with assms Some have "create_default_workspace env req w = (Inr ws, wb)"
      by (simp add: resolve_workspace_def)
    then have "ws = defaultWorkspaceId (uuid env)"
      by (cases rule: create_default_workspace_cases) auto
    moreover from True have "\<not> list_ex (\<lambda>x. w_id x = g \<and> w_ownerId x = userId req) (Workspaces w)"
      by (auto simp: filter_empty_conv list_ex_iff)
    ultimately show ?thesis using good by (simp add: spec_workspace_choice_def)
  next
    case False
    with assms Some have "ws = g" by (simp add: resolve_workspace_def io_return_def)
    moreover from False have "list_ex (\<lambda>x. w_id x = g \<and> w_ownerId x = userId req) (Workspaces w)"
      by (auto simp: filter_empty_conv list_ex_iff)
    ultimately show ?thesis using good by (simp add: spec_workspace_choice_def)
  qed
qed

lemma spec_workspace_choice_same:
  "Workspaces wa = Workspaces w \<Longrightarrow>
   spec_workspace_choice env req wa = spec_workspace_choice env req w"
  by (simp add: spec_workspace_choice_def split: option.splits)

lemma new_chat_placed:
  assumes run: "post_message env req w = (r, w1)" and ok: "status r = 200"
    and new: "\<not> truthy (chatId req)"
  shows "(\<exists>c \<in> set (Chats w1). c_id c = newChatId (uuid env) \<and> c_userId c = userId req
            \<and> c_workspaceId c = Some (spec_workspace_choice env req w))
    \<and> (\<exists>x \<in> set (Workspaces w1). w_id x = spec_workspace_choice env req w
            \<and> w_ownerId x = userId req)
    \<and> map m_chatId (message_inserts (new_events w w1))
        = [newChatId (uuid env), newChatId (uuid env)]"
  using run ok
proof (cases rule: post_message_ok_run)
  case (1 wa wb wc ws cid reply)
  from 1(2,3,4) obtain es where es: "trace wc = trace w @ es" "quiet es"
    "Workspaces wc = Workspaces wb" "Workspaces wa = Workspaces w"
    "\<exists>x \<in> set (Workspaces wc). w_id x = ws \<and> w_ownerId x = userId req"
    "if truthy (chatId req) then cid = or_default (chatId req) [] \<and> Chats wc = Chats w
     else cid = newChatId (uuid env) \<and> Chats wc = Chats w @ [new_chat_row env req ws]"
    by (rule prelude)
  from es(6) new have cid: "cid = newChatId (uuid env)"
    and chats: "Chats wc = Chats w @ [new_chat_row env req ws]" by simp_all
  have ws: "ws = spec_workspace_choice env req w"
    using resolve_workspace_choice [OF 1(3)] spec_workspace_choice_same [OF es(4)] by simp
  have row: "bump_chat cid (now env) (new_chat_row env req ws) \<in> set (Chats w1)"
    by (simp add: 1(8) chats)
  have a: "\<exists>c \<in> set (Chats w1). c_id c = newChatId (uuid env) \<and> c_userId c = userId req
            \<and> c_workspaceId c = Some (spec_workspace_choice env req w)"
    by (rule bexI [OF _ row]) (simp add: bump_chat_def new_chat_row_def cid ws)
  have b: "\<exists>x \<in> set (Workspaces w1). w_id x = spec_workspace_choice env req w
            \<and> w_ownerId x = userId req"
    using es(5) by (simp add: 1(8) ws)
  have ne: "new_events w w1 = es @
      [InsertMessage (user_message_row env req cid (build_user_content env req)),
       ChatCompletion (completion_messages env cid (build_user_content env req)
          (wc\<lparr>Messages := Messages wc
                @ [user_message_row env req cid (build_user_content env req)]\<rparr>)) fixed_options,
       InsertMessage (ai_message_row env req cid reply), UpdateChatCounters cid (now env)]"
    by (simp add: 1(8) es(1) new_events_def)
  have c: "map m_chatId (message_inserts (new_events w w1))
        = [newChatId (uuid env), newChatId (uuid env)]"
    by (simp add: ne message_inserts_quiet [OF es(2)])
       (simp add: message_inserts_def user_message_row_def ai_message_row_def cid)
  from a b c show ?thesis by blast
qed

lemma named_chat_kept:
  assumes run: "post_message env req w = (r, w1)" and ok: "status r = 200"
    and named: "truthy (chatId req)"
  shows "map (\<lambda>m. Some (m_chatId m)) (message_inserts (new_events w w1))
        = [chatId req, chatId req]
    \<and> map c_id (Chats w1) = map c_id (Chats w)
    \<and> map c_userId (Chats w1) = map c_userId (Chats w)
    \<and> map c_workspaceId (Chats w1) = map c_workspaceId (Chats w)"
  using run ok
proof (cases rule: post_message_ok_run)
  case (1 wa wb wc ws cid reply)
  from 1(2,3,4) obtain es where es: "trace wc = trace w @ es" "quiet es"
    "if truthy (chatId req) then cid = or_default (chatId req) [] \<and> Chats wc = Chats w
     else cid = newChatId (uuid env) \<and> Chats wc = Chats w @ [new_chat_row env req ws]"
    by (rule prelude)
  from es(3) named have cid: "Some cid = chatId req" and chats: "Chats wc = Chats w"
    by (auto simp: truthy_def or_default_def split: option.splits)
  have ne: "new_events w w1 = es @
      [InsertMessage (user_message_row env req cid (build_user_content env req)),
       ChatCompletion (completion_messages env cid (build_user_content env req)
          (wc\<lparr>Messages := Messages wc
                @ [user_message_row env req cid (build_user_content env req)]\<rparr>)) fixed_options,
       InsertMessage (ai_message_row env req cid reply), UpdateChatCounters cid (now env)]"
    by (simp add: 1(8) es(1) new_events_def)
  have a: "map (\<lambda>m. Some (m_chatId m)) (message_inserts (new_events w w1))
        = [chatId req, chatId req]"
    by (simp add: ne message_inserts_quiet [OF es(2)])
       (simp add: message_inserts_def user_message_row_def ai_message_row_def cid)
  have b: "map c_id (Chats w1) = map c_id (Chats w)"
    "map c_userId (Chats w1) = map c_userId (Chats w)"
    "map c_workspaceId (Chats w1) = map c_workspaceId (Chats w)"
    by (simp_all add: 1(8) chats bump_chat_def comp_def)
  from a b show ?thesis by simp
qed

lemma defaultTitle_workspaceId:
  "defaultTitle (req\<lparr>workspaceId := x\<rparr>) = defaultTitle req"
  by (simp add: defaultTitle_def split: list.splits)

lemma build_user_content_workspaceId:
  "build_user_content env (req\<lparr>workspaceId := x\<rparr>) = build_user_content env req"
  by (simp add: build_user_content_def Let_def split: option.splits)

lemma after_completion_workspaceId:
  "after_completion env (req\<lparr>workspaceId := x\<rparr>) = after_completion env req"
  by (simp add: after_completion_def ai_message_row_def fun_eq_iff split: sum.splits)

lemma workspaceId_irrelevant:
  "validate_request (req\<lparr>workspaceId := x\<rparr>) = validate_request req"
  "ensure_user env (req\<lparr>workspaceId := x\<rparr>) = ensure_user env req"
  "resolve_chat env (req\<lparr>workspaceId := x\<rparr>) = resolve_chat env req"
  "converse env (req\<lparr>workspaceId := x\<rparr>) = converse env req"
  by (simp_all add: validate_request_def ensure_user_def mock_email_def mock_user_row_def
        resolve_chat_def new_chat_row_def defaultTitle_workspaceId converse_def
        user_message_row_def after_completion_workspaceId fun_eq_iff)

lemma create_default_workspace_ok:
  assumes "userId req \<in> set (map u_id (Users w))"
    and "defaultWorkspaceId (uuid env) \<notin> set (map w_id (Workspaces w))"
  shows "create_default_workspace env req w
     = (Inr (defaultWorkspaceId (uuid env)),
        w\<lparr>Workspaces := Workspaces w @ [default_workspace_row env req],
          trace := trace w @ [InsertWorkspace (default_workspace_row env req)]\<rparr>)"
  using assms
  by (simp add: create_default_workspace_def io_bind_def sql_insert_workspace_def
        default_workspace_row_def io_return_def)

lemma resolve_workspace_total:
  assumes usr: "userId req \<in> set (map u_id (Users w))"
    and fresh: "defaultWorkspaceId (uuid env) \<notin> set (map w_id (Workspaces w))"
  obtains ws wb where "resolve_workspace env req w = (Inr ws, wb)"
    "Users wb = Users w" "Chats wb = Chats w" "Messages wb = Messages w"
    "ws \<in> set (map w_id (Workspaces wb))"
proof -
  obtain res wb where r: "resolve_workspace env req w = (res, wb)" by force
  note cd = create_default_workspace_ok [OF usr fresh]
  from r show ?thesis
  proof (cases rule: resolve_workspace_cases)
    case (raise e)
    have "\<exists>ws wb. resolve_workspace env req w = (Inr ws, wb)"
      by (simp add: resolve_workspace_def cd io_return_def split: option.splits list.splits)
    with r raise show ?thesis by simp
  next
    case (existing x)
    with r that show ?thesis by force
  next
    case created
    with r that [of "defaultWorkspaceId (uuid env)" wb] show ?thesis
      by (simp add: default_workspace_row_def)
  qed
qed

lemma resolve_chat_sim:
  assumes "Users wb' = Users wb" "Chats wb' = Chats wb" "Messages wb' = Messages wb"
    and "ws \<in> set (map w_id (Workspaces wb))" "ws' \<in> set (map w_id (Workspaces wb'))"
  shows "fst (resolve_chat env req ws' wb') = fst (resolve_chat env req ws wb)
    \<and> Users (snd (resolve_chat env req ws' wb')) = Users (snd (resolve_chat env req ws wb))
    \<and> Messages (snd (resolve_chat env req ws' wb')) = Messages (snd (resolve_chat env req ws wb))
    \<and> map c_id (Chats (snd (resolve_chat env req ws' wb')))
        = map c_id (Chats (snd (resolve_chat env req ws wb)))"
  using assms
  by (simp add: resolve_chat_def sql_insert_chat_def io_bind_def io_return_def io_raise_def
        new_chat_row_def)

lemma converse_sim:
  assumes u: "Users w' = Users w" and m: "Messages w' = Messages w"
    and c: "map c_id (Chats w') = map c_id (Chats w)"
  shows "fst (converse env req cid content w') = fst (converse env req cid content w)"
proof -
  from c have cs: "c_id ` set (Chats w') = c_id ` set (Chats w)"
    by (metis set_map)
  have h: "completion_messages env cid content
             (w'\<lparr>Messages := Messages w @ [user_message_row env req cid content],
                 trace := trace w' @ [InsertMessage (user_message_row env req cid content)]\<rparr>)
         = completion_messages env cid content
             (w\<lparr>Messages := Messages w @ [user_message_row env req cid content],
                trace := trace w @ [InsertMessage (user_message_row env req cid content)]\<rparr>)"
    by (simp add: completion_messages_def chat_history_def)
  show ?thesis
    using u m cs h
    by (simp add: converse_def io_bind_def sql_insert_message_def io_raise_def
          call_chat_completion_def after_completion_def sql_update_chat_counters_def
          io_respond_def io_return_def user_message_row_def ai_message_row_def
        split: sum.splits)
qed

lemma message_steps_workspaceId:
  assumes fresh: "defaultWorkspaceId (uuid env) \<notin> set (map w_id (Workspaces w))"
  shows "fst (message_steps env (req\<lparr>workspaceId := x\<rparr>) w) = fst (message_steps env req w)"
proof -
  let ?req' = "req\<lparr>workspaceId := x\<rparr>"
  obtain res wa where u: "ensure_user env req w = (res, wa)" by force
  show ?thesis
  proof (cases res)
    case (Inl a)
    with u show ?thesis
      by (simp add: message_steps_def io_bind_def workspaceId_irrelevant)
  next
    case (Inr unit)
    with u have u1: "ensure_user env req w = (Inr unit, wa)" by simp
    have usr: "userId req \<in> set (map u_id (Users wa))" by (rule ensure_user_exists [OF u1])
    from u obtain es where "Workspaces wa = Workspaces w" by (rule ensure_user_frame)
    with fresh have fresh_a: "defaultWorkspaceId (uuid env) \<notin> set (map w_id (Workspaces wa))"
      by simp
    from usr fresh_a obtain ws wb where 1: "resolve_workspace env req wa = (Inr ws, wb)"
      "Users wb = Users wa" "Chats wb = Chats wa" "Messages wb = Messages wa"
      "ws \<in> set (map w_id (Workspaces wb))"
      by (rule resolve_workspace_total)
    have usr': "userId ?req' \<in> set (map u_id (Users wa))" using usr by simp
    from usr' fresh_a obtain ws' wb' where 2: "resolve_workspace env ?req' wa = (Inr ws', wb')"
      "Users wb' = Users wa" "Chats wb' = Chats wa" "Messages wb' = Messages wa"
      "ws' \<in> set (map w_id (Workspaces wb'))"
      by (rule resolve_workspace_total)
    obtain rc wc where c: "resolve_chat env req ws wb = (rc, wc)" by force
    obtain rc' wc' where c': "resolve_chat env req ws' wb' = (rc', wc')" by force
    from resolve_chat_sim [of wb' wb ws ws' env req] 1 2 c c'
    have sim: "rc' = rc" "Users wc' = Users wc" "Messages wc' = Messages wc"
      "map c_id (Chats wc') = map c_id (Chats wc)" by simp_all
    have lhs: "message_steps env ?req' w =
      (case rc of Inl a \<Rightarrow> (Inl a, wc')
       | Inr cid \<Rightarrow> (if build_user_content env req = [] then io_respond required_response
                     else converse env req cid (build_user_content env req)) wc')"
      using u1 2(1) c' sim(1)
      by (simp add: message_steps_def io_bind_def workspaceId_irrelevant
            build_user_content_workspaceId split: sum.splits)
    have rhs: "message_steps env req w =
      (case rc of Inl a \<Rightarrow> (Inl a, wc)
       | Inr cid \<Rightarrow> (if build_user_content env req = [] then io_respond required_response
                     else converse env req cid (build_user_content env req)) wc)"
      using u1 1(1) c
      by (simp add: message_steps_def io_bind_def split: sum.splits)
    show ?thesis
      unfolding lhs rhs
      using converse_sim [OF sim(2,3,4)]
      by (simp add: io_respond_def split: sum.splits)
  qed
qed

lemma post_message_workspaceId:
  assumes fresh: "defaultWorkspaceId (uuid env) \<notin> set (map w_id (Workspaces w))"
  shows "fst (post_message env (req\<lparr>workspaceId := x\<rparr>) w) = fst (post_message env req w)"
proof -
  from message_steps_workspaceId [OF fresh, where req = req and x = x]
  obtain res w1 w2 where "message_steps env (req\<lparr>workspaceId := x\<rparr>) w = (res, w1)"
    "message_steps env req w = (res, w2)"
    by (metis prod.collapse)
  then show ?thesis
    by (simp add: post_message_def workspaceId_irrelevant
        split: option.splits sum.splits abort.splits)
qed

lemma workspaces_after_run:
  assumes run: "post_message env req w = (r, w1)" and ok: "status r = 200"
  shows "Workspaces w1 = Workspaces w
    \<or> Workspaces w1 = Workspaces w @
          [\<lparr>w_id = defaultWorkspaceId (uuid env), w_name = ''Default Workspace'',
            w_description = ''Auto-created default workspace'', w_color = ''#3B82F6'',
            w_ownerId = userId req, w_createdAt = now env, w_updatedAt = now env\<rparr>]"
  using run ok
proof (cases rule: post_message_ok_run)
  case (1 wa wb wc ws cid reply)
  from 1(2,3,4) obtain es where es: "Workspaces wc = Workspaces wb" "Workspaces wa = Workspaces w"
    by (rule prelude)
  from 1(3) have "Workspaces wb = Workspaces wa
      \<or> Workspaces wb = Workspaces wa @ [default_workspace_row env req]"
    by (cases rule: resolve_workspace_cases) auto
  with es show ?thesis by (auto simp: 1(8) default_workspace_row_def)
qed

text \<open>
  C3, amended. Provided the identifier drawn for a default workspace is not already a key
  of \<open>Workspaces\<close>, the response does not depend on the \<open>workspaceId\<close> of the request, so
  no request is rejected on its account. When a request without \<open>chatId\<close> succeeds, both
  messages go to the new chat, and that chat belongs to the user and is in a workspace
  the user owns, the one the specification describes: the given workspace if it is
  well-formed and owned by the user, else the user's first workspace or a new
  \<open>Default Workspace\<close> (absent or ill-formed identifier), else a new \<open>Default Workspace\<close>.
  When a request with a \<open>chatId\<close> succeeds, both messages go to the named chat, no chat
  is created and no chat changes its owner or its workspace: the resolved workspace is
  not applied to the named chat. In both cases no workspace other than the
  \<open>Default Workspace\<close> is created.
\<close>

theorem workspace_repair_for_new_chats:
  assumes run: "post_message env req w = (r, w1)"
  shows "(defaultWorkspaceId (uuid env) \<notin> set (map w_id (Workspaces w)) \<longrightarrow>
            fst (post_message env (req\<lparr>workspaceId := x\<rparr>) w) = r)
       \<and> (status r = 200 \<and> \<not> truthy (chatId req) \<longrightarrow>
            map m_chatId (message_inserts (new_events w w1))
              = [newChatId (uuid env), newChatId (uuid env)]
          \<and> (\<exists>c \<in> set (Chats w1). c_id c = newChatId (uuid env) \<and> c_userId c = userId req
                 \<and> c_workspaceId c = Some (spec_workspace_choice env req w))
          \<and> (\<exists>x \<in> set (Workspaces w1). w_id x = spec_workspace_choice env req w
                 \<and> w_ownerId x = userId req)
          \<and> chat_in_owned_workspace w1 (userId req) (newChatId (uuid env))
          \<and> (Workspaces w1 = Workspaces w
              \<or> Workspaces w1 = Workspaces w @
                   [\<lparr>w_id = defaultWorkspaceId (uuid env), w_name = ''Default Workspace'',
                     w_description = ''Auto-created default workspace'', w_color = ''#3B82F6'',
                     w_ownerId = userId req, w_createdAt = now env, w_updatedAt = now env\<rparr>]))
       \<and> (status r = 200 \<and> truthy (chatId req) \<longrightarrow>
            map (\<lambda>m. Some (m_chatId m)) (message_inserts (new_events w w1))
              = [chatId req, chatId req]
          \<and> map c_id (Chats w1) = map c_id (Chats w)
          \<and> map c_userId (Chats w1) = map c_userId (Chats w)
          \<and> map c_workspaceId (Chats w1) = map c_workspaceId (Chats w)
          \<and> (Workspaces w1 = Workspaces w
              \<or> Workspaces w1 = Workspaces w @
                   [\<lparr>w_id = defaultWorkspaceId (uuid env), w_name = ''Default Workspace'',
                     w_description = ''Auto-created default workspace'', w_color = ''#3B82F6'',
                     w_ownerId = userId req, w_createdAt = now env, w_updatedAt = now env\<rparr>]))"
proof (intro conjI impI)
  assume "defaultWorkspaceId (uuid env) \<notin> set (map w_id (Workspaces w))"
  from post_message_workspaceId [OF this, where req = req and x = x] run
  show "fst (post_message env (req\<lparr>workspaceId := x\<rparr>) w) = r" by simp
next
  assume a: "status r = 200 \<and> \<not> truthy (chatId req)"
  then have ok: "status r = 200" and new: "\<not> truthy (chatId req)" by simp_all
  note p = new_chat_placed [OF run ok new]
  from p show "map m_chatId (message_inserts (new_events w w1))
              = [newChatId (uuid env), newChatId (uuid env)]" by simp
  from p show c: "\<exists>c \<in> set (Chats w1). c_id c = newChatId (uuid env) \<and> c_userId c = userId req
                 \<and> c_workspaceId c = Some (spec_workspace_choice env req w)" by simp
  from p show x: "\<exists>x \<in> set (Workspaces w1). w_id x = spec_workspace_choice env req w
                 \<and> w_ownerId x = userId req" by simp
  from c x show "chat_in_owned_workspace w1 (userId req) (newChatId (uuid env))"
    unfolding chat_in_owned_workspace_def list_ex_iff by force
  from workspaces_after_run [OF run ok]
  show "Workspaces w1 = Workspaces w
              \<or> Workspaces w1 = Workspaces w @
                   [\<lparr>w_id = defaultWorkspaceId (uuid env), w_name = ''Default Workspace'',
                     w_description = ''Auto-created default workspace'', w_color = ''#3B82F6'',
                     w_ownerId = userId req, w_createdAt = now env, w_updatedAt = now env\<rparr>]" .
next
  assume a: "status r = 200 \<and> truthy (chatId req)"
  then have ok: "status r = 200" and named: "truthy (chatId req)" by simp_all
  note p = named_chat_kept [OF run ok named]
  from p show "map (\<lambda>m. Some (m_chatId m)) (message_inserts (new_events w w1))
              = [chatId req, chatId req]" by simp
  from p show "map c_id (Chats w1) = map c_id (Chats w)" by simp
  from p show "map c_userId (Chats w1) = map c_userId (Chats w)" by simp
  from p show "map c_workspaceId (Chats w1) = map c_workspaceId (Chats w)" by simp
  from workspaces_after_run [OF run ok]
  show "Workspaces w1 = Workspaces w
              \<or> Workspaces w1 = Workspaces w @
                   [\<lparr>w_id = defaultWorkspaceId (uuid env), w_name = ''Default Workspace'',
                     w_description = ''Auto-created default workspace'', w_color = ''#3B82F6'',
                     w_ownerId = userId req, w_createdAt = now env, w_updatedAt = now env\<rparr>]" .
qed

theorem workspace_repair_for_new_chats_witness:
  "defaultWorkspaceId (uuid prod_env) \<notin> set (map w_id (Workspaces sample_world))
   \<and> status (fst (post_message prod_env foreign_workspace_request sample_world)) = 200
   \<and> \<not> truthy (chatId foreign_workspace_request)
   \<and> fst (post_message prod_env (foreign_workspace_request\<lparr>workspaceId := Some ''nonsense''\<rparr>)
          sample_world)
       = fst (post_message prod_env foreign_workspace_request sample_world)
   \<and> workspaceId foreign_workspace_request = Some (w_id ws_bob)
   \<and> spec_workspace_choice prod_env foreign_workspace_request sample_world
       = defaultWorkspaceId sample_uuids
   \<and> chat_in_owned_workspace (snd (post_message prod_env foreign_workspace_request sample_world))
        ''u1'' (newChatId sample_uuids)
   \<and> status (fst (post_message prod_env unfiled_request sample_world)) = 200
   \<and> truthy (chatId unfiled_request)
   \<and> map (\<lambda>m. Some (m_chatId m)) (message_inserts (new_events sample_world
         (snd (post_message prod_env unfiled_request sample_world))))
       = [Some (c_id chat_unfiled), Some (c_id chat_unfiled)]
   \<and> map c_workspaceId (Chats (snd (post_message prod_env unfiled_request sample_world)))
       = [c_workspaceId chat_alice, c_workspaceId chat_bob, None]"
proof -
  have fresh: "defaultWorkspaceId (uuid prod_env) \<notin> set (map w_id (Workspaces sample_world))"
    by code_simp
  have ok: "status (fst (post_message prod_env foreign_workspace_request sample_world)) = 200"
    by code_simp
  have new: "\<not> truthy (chatId foreign_workspace_request)"
    by code_simp
  have given: "workspaceId foreign_workspace_request = Some (w_id ws_bob)"
    by code_simp
  have choice: "spec_workspace_choice prod_env foreign_workspace_request sample_world
       = defaultWorkspaceId sample_uuids"
    by code_simp
  have vals: "userId foreign_workspace_request = ''u1''"
    "newChatId (uuid prod_env) = newChatId sample_uuids"
    by (simp_all add: foreign_workspace_request_def hi_request_def prod_env_def)
  have ok2: "status (fst (post_message prod_env unfiled_request sample_world)) = 200"
    by code_simp
  have named: "truthy (chatId unfiled_request)"
    "chatId unfiled_request = Some (c_id chat_unfiled)"
    by (simp_all add: unfiled_request_def hi_request_def truthy_def chat_unfiled_def)
  have before: "map c_workspaceId (Chats sample_world)
      = [c_workspaceId chat_alice, c_workspaceId chat_bob, None]"
    by (simp add: sample_world_def chat_unfiled_def)
  show ?thesis
    using workspace_repair_for_new_chats [OF prod.collapse [symmetric],
        where env = prod_env and req = foreign_workspace_request and w = sample_world
          and x = "Some ''nonsense''"]
      workspace_repair_for_new_chats [OF prod.collapse [symmetric],
        where env = prod_env and req = unfiled_request and w = sample_world
          and x = "Some ''nonsense''"]
      fresh ok new given choice vals ok2 named before
    by simp
qed

end
